(* ===== verification/Prelude.thy ===== *)
theory Prelude
  imports Complex_Main "HOL-Library.Sublist"
begin

text \<open>
  Shared vocabulary of the pafy development: the fact collections the component
  theories feed, decimal printing and parsing of numbers (Python's \<open>str\<close> of an
  \<open>int\<close>), the sequential execution of Python statements that may raise
  (\<open>run_stmts\<close>: an exception stops the block and keeps the effects of the
  statements before it), a bind on the error sum, and generic lemmas on lists,
  prefixes and association lists.
\<close>

named_theorems py_eval "equations evaluating the Python value model"
named_theorems model_inv "facts used to re-establish the invariants of the model"

subsection \<open>Binding on the error sum\<close>

definition ebind :: "'e + 'a \<Rightarrow> ('a \<Rightarrow> 'e + 'b) \<Rightarrow> 'e + 'b" where
  "ebind r f = (case r of Inl e \<Rightarrow> Inl e | Inr a \<Rightarrow> f a)"

lemma ebind_Inl [simp]: "ebind (Inl e) f = Inl e"
  by (simp add: ebind_def)

lemma ebind_Inr [simp]: "ebind (Inr a) f = f a"
  by (simp add: ebind_def)

lemma ebind_eq_Inr:
  "ebind r f = Inr b \<longleftrightarrow> (\<exists>a. r = Inr a \<and> f a = Inr b)"
  by (cases r) auto

lemma ebind_eq_Inl:
  "ebind r f = Inl e \<longleftrightarrow> r = Inl e \<or> (\<exists>a. r = Inr a \<and> f a = Inl e)"
  by (cases r) auto

subsection \<open>Blocks of statements that may raise\<close>

text \<open>
  A Python statement either raises, leaving the state as it was when it started
  (an assignment evaluates its right-hand side before it stores anything), or
  completes with a new state. A block runs its statements in order and stops at
  the first exception, keeping what the earlier statements did.
\<close>

fun run_stmts :: "('s \<Rightarrow> 'e + 's) list \<Rightarrow> 's \<Rightarrow> 'e option \<times> 's" where
  "run_stmts [] s = (None, s)"
| "run_stmts (f # fs) s = (case f s of Inl e \<Rightarrow> (Some e, s) | Inr s' \<Rightarrow> run_stmts fs s')"

lemma run_stmts_append:
  "run_stmts (fs @ gs) s =
     (case run_stmts fs s of (None, s') \<Rightarrow> run_stmts gs s' | (Some e, s') \<Rightarrow> (Some e, s'))"
  by (induction fs arbitrary: s) (auto split: sum.splits)

lemma run_stmts_preserves:
  assumes "P s"
    and "\<And>f s s'. f \<in> set fs \<Longrightarrow> P s \<Longrightarrow> f s = Inr s' \<Longrightarrow> P s'"
  shows "P (snd (run_stmts fs s))"
  using assms by (induction fs arbitrary: s) (auto split: sum.splits)

lemma run_stmts_post:
  assumes "run_stmts (pre @ f # post) s = (None, s')"
    and "\<And>t t'. run_stmts pre s = (None, t) \<Longrightarrow> f t = Inr t' \<Longrightarrow> Q t'"
    and "\<And>g t t'. g \<in> set post \<Longrightarrow> Q t \<Longrightarrow> g t = Inr t' \<Longrightarrow> Q t'"
  shows "Q s'"
proof -
  obtain s1 where s1: "run_stmts pre s = (None, s1)" and rest: "run_stmts (f # post) s1 = (None, s')"
    using assms(1) by (auto simp: run_stmts_append split: prod.splits option.splits)
  then obtain t where t: "f s1 = Inr t" and "run_stmts post t = (None, s')"
    by (auto split: sum.splits)
  moreover have "Q t" using s1 t assms(2) by blast
  ultimately show ?thesis
    using run_stmts_preserves [of Q t post] assms(3) by auto
qed

lemma run_stmts_snoc_None:
  "run_stmts (fs @ [f]) s = (None, s') \<longleftrightarrow> (\<exists>s1. run_stmts fs s = (None, s1) \<and> f s1 = Inr s')"
  by (auto simp: run_stmts_append split: prod.splits option.splits sum.splits)

lemma run_stmts_nth_post:
  assumes "run_stmts fs s = (None, s')" and "k < length fs"
    and "\<And>t t'. run_stmts (take k fs) s = (None, t) \<Longrightarrow> (fs ! k) t = Inr t' \<Longrightarrow> Q t'"
    and "\<And>g t t'. g \<in> set (drop (Suc k) fs) \<Longrightarrow> Q t \<Longrightarrow> g t = Inr t' \<Longrightarrow> Q t'"
  shows "Q s'"
proof -
  have "fs = take k fs @ fs ! k # drop (Suc k) fs"
    using assms(2) by (simp add: id_take_nth_drop)
  with assms(1) have "run_stmts (take k fs @ fs ! k # drop (Suc k) fs) s = (None, s')" by simp
  then show ?thesis using assms(3,4) by (rule run_stmts_post)
qed

lemma run_stmts_Cons_None:
  "run_stmts (f # fs) s = (None, s') \<longleftrightarrow> (\<exists>t. f s = Inr t \<and> run_stmts fs t = (None, s'))"
  by (auto split: sum.splits)

lemma run_stmts_Nil_None: "run_stmts [] s = (None, s') \<longleftrightarrow> s' = s"
  by auto

lemma run_stmts_snoc_total:
  assumes "\<And>t. \<exists>t'. f t = Inr t'" and "run_stmts (fs @ [f]) s = (Some e, s')"
  shows "run_stmts fs s = (Some e, s')"
proof -
  have split: "run_stmts (fs @ [f]) s =
      (case run_stmts fs s of (None, s1) \<Rightarrow> run_stmts [f] s1 | (Some e, s1) \<Rightarrow> (Some e, s1))"
    by (rule run_stmts_append)
  show ?thesis
  proof (cases "run_stmts fs s")
    case (Pair r s1)
    show ?thesis
    proof (cases r)
      case None
      obtain t' where "f s1 = Inr t'" using assms(1) by blast
      with assms(2) Pair None show ?thesis unfolding split by simp
    next
      case (Some e')
      with assms(2) Pair show ?thesis unfolding split by simp
    qed
  qed
qed

lemma run_stmts_None_iff:
  "fst (run_stmts fs s) = None \<longleftrightarrow> (\<exists>s'. run_stmts fs s = (None, s'))"
  by (cases "run_stmts fs s") auto

subsection \<open>Decimal numbers\<close>

text \<open>Python's \<open>str\<close> of a non-negative \<open>int\<close>: most significant digit first.\<close>

fun decimal :: "nat \<Rightarrow> string" where
  "decimal n =
     (let d = char_of (n mod 10 + 48) in if n \<le> 9 then [d] else decimal (n div 10) @ [d])"

declare decimal.simps [simp del]

definition is_digit :: "char \<Rightarrow> bool" where
  "is_digit c \<longleftrightarrow> 48 \<le> (of_char c :: nat) \<and> (of_char c :: nat) \<le> 57"

definition digit_value :: "char \<Rightarrow> nat" where
  "digit_value c = of_char c - 48"

definition parse_decimal :: "string \<Rightarrow> nat" where
  "parse_decimal s = foldl (\<lambda>acc c. 10 * acc + digit_value c) 0 s"

lemma decimal_digit_char:
  "is_digit (char_of (n mod 10 + 48)) \<and> digit_value (char_of (n mod 10 + 48)) = n mod 10"
proof -
  have "n mod 10 + 48 < (256::nat)" by simp
  then have "of_char (char_of (n mod 10 + 48) :: char) = n mod 10 + 48"
    by (simp only: of_char_of) simp
  then show ?thesis by (simp add: is_digit_def digit_value_def)
qed

lemma decimal_ne [simp]: "decimal n \<noteq> []"
  by (subst decimal.simps) (simp add: Let_def)

lemma decimal_digits: "c \<in> set (decimal n) \<Longrightarrow> is_digit c"
proof (induction n rule: decimal.induct)
  case (1 n)
  then show ?case
    using decimal_digit_char [of n]
    by (cases "n \<le> 9") (auto simp: decimal.simps [of n] Let_def)
qed

lemma decimal_hd_last_digit: "is_digit (hd (decimal n)) \<and> is_digit (last (decimal n))"
  using decimal_digits [of "hd (decimal n)" n] decimal_digits [of "last (decimal n)" n]
  by (simp add: hd_in_set last_in_set)

lemma parse_decimal_snoc:
  "parse_decimal (s @ [c]) = 10 * parse_decimal s + digit_value c"
  by (simp add: parse_decimal_def)

theorem parse_decimal_decimal [simp]: "parse_decimal (decimal n) = n"
proof (induction n rule: decimal.induct)
  case (1 n)
  show ?case
  proof (cases "n \<le> 9")
    case True
    then show ?thesis
      using decimal_digit_char [of n]
      by (simp add: decimal.simps [of n] parse_decimal_def)
  next
    case False
    then have "parse_decimal (decimal n) = 10 * (n div 10) + n mod 10"
      using "1" decimal_digit_char [of n]
      by (simp add: decimal.simps [of n] Let_def parse_decimal_snoc)
    then show ?thesis by simp
  qed
qed

lemma decimal_inj: "decimal m = decimal n \<Longrightarrow> m = n"
  by (metis parse_decimal_decimal)

lemma is_digit_not [simp]:
  "\<not> is_digit (CHR ''x'')" "\<not> is_digit (CHR ''-'')" "\<not> is_digit (CHR ''k'')"
  by (simp_all add: is_digit_def)

subsection \<open>Lists and strings\<close>

text \<open>Python's \<open>sep.join(xs)\<close>.\<close>

fun join_sep :: "string \<Rightarrow> string list \<Rightarrow> string" where
  "join_sep sep [] = []"
| "join_sep sep [x] = x"
| "join_sep sep (x # y # zs) = x @ sep @ join_sep sep (y # zs)"

text \<open>Splitting a string at the first occurrence of a separator character.\<close>

lemma split_at_char:
  assumes "c \<notin> set a" and "c \<notin> set a'"
    and "a @ c # b = a' @ c # b'"
  shows "a = a' \<and> b = b'"
  using assms
proof (induction a arbitrary: a')
  case Nil
  then show ?case by (cases a') auto
next
  case (Cons x a)
  then show ?case by (cases a') auto
qed

lemma filter_partition_length:
  "length (filter P xs) + length (filter (\<lambda>x. \<not> P x) xs) = length xs"
  by (induction xs) auto

lemma map_of_append_new:
  "k \<notin> fst ` set d \<Longrightarrow> map_of (d @ [(k, v)]) = (map_of d)(k \<mapsto> v)"
  by (induction d) (auto simp: fun_eq_iff)

end
