(* ===== verification/Python.thy ===== *)
theory Python
  imports Prelude
begin

text \<open>
  The fragment of Python's data model that the pafy backend touches. The info
  dictionaries that the extraction backend (yt-dlp) returns are JSON values:
  \<open>pyval\<close> has Python's \<open>None\<close>, \<open>bool\<close>, \<open>int\<close>, \<open>str\<close>, \<open>list\<close> and \<open>dict\<close>
  (string keys, in insertion order, as an association list). Floats are not
  modelled. Every builtin the backend applies to such values is a function that
  returns \<open>Inl\<close> of the exception Python raises: subscripting (\<open>d[k]\<close>,
  \<open>xs[i]\<close>), \<open>d.get(k, default)\<close>, truthiness and \<open>or\<close>, \<open>str()\<close>,
  multiplication by an int, iteration, \<open>str.startswith\<close>, \<open>str.replace\<close> and
  \<open>dict.update\<close>. Strings are byte strings (\<open>char\<close> is a byte), so lengths count
  bytes where Python counts code points.
\<close>

datatype pyval =
    PyNone
  | PyBool bool
  | PyInt int
  | PyStr string
  | PyList "pyval list"
  | PyDict "(string \<times> pyval) list"

type_synonym pydict = "(string \<times> pyval) list"

datatype error =
    KeyError pyval
  | IndexError
  | TypeError
  | AttributeError string
  | ZeroDivisionError
  | IOError string
  | TransferError string
  | RemuxError string
  | OSError string
  | NameError string

subsection \<open>Truthiness\<close>

fun py_truthy :: "pyval \<Rightarrow> bool" where
  "py_truthy PyNone = False"
| "py_truthy (PyBool b) = b"
| "py_truthy (PyInt i) = (i \<noteq> 0)"
| "py_truthy (PyStr s) = (s \<noteq> [])"
| "py_truthy (PyList xs) = (xs \<noteq> [])"
| "py_truthy (PyDict d) = (d \<noteq> [])"

text \<open>\<open>a or b\<close>: \<open>a\<close> when it is truthy, else \<open>b\<close>.\<close>

definition py_or :: "pyval \<Rightarrow> pyval \<Rightarrow> pyval" where
  "py_or a b = (if py_truthy a then a else b)"

subsection \<open>Subscripting and \<open>dict.get\<close>\<close>

text \<open>\<open>v[k]\<close> with a string key: only a dict can be subscripted by a string.\<close>

fun py_getitem :: "pyval \<Rightarrow> string \<Rightarrow> error + pyval" where
  "py_getitem (PyDict d) k = (case map_of d k of None \<Rightarrow> Inl (KeyError (PyStr k)) | Some v \<Rightarrow> Inr v)"
| "py_getitem _ k = Inl TypeError"

text \<open>\<open>v[i]\<close> with an integer index; negative indices count from the end.\<close>

definition py_seq_index :: "'a list \<Rightarrow> int \<Rightarrow> error + 'a" where
  "py_seq_index xs i =
     (let k = (if 0 \<le> i then i else i + int (length xs))
      in if k < 0 \<or> int (length xs) \<le> k then Inl IndexError else Inr (xs ! nat k))"

fun py_index :: "pyval \<Rightarrow> int \<Rightarrow> error + pyval" where
  "py_index (PyList xs) i = py_seq_index xs i"
| "py_index (PyStr s) i = ebind (py_seq_index s i) (\<lambda>c. Inr (PyStr [c]))"
| "py_index (PyDict d) i = Inl (KeyError (PyInt i))"
| "py_index _ i = Inl TypeError"

text \<open>\<open>v.get(k, default)\<close>: only dicts have \<open>get\<close>.\<close>

definition dget :: "pydict \<Rightarrow> string \<Rightarrow> pyval \<Rightarrow> pyval" where
  "dget d k dflt = (case map_of d k of None \<Rightarrow> dflt | Some v \<Rightarrow> v)"

fun py_get :: "pyval \<Rightarrow> string \<Rightarrow> pyval \<Rightarrow> error + pyval" where
  "py_get (PyDict d) k dflt = Inr (dget d k dflt)"
| "py_get _ k dflt = Inl (AttributeError ''get'')"

text \<open>\<open>k in v\<close> for a string \<open>k\<close>: a key of a dict, an item of a list, a substring of a string.\<close>

fun py_contains :: "pyval \<Rightarrow> string \<Rightarrow> error + bool" where
  "py_contains (PyDict d) k = Inr (k \<in> fst ` set d)"
| "py_contains (PyList xs) k = Inr (PyStr k \<in> set xs)"
| "py_contains (PyStr s) k = Inr (sublist k s)"
| "py_contains _ k = Inl TypeError"

subsection \<open>\<open>str()\<close>\<close>

definition int_decimal :: "int \<Rightarrow> string" where
  "int_decimal i = (if i < 0 then CHR ''-'' # decimal (nat (- i)) else decimal (nat i))"

definition hex_digit :: "nat \<Rightarrow> char" where
  "hex_digit n = (if n < 10 then char_of (48 + n) else char_of (87 + n))"

text \<open>
  The escape \<open>repr\<close> gives one character of a string quoted with \<open>q\<close>: the quote
  and the backslash are escaped, tab, newline and return by name, the other control
  characters as \<open>\xNN\<close>.
\<close>

definition char_escape :: "char \<Rightarrow> char \<Rightarrow> string" where
  "char_escape q c =
     (let n = (of_char c :: nat) in
      if c = q \<or> n = 92 then [CHR 0x5C, c]
      else if n = 9 then [CHR 0x5C, CHR ''t'']
      else if n = 10 then [CHR 0x5C, CHR ''n'']
      else if n = 13 then [CHR 0x5C, CHR ''r'']
      else if n < 32 \<or> n = 127 then [CHR 0x5C, CHR ''x'', hex_digit (n div 16), hex_digit (n mod 16)]
      else [c])"

text \<open>\<open>repr\<close> of a string: single quotes unless the string holds a single quote and no double quote.\<close>

definition str_repr :: "string \<Rightarrow> string" where
  "str_repr s =
     (let q = (if CHR 0x27 \<in> set s \<and> CHR 0x22 \<notin> set s then CHR 0x22 else CHR 0x27)
      in q # concat (map (char_escape q) s) @ [q])"

fun py_repr :: "pyval \<Rightarrow> string" where
  "py_repr PyNone = ''None''"
| "py_repr (PyBool b) = (if b then ''True'' else ''False'')"
| "py_repr (PyInt i) = int_decimal i"
| "py_repr (PyStr s) = str_repr s"
| "py_repr (PyList xs) = CHR ''['' # join_sep '', '' (map py_repr xs) @ '']''"
| "py_repr (PyDict d) =
     CHR ''{'' # join_sep '', '' (map (\<lambda>kv. str_repr (fst kv) @ '': '' @ py_repr (snd kv)) d) @ ''}''"

text \<open>\<open>str(v)\<close> is the string itself for a string and \<open>repr\<close> for the rest.\<close>

fun py_str :: "pyval \<Rightarrow> string" where
  "py_str (PyStr s) = s"
| "py_str v = py_repr v"

subsection \<open>Arithmetic, iteration and string methods\<close>

text \<open>
  \<open>v * n\<close> for an int \<open>n\<close>: numbers multiply (a bool counts as 0 or 1), strings
  and lists repeat, \<open>None\<close> and dicts raise \<open>TypeError\<close>.
\<close>

fun py_mul_int :: "pyval \<Rightarrow> int \<Rightarrow> error + pyval" where
  "py_mul_int (PyInt i) n = Inr (PyInt (i * n))"
| "py_mul_int (PyBool b) n = Inr (PyInt (of_bool b * n))"
| "py_mul_int (PyStr s) n = Inr (PyStr (concat (replicate (nat n) s)))"
| "py_mul_int (PyList xs) n = Inr (PyList (concat (replicate (nat n) xs)))"
| "py_mul_int _ n = Inl TypeError"

text \<open>The number a value stands for in arithmetic (a bool is 0 or 1); \<open>None\<close> for a non-number.\<close>

fun py_num :: "pyval \<Rightarrow> rat option" where
  "py_num (PyInt i) = Some (of_int i)"
| "py_num (PyBool b) = Some (if b then 1 else 0)"
| "py_num _ = None"

text \<open>\<open>a * 1.0 / b\<close>: true division, \<open>TypeError\<close> on a non-number, \<open>ZeroDivisionError\<close> on 0.\<close>

definition py_true_div :: "pyval \<Rightarrow> pyval \<Rightarrow> error + rat" where
  "py_true_div a b =
     (case py_num a of
        None \<Rightarrow> Inl TypeError
      | Some x \<Rightarrow> (case py_num b of
                    None \<Rightarrow> Inl TypeError
                  | Some y \<Rightarrow> if y = 0 then Inl ZeroDivisionError else Inr (x / y)))"

text \<open>\<open>for x in v\<close>: a list yields its items, a string its characters, a dict its keys.\<close>

fun py_iter :: "pyval \<Rightarrow> error + pyval list" where
  "py_iter (PyList xs) = Inr xs"
| "py_iter (PyStr s) = Inr (map (\<lambda>c. PyStr [c]) s)"
| "py_iter (PyDict d) = Inr (map (\<lambda>kv. PyStr (fst kv)) d)"
| "py_iter _ = Inl TypeError"

fun py_startswith :: "pyval \<Rightarrow> string \<Rightarrow> error + bool" where
  "py_startswith (PyStr s) p = Inr (prefix p s)"
| "py_startswith _ p = Inl (AttributeError ''startswith'')"

text \<open>\<open>s.replace(old, new)\<close>: every occurrence, left to right, not overlapping.\<close>

fun replace_all :: "string \<Rightarrow> string \<Rightarrow> string \<Rightarrow> string" where
  "replace_all old new [] = []"
| "replace_all old new (c # s) =
     (if old \<noteq> [] \<and> prefix old (c # s)
      then new @ replace_all old new (drop (length old - 1) s)
      else c # replace_all old new s)"

text \<open>
  \<open>tmpl % arg\<close> with one string argument: the first \<open>%s\<close> takes the argument and
  \<open>%%\<close> is a literal percent sign. No \<open>%s\<close> raises \<open>TypeError\<close> (not all arguments
  converted), as does a second conversion (not enough arguments); conversions other
  than \<open>%s\<close> and \<open>%%\<close> are not modelled and raise too.
\<close>

fun percent_rest :: "string \<Rightarrow> error + string" where
  "percent_rest [] = Inr []"
| "percent_rest (c # cs) =
     (if c = CHR ''%'' then
        (case cs of d # ds \<Rightarrow> if d = CHR ''%'' then ebind (percent_rest ds) (\<lambda>r. Inr (c # r)) else Inl TypeError
         | [] \<Rightarrow> Inl TypeError)
      else ebind (percent_rest cs) (\<lambda>r. Inr (c # r)))"

fun percent_s :: "string \<Rightarrow> string \<Rightarrow> error + string" where
  "percent_s [] a = Inl TypeError"
| "percent_s (c # cs) a =
     (if c = CHR ''%'' then
        (case cs of d # ds \<Rightarrow>
            if d = CHR ''s'' then ebind (percent_rest ds) (\<lambda>r. Inr (a @ r))
            else if d = CHR ''%'' then ebind (percent_s ds a) (\<lambda>r. Inr (c # r))
            else Inl TypeError
         | [] \<Rightarrow> Inl TypeError)
      else ebind (percent_s cs a) (\<lambda>r. Inr (c # r)))"

text \<open>\<open>d.update(e)\<close>: keys of \<open>e\<close> already in \<open>d\<close> keep their position, new keys are appended.\<close>

definition dict_set :: "pydict \<Rightarrow> string \<Rightarrow> pyval \<Rightarrow> pydict" where
  "dict_set d k v =
     (if k \<in> fst ` set d then map (\<lambda>kv. if fst kv = k then (k, v) else kv) d else d @ [(k, v)])"

definition dict_update :: "pydict \<Rightarrow> pydict \<Rightarrow> pydict" where
  "dict_update d e = foldl (\<lambda>acc kv. dict_set acc (fst kv) (snd kv)) d e"

subsection \<open>Evaluation rules\<close>

lemma digit_chars [py_eval]:
  "char_of (48::nat) = CHR ''0''" "char_of (49::nat) = CHR ''1''" "char_of (50::nat) = CHR ''2''"
  "char_of (51::nat) = CHR ''3''" "char_of (52::nat) = CHR ''4''" "char_of (53::nat) = CHR ''5''"
  "char_of (54::nat) = CHR ''6''" "char_of (55::nat) = CHR ''7''" "char_of (56::nat) = CHR ''8''"
  "char_of (57::nat) = CHR ''9''"
  by code_simp+

lemmas py_str_eval [py_eval] = int_decimal_def decimal.simps dget_def

lemma py_getitem_Inr_dict: "py_getitem v k = Inr x \<Longrightarrow> \<exists>d. v = PyDict d \<and> map_of d k = Some x"
  by (cases v) (auto split: option.splits)

lemma py_getitem_dict_iff [simp]:
  "py_getitem (PyDict d) k = Inr x \<longleftrightarrow> map_of d k = Some x"
  by (auto split: option.splits)

lemma percent_rest_plain: "CHR ''%'' \<notin> set s \<Longrightarrow> percent_rest s = Inr s"
  by (induction s) auto

lemma percent_s_single:
  "CHR ''%'' \<notin> set pre \<Longrightarrow> CHR ''%'' \<notin> set post \<Longrightarrow>
   percent_s (pre @ ''%s'' @ post) a = Inr (pre @ a @ post)"
  by (induction pre) (auto simp: percent_rest_plain)

lemma py_contains_dict: "py_contains (PyDict d) k = Inr (map_of d k \<noteq> None)"
  by (simp add: map_of_eq_None_iff)

lemma py_or_truthy [simp]: "py_truthy a \<Longrightarrow> py_or a b = a"
  and py_or_falsy [simp]: "\<not> py_truthy a \<Longrightarrow> py_or a b = b"
  by (simp_all add: py_or_def)

lemma py_str_int: "0 \<le> i \<Longrightarrow> py_str (PyInt i) = decimal (nat i)"
  by (simp add: int_decimal_def)

lemma int_decimal_chars:
  "c \<in> set (int_decimal i) \<Longrightarrow> is_digit c \<or> c = CHR ''-''"
  by (auto simp: int_decimal_def split: if_splits dest: decimal_digits)

lemma int_decimal_no_x [simp]: "CHR ''x'' \<notin> set (int_decimal i)"
  using int_decimal_chars [of "CHR ''x''" i] by auto

lemma int_decimal_ne [simp]: "int_decimal i \<noteq> []"
  by (simp add: int_decimal_def)

lemma last_int_decimal: "is_digit (last (int_decimal i))"
  by (simp add: int_decimal_def decimal_hd_last_digit)

lemma int_decimal_inj:
  assumes "int_decimal i = int_decimal j"
  shows "i = j"
proof -
  have no_minus: "decimal n \<noteq> CHR ''-'' # t \<and> CHR ''-'' # t \<noteq> decimal n" for n t
    using decimal_hd_last_digit [of n] by (metis is_digit_not(2) list.sel(1))
  show ?thesis
  proof (cases "i < 0")
    case True
    then show ?thesis
      using assms no_minus decimal_inj [of "nat (- i)" "nat (- j)"]
      by (auto simp: int_decimal_def split: if_splits)
  next
    case False
    then show ?thesis
      using assms no_minus [of "nat i"] decimal_inj [of "nat i" "nat j"]
      by (auto simp: int_decimal_def split: if_splits)
  qed
qed

end
