(* ===== verification/Stream.thy ===== *)
theory Stream
  imports Python
begin

text \<open>
  \<open>YtdlStream\<close> (src/pafy/backend_youtube_dl.py, lines 107--147): one raw format
  descriptor of yt-dlp turned into a stream. \<open>ytdl_stream\<close> is the constructor
  \<open>__init__\<close> statement by statement, with the exceptions it can raise;
  \<open>media_of\<close> is its audio/video/normal classification and \<open>get_filesize\<close> the
  two-tier size lookup. The lemmas give the classification rule, the derived
  fields of every stream the constructor builds (\<open>stream_wf\<close>), the manifest-URL
  fallback, each error branch, and that the resolution string determines the
  dimensions.
\<close>

datatype mediatype = Audio | Video | Normal

record stream =
  itag :: pyval
  mediatype :: mediatype
  threed :: bool
  rawbitrate :: pyval
  resolution :: string
  dimensions :: "pyval \<times> pyval"
  bitrate :: string
  quality :: string
  extension :: pyval
  stream_notes :: pyval
  url :: pyval
  info :: pyval

definition manifest_prefix :: string where
  "manifest_prefix = ''https://manifest.googlevideo.com''"

text \<open>The \<open>if\<close>/\<open>elif\<close>/\<open>else\<close> of lines 112--117 on \<open>info.get("acodec")\<close> and \<open>info.get("vcodec")\<close>.\<close>

definition media_of :: "pyval \<Rightarrow> pyval \<Rightarrow> mediatype" where
  "media_of acodec vcodec =
     (if acodec \<noteq> PyStr ''none'' \<and> vcodec = PyStr ''none'' then Audio
      else if acodec = PyStr ''none'' \<and> vcodec \<noteq> PyStr ''none'' then Video
      else Normal)"

text \<open>Lines 134--135: the URL, replaced by \<open>fragment_base_url\<close> on a manifest host.\<close>

definition resolve_url :: "pyval \<Rightarrow> pyval \<Rightarrow> error + pyval" where
  "resolve_url fmt u =
     ebind (py_startswith u manifest_prefix) (\<lambda>manifest.
       if manifest then py_get fmt ''fragment_base_url'' u else Inr u)"

text \<open>
  \<open>YtdlStream.__init__\<close>, lines 108--137, in the order of its statements; the
  first statement that raises ends the constructor.
\<close>

definition ytdl_stream :: "pyval \<Rightarrow> error + stream" where
  "ytdl_stream fmt =
     ebind (py_getitem fmt ''format_id'') (\<lambda>tag.
     ebind (py_get fmt ''acodec'' PyNone) (\<lambda>ac.
     ebind (py_get fmt ''vcodec'' PyNone) (\<lambda>vc.
     ebind (py_get fmt ''format_note'' PyNone) (\<lambda>fnote.
     ebind (py_get fmt ''abr'' (PyInt 0)) (\<lambda>abr.
     ebind (py_mul_int abr 1024) (\<lambda>raw.
     ebind (py_get fmt ''height'' PyNone) (\<lambda>h.
     ebind (py_get fmt ''width'' PyNone) (\<lambda>w.
     ebind (py_get fmt ''abr'' (PyInt 0)) (\<lambda>abr'.
     ebind (py_getitem fmt ''ext'') (\<lambda>ext.
     ebind (py_get fmt ''format_note'' PyNone) (\<lambda>fnote'.
     ebind (py_get fmt ''url'' PyNone) (\<lambda>u.
     ebind (resolve_url fmt u) (\<lambda>u'.
       let mt = media_of ac vc;
           height = py_or h (PyInt 0);
           width = py_or w (PyInt 0);
           res = py_str width @ ''x'' @ py_str height;
           br = py_str abr' @ ''k''
       in Inr \<lparr>itag = tag, mediatype = mt, threed = (fnote = PyStr ''3D''),
               rawbitrate = raw, resolution = res, dimensions = (width, height),
               bitrate = br, quality = (if mt = Audio then br else res),
               extension = ext, stream_notes = py_or fnote' (PyStr ''''), url = u', info = fmt\<rparr>)))))))))))))"

text \<open>
  \<open>get_filesize\<close>, lines 139--147: the descriptor's \<open>filesize\<close> when it is there
  and not \<open>None\<close>, else the fallback of \<open>BaseStream\<close> (a network request, given
  as a parameter).
\<close>

definition get_filesize :: "(stream \<Rightarrow> error + pyval) \<Rightarrow> stream \<Rightarrow> error + pyval" where
  "get_filesize fallback s =
     ebind (py_contains (info s) ''filesize'') (\<lambda>present.
       if present then
         ebind (py_getitem (info s) ''filesize'') (\<lambda>fs.
           if fs \<noteq> PyNone then py_getitem (info s) ''filesize'' else fallback s)
       else fallback s)"

subsection \<open>The constructor on a dictionary\<close>

text \<open>
  Only a dict can be subscripted by \<open>"format_id"\<close>, so every other descriptor
  raises \<open>TypeError\<close> at once; on a dict every \<open>get\<close> succeeds and the
  constructor fails only at \<open>format_id\<close>, \<open>abr * 1024\<close>, \<open>ext\<close> or the URL.
\<close>

definition stream_of_dict :: "pydict \<Rightarrow> pyval \<Rightarrow> pyval \<Rightarrow> pyval \<Rightarrow> pyval \<Rightarrow> stream" where
  "stream_of_dict d tag raw ext u' =
     (let mt = media_of (dget d ''acodec'' PyNone) (dget d ''vcodec'' PyNone);
          height = py_or (dget d ''height'' PyNone) (PyInt 0);
          width = py_or (dget d ''width'' PyNone) (PyInt 0);
          res = py_str width @ ''x'' @ py_str height;
          br = py_str (dget d ''abr'' (PyInt 0)) @ ''k''
      in \<lparr>itag = tag, mediatype = mt, threed = (dget d ''format_note'' PyNone = PyStr ''3D''),
          rawbitrate = raw, resolution = res, dimensions = (width, height),
          bitrate = br, quality = (if mt = Audio then br else res),
          extension = ext, stream_notes = py_or (dget d ''format_note'' PyNone) (PyStr ''''),
          url = u', info = PyDict d\<rparr>)"

text \<open>
  What the constructor establishes between the fields of every stream it builds:
  the quality rule of line 127, the resolution string of line 124 over the
  dimensions of line 125 (each a truthy value or the default 0 of lines 122--123),
  the 3D flag of line 119 against the notes of line 132, the bitrate string of
  line 126, and the descriptor a dict holding the tag and extension.
\<close>

definition stream_wf :: "stream \<Rightarrow> bool" where
  "stream_wf s \<longleftrightarrow>
     quality s = (if mediatype s = Audio then bitrate s else resolution s) \<and>
     resolution s = py_str (fst (dimensions s)) @ ''x'' @ py_str (snd (dimensions s)) \<and>
     (py_truthy (fst (dimensions s)) \<or> fst (dimensions s) = PyInt 0) \<and>
     (py_truthy (snd (dimensions s)) \<or> snd (dimensions s) = PyInt 0) \<and>
     (threed s \<longrightarrow> stream_notes s = PyStr ''3D'') \<and>
     last (bitrate s) = CHR ''k'' \<and>
     (\<exists>d. info s = PyDict d \<and> map_of d ''format_id'' = Some (itag s) \<and>
          map_of d ''ext'' = Some (extension s))"

text \<open>A descriptor field that is absent, \<open>None\<close> or an int, read as the int the code prints (0 for the first two).\<close>

definition int_or_none :: "pyval \<Rightarrow> bool" where
  "int_or_none v \<longleftrightarrow> v = PyNone \<or> (\<exists>i. v = PyInt i)"

definition int_val :: "pyval \<Rightarrow> int" where
  "int_val v = (case v of PyInt i \<Rightarrow> i | _ \<Rightarrow> 0)"

subsection \<open>Example descriptors\<close>

text \<open>Descriptors of the shape yt-dlp returns, used to evaluate the lemmas below.\<close>

definition plain_url :: string where
  "plain_url = ''https://rr1.googlevideo.com/videoplayback''"

definition desc_vp9 :: pydict where
  "desc_vp9 = [(''format_id'', PyStr ''248''), (''acodec'', PyStr ''none''), (''vcodec'', PyStr ''vp9''),
     (''height'', PyInt 1080), (''width'', PyInt 1920), (''ext'', PyStr ''webm''),
     (''url'', PyStr plain_url)]"

definition desc_opus :: pydict where
  "desc_opus = [(''format_id'', PyStr ''251''), (''acodec'', PyStr ''opus''), (''vcodec'', PyStr ''none''),
     (''abr'', PyInt 160), (''ext'', PyStr ''ogg''), (''url'', PyStr plain_url)]"

definition desc_dash :: pydict where
  "desc_dash = [(''format_id'', PyStr ''137''), (''acodec'', PyStr ''none''), (''vcodec'', PyStr ''avc1''),
     (''height'', PyInt 1080), (''width'', PyInt 1920), (''ext'', PyStr ''mp4''),
     (''url'', PyStr (manifest_prefix @ ''/api/manifest/dash'')),
     (''fragment_base_url'', PyStr plain_url)]"

definition desc_null_abr :: pydict where
  "desc_null_abr = [(''format_id'', PyStr ''137''), (''acodec'', PyStr ''none''), (''vcodec'', PyStr ''avc1''),
     (''abr'', PyNone), (''ext'', PyStr ''mp4''), (''url'', PyStr plain_url)]"

definition desc_no_url :: pydict where
  "desc_no_url = [(''format_id'', PyStr ''18''), (''ext'', PyStr ''mp4'')]"

definition desc_str_abr :: pydict where
  "desc_str_abr = [(''format_id'', PyStr ''140''), (''acodec'', PyStr ''mp4a''), (''vcodec'', PyStr ''none''),
     (''abr'', PyStr ''128''), (''ext'', PyStr ''m4a''), (''url'', PyStr plain_url)]"

lemma ytdl_stream_dict:
  "ytdl_stream (PyDict d) =
     ebind (py_getitem (PyDict d) ''format_id'') (\<lambda>tag.
     ebind (py_mul_int (dget d ''abr'' (PyInt 0)) 1024) (\<lambda>raw.
     ebind (py_getitem (PyDict d) ''ext'') (\<lambda>ext.
     ebind (resolve_url (PyDict d) (dget d ''url'' PyNone)) (\<lambda>u'.
       Inr (stream_of_dict d tag raw ext u')))))"
  by (simp add: ytdl_stream_def stream_of_dict_def Let_def ebind_def split: sum.splits)

lemma ytdl_stream_not_dict:
  "(\<And>d. fmt \<noteq> PyDict d) \<Longrightarrow> ytdl_stream fmt = Inl TypeError"
  by (cases fmt) (auto simp: ytdl_stream_def)

lemma ytdl_stream_Inr:
  assumes "ytdl_stream fmt = Inr s"
  shows "\<exists>d tag raw ext u'. fmt = PyDict d \<and> map_of d ''format_id'' = Some tag \<and>
           py_mul_int (dget d ''abr'' (PyInt 0)) 1024 = Inr raw \<and>
           map_of d ''ext'' = Some ext \<and>
           resolve_url (PyDict d) (dget d ''url'' PyNone) = Inr u' \<and>
           s = stream_of_dict d tag raw ext u'"
proof (cases fmt)
  case (PyDict d)
  with assms show ?thesis
    by (auto simp: ytdl_stream_dict ebind_eq_Inr split: option.splits)
qed (use assms ytdl_stream_not_dict in auto)

lemma ytdl_stream_Inr_dict:
  assumes "ytdl_stream (PyDict d) = Inr s"
  shows "\<exists>tag raw ext u'. map_of d ''format_id'' = Some tag \<and>
           py_mul_int (dget d ''abr'' (PyInt 0)) 1024 = Inr raw \<and>
           map_of d ''ext'' = Some ext \<and>
           resolve_url (PyDict d) (dget d ''url'' PyNone) = Inr u' \<and>
           s = stream_of_dict d tag raw ext u'"
  using ytdl_stream_Inr [OF assms] by auto

lemma stream_of_dict_fields [simp]:
  "mediatype (stream_of_dict d tag raw ext u') = media_of (dget d ''acodec'' PyNone) (dget d ''vcodec'' PyNone)"
  "dimensions (stream_of_dict d tag raw ext u') =
     (py_or (dget d ''width'' PyNone) (PyInt 0), py_or (dget d ''height'' PyNone) (PyInt 0))"
  "resolution (stream_of_dict d tag raw ext u') =
     py_str (py_or (dget d ''width'' PyNone) (PyInt 0)) @ ''x'' @ py_str (py_or (dget d ''height'' PyNone) (PyInt 0))"
  "bitrate (stream_of_dict d tag raw ext u') = py_str (dget d ''abr'' (PyInt 0)) @ ''k''"
  "url (stream_of_dict d tag raw ext u') = u'"
  "extension (stream_of_dict d tag raw ext u') = ext"
  "info (stream_of_dict d tag raw ext u') = PyDict d"
  "itag (stream_of_dict d tag raw ext u') = tag"
  "rawbitrate (stream_of_dict d tag raw ext u') = raw"
  "threed (stream_of_dict d tag raw ext u') = (dget d ''format_note'' PyNone = PyStr ''3D'')"
  "stream_notes (stream_of_dict d tag raw ext u') = py_or (dget d ''format_note'' PyNone) (PyStr '''')"
  by (simp_all add: stream_of_dict_def Let_def)

lemma ytdl_stream_resolved_url:
  assumes "ytdl_stream (PyDict d) = Inr s"
  shows "resolve_url (PyDict d) (dget d ''url'' PyNone) = Inr (url s)"
  using ytdl_stream_Inr_dict [OF assms] by auto

lemma stream_of_dict_quality:
  "quality (stream_of_dict d tag raw ext u') =
     (if mediatype (stream_of_dict d tag raw ext u') = Audio
      then bitrate (stream_of_dict d tag raw ext u') else resolution (stream_of_dict d tag raw ext u'))"
  by (simp add: stream_of_dict_def Let_def)

lemma py_or_zero: "py_truthy (py_or v (PyInt 0)) \<or> py_or v (PyInt 0) = PyInt 0"
  by (simp add: py_or_def)

lemma int_or_none_or_zero:
  "int_or_none v \<Longrightarrow> py_or v (PyInt 0) = PyInt (int_val v)"
  by (auto simp: int_or_none_def int_val_def py_or_def)

lemmas stream_eval [py_eval] =
  ytdl_stream_dict resolve_url_def manifest_prefix_def stream_of_dict_def media_of_def Let_def

lemma examples_ok:
  "\<exists>s. ytdl_stream (PyDict desc_vp9) = Inr s"
  "\<exists>s. ytdl_stream (PyDict desc_opus) = Inr s"
  "\<exists>s. ytdl_stream (PyDict desc_dash) = Inr s"
  by (simp_all add: py_eval desc_vp9_def desc_opus_def desc_dash_def plain_url_def)

lemma resolve_url_str:
  "resolve_url (PyDict d) (PyStr u) =
     Inr (if prefix manifest_prefix u then dget d ''fragment_base_url'' (PyStr u) else PyStr u)"
  by (simp add: resolve_url_def)

lemma resolution_last_digit:
  "int_or_none h \<Longrightarrow> is_digit (last (py_str w @ ''x'' @ py_str (py_or h (PyInt 0))))"
  by (simp add: int_or_none_or_zero last_int_decimal)

lemma built_stream_wf:
  assumes "ytdl_stream fmt = Inr s"
  shows "stream_wf s"
proof -
  obtain d tag raw ext u' where s: "s = stream_of_dict d tag raw ext u'"
    and d: "fmt = PyDict d" "map_of d ''format_id'' = Some tag" "map_of d ''ext'' = Some ext"
    using ytdl_stream_Inr [OF assms] by blast
  have "threed s \<longrightarrow> stream_notes s = PyStr ''3D''"
    by (simp add: s py_or_def)
  then show ?thesis
    using d py_or_zero stream_of_dict_quality
    by (simp add: stream_wf_def s)
qed

subsection \<open>Classification\<close>

text \<open>
  C1. Classification: a descriptor whose audio codec is not the string "none" and whose
  video codec is, is audio; the converse is video; every other combination (both
  codecs, or neither, or absent fields) is normal. The three cases exclude each other
  and cover every descriptor.
\<close>

theorem ytdl_stream_mediatype:
  assumes "ytdl_stream (PyDict d) = Inr s"
  shows "(mediatype s = Audio \<longleftrightarrow>
            dget d ''acodec'' PyNone \<noteq> PyStr ''none'' \<and> dget d ''vcodec'' PyNone = PyStr ''none'') \<and>
         (mediatype s = Video \<longleftrightarrow>
            dget d ''acodec'' PyNone = PyStr ''none'' \<and> dget d ''vcodec'' PyNone \<noteq> PyStr ''none'') \<and>
         (mediatype s = Normal \<longleftrightarrow>
            (dget d ''acodec'' PyNone = PyStr ''none'') = (dget d ''vcodec'' PyNone = PyStr ''none''))"
  using ytdl_stream_Inr_dict [OF assms] by (auto simp: media_of_def split: if_splits)

theorem ytdl_stream_mediatype_witness:
  "\<exists>s. ytdl_stream (PyDict desc_vp9) = Inr s \<and> mediatype s = Video"
proof -
  obtain s where h: "ytdl_stream (PyDict desc_vp9) = Inr s" using examples_ok(1) by blast
  have "mediatype s = Video"
    using ytdl_stream_mediatype [OF h] by (simp add: desc_vp9_def dget_def)
  with h show ?thesis by blast
qed

subsection \<open>The derived fields\<close>

text \<open>
  C2. Every stream the constructor builds satisfies \<open>stream_wf\<close>: its quality is its
  bitrate string for audio and its resolution string otherwise, the resolution is
  "width x height" of its dimensions (each truthy or 0), a 3D stream has the notes
  "3D", the bitrate string ends in "k", and its descriptor is a dict that holds its
  format tag and extension.
\<close>

theorem ytdl_stream_wf:
  assumes "ytdl_stream fmt = Inr s"
  shows "stream_wf s"
  using assms by (rule built_stream_wf)

theorem ytdl_stream_wf_witness:
  "\<exists>s. ytdl_stream (PyDict desc_opus) = Inr s \<and> stream_wf s"
proof -
  obtain s where h: "ytdl_stream (PyDict desc_opus) = Inr s" using examples_ok(2) by blast
  with ytdl_stream_wf [OF h] show ?thesis by blast
qed

text \<open>
  C3. When the descriptor's height is absent, \<open>None\<close> or an int, a stream's quality
  equals its bitrate string exactly when the stream is audio: otherwise the quality is
  the resolution string, which ends in a digit, while the bitrate string ends in "k".
\<close>

theorem ytdl_stream_quality:
  assumes "ytdl_stream (PyDict d) = Inr s"
    and "int_or_none (dget d ''height'' PyNone)"
  shows "quality s = bitrate s \<longleftrightarrow> mediatype s = Audio"
proof -
  obtain tag raw ext u' where s: "s = stream_of_dict d tag raw ext u'"
    using ytdl_stream_Inr_dict [OF assms(1)] by blast
  have "is_digit (last (resolution s))"
    using resolution_last_digit [OF assms(2)] by (simp add: s)
  moreover have "last (bitrate s) = CHR ''k''"
    by (simp add: s)
  ultimately have "resolution s \<noteq> bitrate s"
    by (metis is_digit_not(3))
  then show ?thesis
    using stream_of_dict_quality [of d tag raw ext u'] by (simp add: s)
qed

theorem ytdl_stream_quality_witness:
  "\<exists>s. ytdl_stream (PyDict desc_vp9) = Inr s \<and> int_or_none (dget desc_vp9 ''height'' PyNone) \<and>
       quality s \<noteq> bitrate s"
proof -
  obtain s where h: "ytdl_stream (PyDict desc_vp9) = Inr s" using examples_ok(1) by blast
  have i: "int_or_none (dget desc_vp9 ''height'' PyNone)"
    by (simp add: desc_vp9_def dget_def int_or_none_def)
  have "mediatype s = Video"
    using ytdl_stream_Inr_dict [OF h] by (auto simp: desc_vp9_def dget_def media_of_def)
  then have "quality s \<noteq> bitrate s"
    using ytdl_stream_quality [OF h i] by simp
  with h i show ?thesis by blast
qed

subsection \<open>The playable URL\<close>

text \<open>
  C4. Manifest fallback: when the descriptor's URL is a string, the stream's URL is the
  descriptor's \<open>fragment_base_url\<close> if the URL starts with the manifest host and the
  field is present (whatever its value, \<open>None\<close> included), the URL itself if the field
  is absent, and the URL itself on any other host.
\<close>

theorem ytdl_stream_url:
  assumes "ytdl_stream (PyDict d) = Inr s"
    and "dget d ''url'' PyNone = PyStr u"
  shows "url s = (if prefix manifest_prefix u then dget d ''fragment_base_url'' (PyStr u) else PyStr u)"
  using ytdl_stream_resolved_url [OF assms(1)] assms(2) by (simp add: resolve_url_str)

theorem ytdl_stream_url_witness:
  "\<exists>s. ytdl_stream (PyDict desc_dash) = Inr s \<and> url s = PyStr plain_url"
proof -
  obtain s where h: "ytdl_stream (PyDict desc_dash) = Inr s" using examples_ok(3) by blast
  have u: "dget desc_dash ''url'' PyNone = PyStr (manifest_prefix @ ''/api/manifest/dash'')"
    by (simp add: desc_dash_def dget_def)
  have "url s = PyStr plain_url"
    using ytdl_stream_url [OF h u] by (simp add: desc_dash_def dget_def manifest_prefix_def)
  with h show ?thesis by blast
qed

subsection \<open>The resolution string\<close>

text \<open>
  C5. When width and height are each absent, \<open>None\<close> or an int, the resolution string is
  "<width>x<height>" in decimal, 0 standing for a missing or \<open>None\<close> dimension.
\<close>

theorem ytdl_stream_resolution:
  assumes "ytdl_stream (PyDict d) = Inr s"
    and "int_or_none (dget d ''width'' PyNone)" and "int_or_none (dget d ''height'' PyNone)"
  shows "resolution s =
           int_decimal (int_val (dget d ''width'' PyNone)) @ ''x'' @
           int_decimal (int_val (dget d ''height'' PyNone))"
  using ytdl_stream_Inr_dict [OF assms(1)] by (auto simp: int_or_none_or_zero assms(2,3))

theorem ytdl_stream_resolution_witness:
  "\<exists>s. ytdl_stream (PyDict desc_vp9) = Inr s \<and> resolution s = ''1920x1080''"
proof -
  obtain s where h: "ytdl_stream (PyDict desc_vp9) = Inr s" using examples_ok(1) by blast
  have w: "int_or_none (dget desc_vp9 ''width'' PyNone)" "int_or_none (dget desc_vp9 ''height'' PyNone)"
    by (simp_all add: desc_vp9_def dget_def int_or_none_def)
  have "resolution s = ''1920x1080''"
    using ytdl_stream_resolution [OF h w] by (simp add: desc_vp9_def py_eval int_val_def)
  with h show ?thesis by blast
qed

lemma stream_int_dims:
  assumes "ytdl_stream (PyDict d) = Inr s"
    and "int_or_none (dget d ''width'' PyNone)" and "int_or_none (dget d ''height'' PyNone)"
  shows "dimensions s = (PyInt (int_val (dget d ''width'' PyNone)), PyInt (int_val (dget d ''height'' PyNone))) \<and>
         resolution s = int_decimal (int_val (dget d ''width'' PyNone)) @ CHR ''x'' #
                        int_decimal (int_val (dget d ''height'' PyNone))"
  using ytdl_stream_Inr_dict [OF assms(1)] by (auto simp: int_or_none_or_zero assms(2,3))

text \<open>
  C6. The resolution string determines the dimensions: two streams whose widths and
  heights are ints (or absent) and whose resolution strings are equal have equal
  dimensions, negative values included.
\<close>

theorem resolution_determines_dimensions:
  assumes "ytdl_stream (PyDict d1) = Inr s1" and "ytdl_stream (PyDict d2) = Inr s2"
    and "int_or_none (dget d1 ''width'' PyNone)" and "int_or_none (dget d1 ''height'' PyNone)"
    and "int_or_none (dget d2 ''width'' PyNone)" and "int_or_none (dget d2 ''height'' PyNone)"
    and "resolution s1 = resolution s2"
  shows "dimensions s1 = dimensions s2"
proof -
  note r1 = stream_int_dims [OF assms(1,3,4)] and r2 = stream_int_dims [OF assms(2,5,6)]
  have "int_decimal (int_val (dget d1 ''width'' PyNone)) @ CHR ''x'' # int_decimal (int_val (dget d1 ''height'' PyNone)) =
        int_decimal (int_val (dget d2 ''width'' PyNone)) @ CHR ''x'' # int_decimal (int_val (dget d2 ''height'' PyNone))"
    using r1 r2 assms(7) by simp
  then have "int_decimal (int_val (dget d1 ''width'' PyNone)) = int_decimal (int_val (dget d2 ''width'' PyNone)) \<and>
        int_decimal (int_val (dget d1 ''height'' PyNone)) = int_decimal (int_val (dget d2 ''height'' PyNone))"
    by (rule split_at_char [rotated 2]) simp_all
  then show ?thesis
    using r1 r2 by (simp add: int_decimal_inj)
qed

theorem resolution_determines_dimensions_witness:
  "\<exists>s. ytdl_stream (PyDict desc_vp9) = Inr s \<and> dimensions s = (PyInt 1920, PyInt 1080)"
proof -
  obtain s where h: "ytdl_stream (PyDict desc_vp9) = Inr s" using examples_ok(1) by blast
  have w: "int_or_none (dget desc_vp9 ''width'' PyNone)" "int_or_none (dget desc_vp9 ''height'' PyNone)"
    by (simp_all add: desc_vp9_def dget_def int_or_none_def)
  have "dimensions s = dimensions s"
    using resolution_determines_dimensions [OF h h w w refl] .
  moreover have "dimensions s = (PyInt 1920, PyInt 1080)"
    using ytdl_stream_Inr_dict [OF h] by (auto simp: desc_vp9_def dget_def py_or_def)
  ultimately show ?thesis using h by blast
qed

subsection \<open>When the constructor succeeds, and how it fails\<close>

text \<open>
  C7. A dict descriptor with a format tag, an extension, an int (or absent) \<open>abr\<close> and
  a string URL always yields a stream.
\<close>

theorem ytdl_stream_succeeds:
  assumes "map_of d ''format_id'' \<noteq> None" and "map_of d ''ext'' \<noteq> None"
    and "\<exists>a. dget d ''abr'' (PyInt 0) = PyInt a" and "\<exists>u. dget d ''url'' PyNone = PyStr u"
  shows "\<exists>s. ytdl_stream (PyDict d) = Inr s"
  using assms by (auto simp: ytdl_stream_dict resolve_url_str split: option.splits)

theorem ytdl_stream_succeeds_witness:
  "\<exists>s. ytdl_stream (PyDict desc_vp9) = Inr s"
proof (rule ytdl_stream_succeeds)
  show "map_of desc_vp9 ''format_id'' \<noteq> None" "map_of desc_vp9 ''ext'' \<noteq> None"
    by (simp_all add: desc_vp9_def)
  show "\<exists>a. dget desc_vp9 ''abr'' (PyInt 0) = PyInt a" "\<exists>u. dget desc_vp9 ''url'' PyNone = PyStr u"
    by (simp_all add: desc_vp9_def dget_def)
qed

text \<open>
  C8. A descriptor whose \<open>abr\<close> field is present with the value \<open>None\<close> (as yt-dlp
  reports it for formats without audio) makes the constructor raise \<open>TypeError\<close>
  at \<open>info.get("abr", 0) * 1024\<close>: the default 0 applies only to an absent key.
\<close>

theorem ytdl_stream_abr_none:
  assumes "map_of d ''format_id'' \<noteq> None" and "map_of d ''abr'' = Some PyNone"
  shows "ytdl_stream (PyDict d) = Inl TypeError"
  using assms by (auto simp: ytdl_stream_dict dget_def)

theorem ytdl_stream_abr_none_witness:
  "ytdl_stream (PyDict desc_null_abr) = Inl TypeError"
  by (rule ytdl_stream_abr_none) (simp_all add: desc_null_abr_def)

text \<open>
  C9. A descriptor without a URL (or with \<open>None\<close>) makes the constructor raise
  \<open>AttributeError\<close> at \<open>self._url.startswith(...)\<close>, once the tag, bitrate and
  extension have been read.
\<close>

theorem ytdl_stream_no_url:
  assumes "map_of d ''format_id'' \<noteq> None" and "\<exists>a. dget d ''abr'' (PyInt 0) = PyInt a"
    and "map_of d ''ext'' \<noteq> None" and "dget d ''url'' PyNone = PyNone"
  shows "ytdl_stream (PyDict d) = Inl (AttributeError ''startswith'')"
  using assms by (auto simp: ytdl_stream_dict resolve_url_def)

theorem ytdl_stream_no_url_witness:
  "ytdl_stream (PyDict desc_no_url) = Inl (AttributeError ''startswith'')"
  by (rule ytdl_stream_no_url) (simp_all add: desc_no_url_def dget_def)

subsection \<open>File size\<close>

text \<open>
  C10. \<open>get_filesize\<close> of a built stream returns the descriptor's \<open>filesize\<close> when it is
  present and not \<open>None\<close>, and calls the fallback (the network request of
  \<open>BaseStream\<close>) exactly otherwise.
\<close>

theorem get_filesize_two_tier:
  assumes "ytdl_stream (PyDict d) = Inr s"
  shows "get_filesize fallback s =
           (case map_of d ''filesize'' of
              Some v \<Rightarrow> if v = PyNone then fallback s else Inr v
            | None \<Rightarrow> fallback s)"
proof -
  have "info s = PyDict d"
    using ytdl_stream_Inr_dict [OF assms] by auto
  then show ?thesis
    by (cases "map_of d ''filesize''") (auto simp: get_filesize_def py_contains_dict simp del: py_contains.simps)
qed

theorem get_filesize_two_tier_witness:
  "\<exists>s. ytdl_stream (PyDict desc_opus) = Inr s \<and> get_filesize (\<lambda>_. Inr (PyInt 7)) s = Inr (PyInt 7)"
proof -
  obtain s where h: "ytdl_stream (PyDict desc_opus) = Inr s" using examples_ok(2) by blast
  have "get_filesize (\<lambda>_. Inr (PyInt 7)) s = Inr (PyInt 7)"
    using get_filesize_two_tier [OF h] by (simp add: desc_opus_def)
  with h show ?thesis by blast
qed

subsection \<open>Types of the fields\<close>

text \<open>
  C11. A string \<open>abr\<close> does not make the constructor fail: \<open>abr * 1024\<close> at line 120 is
  sequence repetition, so the stream is built and its raw bitrate is the string
  repeated 1024 times, while its bitrate string (line 126) is the string followed by
  \<open>k\<close>.
\<close>

theorem ytdl_stream_str_abr:
  assumes "map_of d ''format_id'' \<noteq> None" and "map_of d ''ext'' \<noteq> None"
    and "dget d ''abr'' (PyInt 0) = PyStr a" and "\<exists>u. dget d ''url'' PyNone = PyStr u"
  shows "\<exists>s. ytdl_stream (PyDict d) = Inr s \<and> rawbitrate s = PyStr (concat (replicate 1024 a)) \<and>
           bitrate s = a @ ''k''"
  using assms by (auto simp: ytdl_stream_dict resolve_url_str stream_of_dict_def Let_def split: option.splits)

theorem ytdl_stream_str_abr_witness:
  "\<exists>s. ytdl_stream (PyDict desc_str_abr) = Inr s \<and> rawbitrate s = PyStr (concat (replicate 1024 ''128'')) \<and>
     bitrate s = ''128k''"
  using ytdl_stream_str_abr [of desc_str_abr "''128''"]
  by (simp add: desc_str_abr_def dget_def plain_url_def)

subsection \<open>The spec's scenario\<close>

text \<open>
  The descriptor with no audio codec, codec vp9, height 1080, width 1920 and
  extension webm yields a video stream with resolution "1920x1080" and extension
  "webm".
\<close>

lemma scenario_vp9_stream:
  "case ytdl_stream (PyDict desc_vp9) of
     Inl e \<Rightarrow> False
   | Inr s \<Rightarrow> mediatype s = Video \<and> resolution s = ''1920x1080'' \<and> extension s = PyStr ''webm''"
  by (simp add: py_eval desc_vp9_def plain_url_def)

end
