(* ===== verification/Catalog.thy ===== *)
theory Catalog
  imports Stream "HOL-Library.Multiset"
begin

text \<open>
  The stream catalog that \<open>YtdlPafy._process_streams\<close> builds
  (src/pafy/backend_youtube_dl.py, lines 92--104): the list comprehension of line 98
  constructs a stream from every raw format in order (\<open>build_all\<close>; the first
  constructor that raises aborts the comprehension), and lines 99--104 cut the
  five views out of it (\<open>partition_streams\<close>). \<open>build_catalog\<close> is the whole
  pass from the info dictionary; the part of \<open>_process_streams\<close> that fetches the
  info first lives in the Pafy theory. The lemmas show that the loop is the
  element-wise constructor and which format makes it fail, that each stream of a built
  catalog comes from the format at its position, that the three media views partition
  the catalog as a multiset, and that every stream in it satisfies \<open>stream_wf\<close>.
\<close>

record catalog =
  streams :: "stream list"
  audiostreams :: "stream list"
  videostreams :: "stream list"
  m4astreams :: "stream list"
  oggstreams :: "stream list"
  allstreams :: "stream list"

text \<open>Line 98: \<open>[YtdlStream(z, self) for z in formats]\<close>.\<close>

fun build_all :: "pyval list \<Rightarrow> error + stream list" where
  "build_all [] = Inr []"
| "build_all (z # zs) = ebind (ytdl_stream z) (\<lambda>s. ebind (build_all zs) (\<lambda>ss. Inr (s # ss)))"

text \<open>Lines 99--104: the views, each a filter of the full list in its order.\<close>

definition partition_streams :: "stream list \<Rightarrow> catalog" where
  "partition_streams all =
     \<lparr>streams = filter (\<lambda>i. mediatype i = Normal) all,
      audiostreams = filter (\<lambda>i. mediatype i = Audio) all,
      videostreams = filter (\<lambda>i. mediatype i = Video) all,
      m4astreams = filter (\<lambda>i. extension i = PyStr ''m4a'') all,
      oggstreams = filter (\<lambda>i. extension i = PyStr ''ogg'') all,
      allstreams = all\<rparr>"

text \<open>Line 98 reads \<open>self._ydl_info["formats"]\<close> and iterates over it.\<close>

definition build_catalog :: "pyval \<Rightarrow> error + catalog" where
  "build_catalog ydl_info =
     ebind (py_getitem ydl_info ''formats'') (\<lambda>fmts.
     ebind (py_iter fmts) (\<lambda>zs.
     ebind (build_all zs) (\<lambda>all. Inr (partition_streams all))))"

text \<open>What every catalog of the pafy object satisfies: its views are the filters of the full list, and every stream in it is well formed.\<close>

definition catalog_wf :: "catalog \<Rightarrow> bool" where
  "catalog_wf c \<longleftrightarrow> c = partition_streams (allstreams c) \<and> (\<forall>s\<in>set (allstreams c). stream_wf s)"

definition info_opus_only :: pyval where
  "info_opus_only = PyDict [(''formats'', PyList [PyDict desc_opus, PyDict desc_vp9])]"

lemma build_all_Inr_iff:
  "build_all zs = Inr ss \<longleftrightarrow> list_all2 (\<lambda>z s. ytdl_stream z = Inr s) zs ss"
proof (induction zs arbitrary: ss)
  case Nil
  then show ?case by auto
next
  case (Cons z zs)
  show ?case
    by (cases ss) (auto simp: ebind_eq_Inr Cons.IH)
qed

lemma build_all_wf:
  "build_all zs = Inr ss \<Longrightarrow> s \<in> set ss \<Longrightarrow> stream_wf s"
  by (auto simp: build_all_Inr_iff list_all2_conv_all_nth in_set_conv_nth intro: built_stream_wf)

lemma build_catalog_Inr:
  assumes "build_catalog ydl_info = Inr c"
  shows "\<exists>fmts zs. py_getitem ydl_info ''formats'' = Inr fmts \<and> py_iter fmts = Inr zs \<and>
           build_all zs = Inr (allstreams c) \<and> c = partition_streams (allstreams c)"
  using assms by (auto simp: build_catalog_def ebind_eq_Inr partition_streams_def)

lemma built_catalog_wf:
  assumes "build_catalog ydl_info = Inr c"
  shows "catalog_wf c"
  using build_catalog_Inr [OF assms] build_all_wf by (auto simp: catalog_wf_def)

lemma partition_streams_mset:
  "mset all = mset (filter (\<lambda>i. mediatype i = Normal) all) + mset (filter (\<lambda>i. mediatype i = Audio) all) +
              mset (filter (\<lambda>i. mediatype i = Video) all)"
proof (induction all)
  case Nil
  then show ?case by simp
next
  case (Cons s all)
  then show ?case by (cases "mediatype s") (simp_all add: ac_simps)
qed

lemma build_all_Inl_iff:
  "build_all zs = Inl e \<longleftrightarrow>
     (\<exists>i < length zs. (\<forall>j < i. \<exists>s. ytdl_stream (zs ! j) = Inr s) \<and> ytdl_stream (zs ! i) = Inl e)"
proof (induction zs)
  case Nil
  then show ?case by simp
next
  case (Cons z zs)
  show ?case
  proof (cases "ytdl_stream z")
    case (Inl e')
    then show ?thesis by force
  next
    case (Inr s)
    have "build_all (z # zs) = Inl e \<longleftrightarrow> build_all zs = Inl e"
      using Inr by (cases "build_all zs") simp_all
    also have "\<dots> \<longleftrightarrow> (\<exists>i < length zs. (\<forall>j < i. \<exists>s. ytdl_stream (zs ! j) = Inr s) \<and> ytdl_stream (zs ! i) = Inl e)"
      by (rule Cons.IH)
    also have "\<dots> \<longleftrightarrow> (\<exists>i < length (z # zs). (\<forall>j < i. \<exists>s. ytdl_stream ((z # zs) ! j) = Inr s) \<and>
                 ytdl_stream ((z # zs) ! i) = Inl e)"
    proof
      assume "\<exists>i < length zs. (\<forall>j < i. \<exists>s. ytdl_stream (zs ! j) = Inr s) \<and> ytdl_stream (zs ! i) = Inl e"
      then obtain i where "i < length zs" "\<forall>j < i. \<exists>s. ytdl_stream (zs ! j) = Inr s" "ytdl_stream (zs ! i) = Inl e"
        by blast
      then show "\<exists>i < length (z # zs). (\<forall>j < i. \<exists>s. ytdl_stream ((z # zs) ! j) = Inr s) \<and>
                 ytdl_stream ((z # zs) ! i) = Inl e"
        using Inr by (intro exI [of _ "Suc i"]) (auto simp: less_Suc_eq_0_disj)
    next
      assume "\<exists>i < length (z # zs). (\<forall>j < i. \<exists>s. ytdl_stream ((z # zs) ! j) = Inr s) \<and>
                 ytdl_stream ((z # zs) ! i) = Inl e"
      then obtain i where i: "i < length (z # zs)" "\<forall>j < i. \<exists>s. ytdl_stream ((z # zs) ! j) = Inr s"
        "ytdl_stream ((z # zs) ! i) = Inl e"
        by blast
      with Inr obtain i' where "i = Suc i'" by (cases i) auto
      with i show "\<exists>i < length zs. (\<forall>j < i. \<exists>s. ytdl_stream (zs ! j) = Inr s) \<and> ytdl_stream (zs ! i) = Inl e"
        by (intro exI [of _ i']) auto
    qed
    finally show ?thesis .
  qed
qed

lemma info_opus_only_catalog:
  "build_catalog info_opus_only =
     Inr (partition_streams
       [stream_of_dict desc_opus (PyStr ''251'') (PyInt 163840) (PyStr ''ogg'') (PyStr plain_url),
        stream_of_dict desc_vp9 (PyStr ''248'') (PyInt 0) (PyStr ''webm'') (PyStr plain_url)])"
  by (simp add: build_catalog_def info_opus_only_def ytdl_stream_dict resolve_url_str dget_def
      desc_opus_def desc_vp9_def plain_url_def manifest_prefix_def)

subsection \<open>The construction loop\<close>

text \<open>
  C12. A built catalog has one stream per raw format, in the order of the formats, and
  the stream at each position comes from the format at that position: the format is a
  dict, the stream keeps it as its info, takes its tag from \<open>format_id\<close> and its extension
  from \<open>ext\<close>, and its URL is the format's resolved URL.
\<close>

theorem build_catalog_formats:
  assumes "build_catalog ydl_info = Inr c"
  shows "\<exists>fmts zs. py_getitem ydl_info ''formats'' = Inr fmts \<and> py_iter fmts = Inr zs \<and>
           length (allstreams c) = length zs \<and>
           (\<forall>i < length zs. \<exists>d. zs ! i = PyDict d \<and> info (allstreams c ! i) = zs ! i \<and>
              map_of d ''format_id'' = Some (itag (allstreams c ! i)) \<and>
              map_of d ''ext'' = Some (extension (allstreams c ! i)) \<and>
              resolve_url (PyDict d) (dget d ''url'' PyNone) = Inr (url (allstreams c ! i)))"
proof -
  obtain fmts zs where f: "py_getitem ydl_info ''formats'' = Inr fmts" "py_iter fmts = Inr zs"
    and b: "build_all zs = Inr (allstreams c)"
    using build_catalog_Inr [OF assms] by blast
  have l: "list_all2 (\<lambda>z s. ytdl_stream z = Inr s) zs (allstreams c)"
    using b by (simp add: build_all_Inr_iff)
  have "\<exists>d. zs ! i = PyDict d \<and> info (allstreams c ! i) = zs ! i \<and>
              map_of d ''format_id'' = Some (itag (allstreams c ! i)) \<and>
              map_of d ''ext'' = Some (extension (allstreams c ! i)) \<and>
              resolve_url (PyDict d) (dget d ''url'' PyNone) = Inr (url (allstreams c ! i))"
    if i: "i < length zs" for i
  proof -
    have y: "ytdl_stream (zs ! i) = Inr (allstreams c ! i)"
      using l i by (simp add: list_all2_conv_all_nth)
    from ytdl_stream_Inr [OF y] obtain d tag raw ext u' where
      "zs ! i = PyDict d" "map_of d ''format_id'' = Some tag" "map_of d ''ext'' = Some ext"
      "resolve_url (PyDict d) (dget d ''url'' PyNone) = Inr u'" "allstreams c ! i = stream_of_dict d tag raw ext u'"
      by blast
    then show ?thesis by simp
  qed
  then show ?thesis using f l by (intro exI conjI) (auto simp: list_all2_lengthD)
qed

theorem build_catalog_formats_witness:
  "\<exists>c. build_catalog info_opus_only = Inr c \<and> length (allstreams c) = 2 \<and>
     itag (allstreams c ! 0) = PyStr ''251'' \<and> itag (allstreams c ! 1) = PyStr ''248''"
proof -
  obtain c where c: "build_catalog info_opus_only = Inr c" using info_opus_only_catalog by blast
  from build_catalog_formats [OF c] obtain zs where
    z: "py_iter (PyList [PyDict desc_opus, PyDict desc_vp9]) = Inr zs" and
    l: "length (allstreams c) = length zs" and
    e: "\<forall>i < length zs. \<exists>d. zs ! i = PyDict d \<and> map_of d ''format_id'' = Some (itag (allstreams c ! i))"
    by (auto simp: info_opus_only_def)
  have zs: "zs = [PyDict desc_opus, PyDict desc_vp9]" using z by simp
  have "map_of desc_opus ''format_id'' = Some (itag (allstreams c ! 0))"
    using e [rule_format, of 0] by (simp add: zs)
  moreover have "map_of desc_vp9 ''format_id'' = Some (itag (allstreams c ! 1))"
    using e [rule_format, of 1] by (simp add: zs)
  ultimately show ?thesis using c l zs by (simp add: desc_opus_def desc_vp9_def)
qed

subsection \<open>The views\<close>

text \<open>
  C14. The normal, audio-only and video-only views of a built catalog partition it:
  as multisets, the full list is the sum of the three.
\<close>

theorem build_catalog_partition:
  assumes "build_catalog ydl_info = Inr c"
  shows "mset (allstreams c) = mset (streams c) + mset (audiostreams c) + mset (videostreams c)"
proof -
  have "c = partition_streams (allstreams c)"
    using build_catalog_Inr [OF assms] by blast
  then show ?thesis
    by (metis partition_streams_mset catalog.select_convs(1-3) partition_streams_def)
qed

theorem build_catalog_partition_witness:
  "\<exists>c. build_catalog info_opus_only = Inr c \<and>
       mset (allstreams c) = mset (streams c) + mset (audiostreams c) + mset (videostreams c)"
  using build_catalog_partition [OF info_opus_only_catalog] info_opus_only_catalog by blast

text \<open>
  The spec's audio scenario: the descriptor with codec opus, no video codec, abr 160
  and extension ogg becomes an audio stream with bitrate and quality "160k" that is
  in both the audio-only view and the ogg view of the catalog.
\<close>

lemma scenario_opus_catalog:
  "case build_catalog info_opus_only of
     Inl e \<Rightarrow> False
   | Inr c \<Rightarrow> (\<exists>s. audiostreams c = [s] \<and> oggstreams c = [s] \<and> mediatype s = Audio \<and>
                  bitrate s = ''160k'' \<and> quality s = ''160k'' \<and> extension s = PyStr ''ogg'')"
  by (simp add: info_opus_only_catalog partition_streams_def stream_of_dict_def media_of_def
      Let_def dget_def desc_opus_def desc_vp9_def py_eval)

end
