(* ===== verification/Pafy.thy ===== *)
theory Pafy
  imports Catalog
begin

text \<open>
  The video handle \<open>YtdlPafy\<close> (src/pafy/backend_youtube_dl.py, lines 30--104): its
  attributes are the record \<open>pafy\<close>; the process state it shares with other objects
  is \<open>world\<close>, a heap of dict objects (so that the aliasing of line 33 is explicit),
  the reference \<open>g.def_ydl_opts\<close> and the messages delivered to the progress
  callbacks. The extraction backend, the secondary metadata request and the clock
  are the parameters \<open>backend\<close>; the \<open>g\<close> module's constants are \<open>gconf\<close>.
  \<open>ytdl_pafy_init\<close> is \<open>__init__\<close>, \<open>fetch_basic\<close>, \<open>fetch_gdata\<close> and
  \<open>process_streams\<close> are the three lazy fetches, each a block of statements run
  by \<open>run_stmts\<close> so that an exception keeps the assignments made before it.
  \<open>pafy_step\<close> is the handle's state machine (any fetch, with any outcome) and
  \<open>pafy_inv\<close> the invariant its reachable states satisfy.
\<close>

record gconf =
  lifespan :: int
  bigthumb_url :: string
  bigthumbhd_url :: string

record backend =
  extract_info :: "pydict \<Rightarrow> string \<Rightarrow> string + pyval"
  video_gdata :: "string \<Rightarrow> error + pyval"
  now :: int

record world =
  heap :: "nat \<Rightarrow> pydict"
  g_def_ydl_opts :: nat
  cb_log :: "string list"

record pafy =
  videoid :: string
  callback :: bool
  ydl_opts :: nat
  have_basic :: bool
  have_gdata :: bool
  ydl_info :: pyval
  title :: pyval
  author :: pyval
  rating :: pyval
  length_val :: pyval
  viewcount :: pyval
  likes :: pyval
  username :: pyval
  subtitles :: pyval
  category :: pyval
  bestthumb :: pyval
  bigthumb :: pyval
  bigthumbhd :: pyval
  expiry :: "int option"
  published :: pyval
  description :: pyval
  keyword_tags :: "string list option"
  catalog :: "catalog option"

type_synonym 'w pstate = "pafy \<times> 'w world_scheme"

subsection \<open>Construction\<close>

text \<open>
  \<open>BasePafy.__init__\<close> (backend_shared.py, not under src/): a handle with the
  identifier and the callback, nothing fetched, every attribute \<open>None\<close>.
\<close>

definition base_pafy :: "string \<Rightarrow> bool \<Rightarrow> nat \<Rightarrow> pafy" where
  "base_pafy vid cb opts =
     \<lparr>videoid = vid, callback = cb, ydl_opts = opts, have_basic = False, have_gdata = False,
      ydl_info = PyNone, title = PyNone, author = PyNone, rating = PyNone, length_val = PyNone,
      viewcount = PyNone, likes = PyNone, username = PyNone, subtitles = PyNone,
      category = PyNone, bestthumb = PyNone, bigthumb = PyNone, bigthumbhd = PyNone,
      expiry = None, published = PyNone, description = PyNone, keyword_tags = None, catalog = None\<rparr>"

text \<open>
  Lines 31--36: \<open>self._ydl_opts\<close> is the dict object \<open>g.def_ydl_opts\<close> itself, and a
  non-empty \<open>ydl_opts\<close> argument is merged into that object in place.
\<close>

definition ytdl_pafy_init :: "'w world_scheme \<Rightarrow> string \<Rightarrow> bool \<Rightarrow> pydict \<Rightarrow> 'w pstate" where
  "ytdl_pafy_init w vid cb opts =
     (let r = g_def_ydl_opts w;
          w' = (if opts \<noteq> [] then w\<lparr>heap := (heap w)(r := dict_update (heap w r) opts)\<rparr> else w)
      in (base_pafy vid cb r, w'))"

subsection \<open>\<open>_fetch_basic\<close>\<close>

text \<open>A statement \<open>self.x = e\<close>: evaluate \<open>e\<close>, then store it.\<close>

definition set_attr :: "(pafy \<Rightarrow> error + 'v) \<Rightarrow> ('v \<Rightarrow> pafy \<Rightarrow> pafy) \<Rightarrow> 'w pstate \<Rightarrow> error + 'w pstate" where
  "set_attr e upd st = ebind (e (fst st)) (\<lambda>v. Inr (upd v (fst st), snd st))"

text \<open>\<open>try: x = e except: x = d\<close> with a bare \<open>except\<close>: every exception gives the default.\<close>

definition try_default :: "error + pyval \<Rightarrow> pyval \<Rightarrow> pyval" where
  "try_default r d = (case r of Inl _ \<Rightarrow> d | Inr v \<Rightarrow> v)"

text \<open>Lines 43--48: the backend call; a \<open>DownloadError\<close> becomes an \<open>IOError\<close> with the phrase replaced.\<close>

definition stmt_extract :: "backend \<Rightarrow> 'w pstate \<Rightarrow> error + 'w pstate" where
  "stmt_extract be st =
     (case extract_info be (heap (snd st) (ydl_opts (fst st))) (videoid (fst st)) of
        Inl msg \<Rightarrow> Inl (IOError (replace_all ''YouTube said'' ''Youtube says'' msg))
      | Inr i \<Rightarrow> Inr ((fst st)\<lparr>ydl_info := i\<rparr>, snd st))"

text \<open>Lines 50--51.\<close>

definition stmt_callback :: "'w pstate \<Rightarrow> error + 'w pstate" where
  "stmt_callback st =
     Inr (fst st, if callback (fst st) then (snd st)\<lparr>cb_log := cb_log (snd st) @ [''Fetched video info'']\<rparr> else snd st)"

text \<open>Lines 69--71: the first category, or the empty string when the list is falsy.\<close>

definition first_category :: "pyval \<Rightarrow> error + pyval" where
  "first_category i =
     ebind (py_getitem i ''categories'') (\<lambda>cs.
       if py_truthy cs then ebind (py_getitem i ''categories'') (\<lambda>cs'. py_index cs' 0) else Inr (PyStr ''''))"

text \<open>Line 72.\<close>

definition best_thumb :: "pyval \<Rightarrow> error + pyval" where
  "best_thumb i =
     ebind (py_getitem i ''thumbnails'') (\<lambda>ts. ebind (py_index ts 0) (\<lambda>t. py_getitem t ''url''))"

text \<open>Lines 52--75, after the backend call and the callback.\<close>

definition basic_fields :: "gconf \<Rightarrow> backend \<Rightarrow> ('w pstate \<Rightarrow> error + 'w pstate) list" where
  "basic_fields g be =
     [set_attr (\<lambda>p. Inr (try_default (py_getitem (ydl_info p) ''title'') (PyStr ''NA''))) (\<lambda>v p. p\<lparr>title := v\<rparr>),
      set_attr (\<lambda>p. Inr (try_default (py_getitem (ydl_info p) ''uploader'') (PyStr ''NA''))) (\<lambda>v p. p\<lparr>author := v\<rparr>),
      set_attr (\<lambda>p. Inr (try_default (py_getitem (ydl_info p) ''average_rating'') (PyStr ''NA''))) (\<lambda>v p. p\<lparr>rating := v\<rparr>),
      set_attr (\<lambda>p. py_get (ydl_info p) ''duration'' (PyInt 0)) (\<lambda>v p. p\<lparr>length_val := v\<rparr>),
      set_attr (\<lambda>p. py_getitem (ydl_info p) ''view_count'') (\<lambda>v p. p\<lparr>viewcount := v\<rparr>),
      set_attr (\<lambda>p. py_get (ydl_info p) ''like_count'' (PyInt 0)) (\<lambda>v p. p\<lparr>likes := v\<rparr>),
      set_attr (\<lambda>p. py_getitem (ydl_info p) ''uploader_id'') (\<lambda>v p. p\<lparr>username := v\<rparr>),
      set_attr (\<lambda>p. py_get (ydl_info p) ''subtitles'' (PyDict [])) (\<lambda>v p. p\<lparr>subtitles := v\<rparr>),
      set_attr (\<lambda>p. first_category (ydl_info p)) (\<lambda>v p. p\<lparr>category := v\<rparr>),
      set_attr (\<lambda>p. best_thumb (ydl_info p)) (\<lambda>v p. p\<lparr>bestthumb := v\<rparr>),
      set_attr (\<lambda>p. percent_s (bigthumb_url g) (videoid p)) (\<lambda>v p. p\<lparr>bigthumb := PyStr v\<rparr>),
      set_attr (\<lambda>p. percent_s (bigthumbhd_url g) (videoid p)) (\<lambda>v p. p\<lparr>bigthumbhd := PyStr v\<rparr>),
      set_attr (\<lambda>p. Inr (now be + lifespan g)) (\<lambda>v p. p\<lparr>expiry := Some v\<rparr>)]"

text \<open>Line 77.\<close>

definition stmt_have_basic :: "'w pstate \<Rightarrow> error + 'w pstate" where
  "stmt_have_basic = set_attr (\<lambda>p. Inr True) (\<lambda>v p. p\<lparr>have_basic := v\<rparr>)"

text \<open>Lines 38--77: nothing to do once the basic data is there.\<close>

definition fetch_basic :: "gconf \<Rightarrow> backend \<Rightarrow> 'w pstate \<Rightarrow> error option \<times> 'w pstate" where
  "fetch_basic g be st =
     (if have_basic (fst st) then (None, st)
      else run_stmts ([stmt_extract be, stmt_callback] @ basic_fields g be @ [stmt_have_basic]) st)"

subsection \<open>\<open>_fetch_gdata\<close>\<close>

text \<open>Lines 84--85: the first item's \<open>snippet\<close> of the secondary metadata.\<close>

definition gdata_snippet :: "backend \<Rightarrow> string \<Rightarrow> error + pyval" where
  "gdata_snippet be vid =
     ebind (video_gdata be vid) (\<lambda>r.
     ebind (py_getitem r ''items'') (\<lambda>items.
     ebind (py_index items 0) (\<lambda>item. py_getitem item ''snippet'')))"

text \<open>Line 89: \<open>[uni(i) for i in snippet.get("tags", ())]\<close>.\<close>

definition snippet_tags :: "pyval \<Rightarrow> error + string list" where
  "snippet_tags sn = ebind (py_get sn ''tags'' (PyList [])) (\<lambda>t. ebind (py_iter t) (\<lambda>xs. Inr (map py_str xs)))"

text \<open>Lines 79--90.\<close>

definition fetch_gdata :: "backend \<Rightarrow> 'w pstate \<Rightarrow> error option \<times> 'w pstate" where
  "fetch_gdata be st =
     (if have_gdata (fst st) then (None, st)
      else case gdata_snippet be (videoid (fst st)) of
        Inl e \<Rightarrow> (Some e, st)
      | Inr sn \<Rightarrow> run_stmts
          [set_attr (\<lambda>p. ebind (py_getitem sn ''publishedAt'') (\<lambda>v. Inr (PyStr (py_str v)))) (\<lambda>v p. p\<lparr>published := v\<rparr>),
           set_attr (\<lambda>p. ebind (py_getitem sn ''description'') (\<lambda>v. Inr (PyStr (py_str v)))) (\<lambda>v p. p\<lparr>description := v\<rparr>),
           set_attr (\<lambda>p. snippet_tags sn) (\<lambda>v p. p\<lparr>keyword_tags := Some v\<rparr>),
           set_attr (\<lambda>p. Inr True) (\<lambda>v p. p\<lparr>have_gdata := v\<rparr>)] st)"

subsection \<open>\<open>_process_streams\<close>\<close>

text \<open>Lines 92--104: fetch the basic data if needed, then build and store the catalog.\<close>

definition process_streams :: "gconf \<Rightarrow> backend \<Rightarrow> 'w pstate \<Rightarrow> error option \<times> 'w pstate" where
  "process_streams g be st =
     (let (r, st1) = (if \<not> have_basic (fst st) then fetch_basic g be st else (None, st))
      in case r of
           Some e \<Rightarrow> (Some e, st1)
         | None \<Rightarrow> (case build_catalog (ydl_info (fst st1)) of
                      Inl e \<Rightarrow> (Some e, st1)
                    | Inr c \<Rightarrow> (None, ((fst st1)\<lparr>catalog := Some c\<rparr>, snd st1))))"

subsection \<open>Proof vocabulary\<close>

text \<open>
  The block of \<open>_fetch_basic\<close> as one list, the statements of \<open>_fetch_gdata\<close> before
  its flag, and the attributes each fetch leaves alone.
\<close>

definition handle_frame :: "pafy \<Rightarrow> pafy \<Rightarrow> bool" where
  "handle_frame p p' \<longleftrightarrow> have_gdata p' = have_gdata p \<and> keyword_tags p' = keyword_tags p \<and>
     catalog p' = catalog p \<and> videoid p' = videoid p \<and> callback p' = callback p \<and> ydl_opts p' = ydl_opts p"

definition basic_block :: "gconf \<Rightarrow> backend \<Rightarrow> ('w pstate \<Rightarrow> error + 'w pstate) list" where
  "basic_block g be = [stmt_extract be, stmt_callback] @ basic_fields g be @ [stmt_have_basic]"

definition gdata_stmts :: "pyval \<Rightarrow> ('w pstate \<Rightarrow> error + 'w pstate) list" where
  "gdata_stmts sn =
     [set_attr (\<lambda>p. ebind (py_getitem sn ''publishedAt'') (\<lambda>v. Inr (PyStr (py_str v)))) (\<lambda>v p. p\<lparr>published := v\<rparr>),
      set_attr (\<lambda>p. ebind (py_getitem sn ''description'') (\<lambda>v. Inr (PyStr (py_str v)))) (\<lambda>v p. p\<lparr>description := v\<rparr>),
      set_attr (\<lambda>p. snippet_tags sn) (\<lambda>v p. p\<lparr>keyword_tags := Some v\<rparr>)]"

definition gdata_frame :: "pafy \<Rightarrow> pafy \<Rightarrow> bool" where
  "gdata_frame p p' \<longleftrightarrow> have_basic p' = have_basic p \<and> ydl_info p' = ydl_info p \<and> expiry p' = expiry p \<and>
     bigthumb p' = bigthumb p \<and> bigthumbhd p' = bigthumbhd p \<and> catalog p' = catalog p \<and>
     title p' = title p \<and> videoid p' = videoid p"

subsection \<open>The handle as a state machine\<close>

datatype pafy_op = FetchBasic | FetchGdata | ProcessStreams

fun pafy_run :: "gconf \<Rightarrow> backend \<Rightarrow> pafy_op \<Rightarrow> 'w pstate \<Rightarrow> error option \<times> 'w pstate" where
  "pafy_run g be FetchBasic st = fetch_basic g be st"
| "pafy_run g be FetchGdata st = fetch_gdata be st"
| "pafy_run g be ProcessStreams st = process_streams g be st"

text \<open>A step is any of the three methods, whatever it returns or raises, against any backend.\<close>

inductive pafy_step :: "gconf \<Rightarrow> 'w pstate \<Rightarrow> 'w pstate \<Rightarrow> bool" where
  step: "pafy_step g st (snd (pafy_run g be op st))"

inductive pafy_reach :: "gconf \<Rightarrow> 'w pstate \<Rightarrow> bool" where
  init: "pafy_reach g (ytdl_pafy_init w vid cb opts)"
| step: "pafy_reach g st \<Longrightarrow> pafy_step g st st' \<Longrightarrow> pafy_reach g st'"

text \<open>
  What holds in every reachable state: once the basic data is in, the info is a dict,
  the expiry is set and the thumbnails are strings; a stored catalog was built from
  the stored info after the basic data came in, and is well formed; the secondary
  data comes with its keyword list.
\<close>

definition pafy_inv :: "pafy \<Rightarrow> bool" where
  "pafy_inv p \<longleftrightarrow>
     (have_basic p \<longrightarrow> (\<exists>d. ydl_info p = PyDict d) \<and> expiry p \<noteq> None \<and>
        (\<exists>u. bigthumb p = PyStr u) \<and> (\<exists>u. bigthumbhd p = PyStr u)) \<and>
     (\<forall>c. catalog p = Some c \<longrightarrow> have_basic p \<and> build_catalog (ydl_info p) = Inr c \<and> catalog_wf c) \<and>
     (have_gdata p \<longrightarrow> keyword_tags p \<noteq> None)"

text \<open>
  The lifecycle the specification describes, as an abstraction of the handle: whether the
  basic data, the secondary data and the stream catalog are present, and what each method
  may do to these three flags.
\<close>

definition lifecycle :: "pafy \<Rightarrow> bool \<times> bool \<times> bool" where
  "lifecycle p = (have_basic p, have_gdata p, catalog p \<noteq> None)"

fun lc_op :: "pafy_op \<Rightarrow> bool \<times> bool \<times> bool \<Rightarrow> bool \<times> bool \<times> bool \<Rightarrow> bool" where
  "lc_op FetchBasic (b, g, s) (b', g', s') = ((b \<longrightarrow> b') \<and> g' = g \<and> s' = s)"
| "lc_op FetchGdata (b, g, s) (b', g', s') = (b' = b \<and> (g \<longrightarrow> g') \<and> s' = s)"
| "lc_op ProcessStreams (b, g, s) (b', g', s') = ((b \<longrightarrow> b') \<and> g' = g \<and> (s \<longrightarrow> s') \<and> (s' \<longrightarrow> b'))"

subsection \<open>Example inputs\<close>

text \<open>
  A configuration with the \<open>g\<close> module's thumbnail templates and lifespan, an info
  dictionary of the shape yt-dlp returns, backends that answer with it, fail, or
  answer without a view count, and an empty process state.
\<close>

definition demo_g :: gconf where
  "demo_g = \<lparr>lifespan = 18000, bigthumb_url = ''http://i.ytimg.com/vi/%s/0.jpg'',
     bigthumbhd_url = ''http://i.ytimg.com/vi/%s/hqdefault.jpg''\<rparr>"

definition demo_info :: pydict where
  "demo_info = [(''title'', PyStr ''Demo''), (''uploader'', PyStr ''Someone''), (''duration'', PyInt 212),
     (''view_count'', PyInt 1000), (''uploader_id'', PyStr ''someone''),
     (''categories'', PyList [PyStr ''Music'']),
     (''thumbnails'', PyList [PyDict [(''url'', PyStr ''https://i.ytimg.com/vi/abc/maxres.jpg'')]]),
     (''formats'', PyList [PyDict desc_opus, PyDict desc_vp9])]"

definition demo_snippet :: pydict where
  "demo_snippet = [(''publishedAt'', PyStr ''2020-01-01T00:00:00Z''), (''description'', PyStr ''A demo'')]"

definition demo_backend :: backend where
  "demo_backend = \<lparr>extract_info = (\<lambda>opts vid. Inr (PyDict demo_info)),
     video_gdata = (\<lambda>vid. Inr (PyDict [(''items'', PyList [PyDict [(''snippet'', PyDict demo_snippet)]])])),
     now = 1000\<rparr>"

definition failing_backend :: backend where
  "failing_backend = \<lparr>extract_info = (\<lambda>opts vid. Inl ''ERROR: [youtube] abc: YouTube said: Video unavailable''),
     video_gdata = (\<lambda>vid. Inr (PyDict [(''items'', PyList [])])), now = 1000\<rparr>"

definition no_views_backend :: backend where
  "no_views_backend = \<lparr>extract_info = (\<lambda>opts vid. Inr (PyDict [(''title'', PyStr ''Demo'')])),
     video_gdata = (\<lambda>vid. Inl TypeError), now = 1000\<rparr>"

definition demo_world :: world where
  "demo_world = \<lparr>heap = (\<lambda>_. []), g_def_ydl_opts = 0, cb_log = []\<rparr>"

definition demo_handle :: "unit pstate" where
  "demo_handle = ytdl_pafy_init demo_world ''abc'' True []"

lemma set_attr_Inr:
  "set_attr e upd st = Inr st' \<longleftrightarrow> (\<exists>v. e (fst st) = Inr v \<and> st' = (upd v (fst st), snd st))"
  by (cases "e (fst st)") (auto simp: set_attr_def)

lemma basic_fields_keep:
  assumes "f \<in> set (basic_fields g be)" and "f t = Inr t'"
  shows "snd t' = snd t \<and> ydl_info (fst t') = ydl_info (fst t) \<and> have_basic (fst t') = have_basic (fst t) \<and>
         have_gdata (fst t') = have_gdata (fst t) \<and> keyword_tags (fst t') = keyword_tags (fst t) \<and>
         catalog (fst t') = catalog (fst t) \<and> videoid (fst t') = videoid (fst t) \<and>
         callback (fst t') = callback (fst t) \<and> ydl_opts (fst t') = ydl_opts (fst t)"
  using assms by (auto simp: basic_fields_def set_attr_Inr)

lemma stmt_extract_Inr:
  "stmt_extract be t = Inr t' \<longleftrightarrow>
     (\<exists>i. extract_info be (heap (snd t) (ydl_opts (fst t))) (videoid (fst t)) = Inr i \<and>
          t' = ((fst t)\<lparr>ydl_info := i\<rparr>, snd t))"
  by (auto simp: stmt_extract_def split: sum.splits)

lemma stmt_callback_eq:
  "stmt_callback t = Inr t' \<longleftrightarrow>
     t' = (fst t, if callback (fst t) then (snd t)\<lparr>cb_log := cb_log (snd t) @ [''Fetched video info'']\<rparr> else snd t)"
  by (auto simp: stmt_callback_def)

lemma fetch_basic_frame:
  assumes "fetch_basic g be st = (r, st')"
  shows "handle_frame (fst st) (fst st') \<and> heap (snd st') = heap (snd st)"
proof -
  let ?P = "\<lambda>t. handle_frame (fst st) (fst t) \<and> heap (snd t) = heap (snd st)"
  have "?P (snd (run_stmts ([stmt_extract be, stmt_callback] @ basic_fields g be @ [stmt_have_basic]) st))"
  proof (rule run_stmts_preserves)
    show "?P st" by (simp add: handle_frame_def)
  next
    fix f t t'
    assume f: "f \<in> set ([stmt_extract be, stmt_callback] @ basic_fields g be @ [stmt_have_basic])"
      and P: "?P t" and ft: "f t = Inr t'"
    show "?P t'"
    proof (cases "f \<in> set (basic_fields g be)")
      case True
      with P ft show ?thesis using basic_fields_keep [OF True ft] by (simp add: handle_frame_def)
    next
      case False
      with f P ft show ?thesis
        by (auto simp: stmt_extract_Inr stmt_callback_eq stmt_have_basic_def set_attr_Inr handle_frame_def)
    qed
  qed
  with assms show ?thesis
    by (auto simp: fetch_basic_def handle_frame_def split: if_splits)
qed

lemma basic_block_length: "List.length (basic_block g be) = 16"
  by (simp add: basic_block_def basic_fields_def)

lemma fetch_basic_block:
  "\<not> have_basic (fst st) \<Longrightarrow> fetch_basic g be st = run_stmts (basic_block g be) st"
  by (simp add: fetch_basic_def basic_block_def)

lemma basic_block_drop_keep:
  assumes "g \<in> set (drop 1 (basic_block gc be))" and "g t = Inr t'"
  shows "ydl_info (fst t') = ydl_info (fst t)"
  using assms by (auto simp: basic_block_def basic_fields_def set_attr_Inr stmt_callback_eq stmt_have_basic_def)

lemma py_get_Inr_dict: "py_get v k dflt = Inr x \<Longrightarrow> \<exists>d. v = PyDict d"
  by (cases v) auto

lemmas basic_block_simps =
  basic_block_def basic_fields_def set_attr_Inr stmt_extract_Inr stmt_callback_eq stmt_have_basic_def

lemma fetch_basic_ok:
  assumes "\<not> have_basic (fst st)" and "fetch_basic g be st = (None, st')"
  shows "have_basic (fst st') \<and>
    extract_info be (heap (snd st) (ydl_opts (fst st))) (videoid (fst st)) = Inr (ydl_info (fst st')) \<and>
    (\<exists>d. ydl_info (fst st') = PyDict d) \<and>
    expiry (fst st') = Some (now be + lifespan g) \<and>
    percent_s (bigthumb_url g) (videoid (fst st)) = Inr (py_str (bigthumb (fst st'))) \<and>
    (\<exists>u. bigthumb (fst st') = PyStr u) \<and> (\<exists>u. bigthumbhd (fst st') = PyStr u) \<and>
    title (fst st') = try_default (py_getitem (ydl_info (fst st')) ''title'') (PyStr ''NA'') \<and>
    author (fst st') = try_default (py_getitem (ydl_info (fst st')) ''uploader'') (PyStr ''NA'') \<and>
    rating (fst st') = try_default (py_getitem (ydl_info (fst st')) ''average_rating'') (PyStr ''NA'') \<and>
    py_get (ydl_info (fst st')) ''duration'' (PyInt 0) = Inr (length_val (fst st')) \<and>
    py_getitem (ydl_info (fst st')) ''view_count'' = Inr (viewcount (fst st')) \<and>
    py_get (ydl_info (fst st')) ''like_count'' (PyInt 0) = Inr (likes (fst st')) \<and>
    py_getitem (ydl_info (fst st')) ''uploader_id'' = Inr (username (fst st')) \<and>
    cb_log (snd st') = cb_log (snd st) @ (if callback (fst st) then [''Fetched video info''] else [])"
proof -
  from assms have r: "run_stmts (basic_block g be) st = (None, st')"
    by (simp add: fetch_basic_block)
  note post = run_stmts_nth_post [OF r]
  have "have_basic (fst st')"
    by (rule post [of 15]) (auto simp: basic_block_simps)
  moreover have "extract_info be (heap (snd st) (ydl_opts (fst st))) (videoid (fst st)) = Inr (ydl_info (fst st'))"
    by (rule post [of 0]) (auto simp: basic_block_simps)
  moreover have "\<exists>d. ydl_info (fst st') = PyDict d"
    by (rule post [of 5]) (auto simp: basic_block_simps dest: py_get_Inr_dict)
  moreover have "expiry (fst st') = Some (now be + lifespan g)"
    by (rule post [of 14]) (auto simp: basic_block_simps)
  moreover have "videoid (fst st') = videoid (fst st)"
    by (rule post [of 0]) (auto simp: basic_block_simps)
  moreover have "percent_s (bigthumb_url g) (videoid (fst st')) = Inr (py_str (bigthumb (fst st'))) \<and>
                 (\<exists>u. bigthumb (fst st') = PyStr u)"
    by (rule post [of 12]) (auto simp: basic_block_simps)
  moreover have "\<exists>u. bigthumbhd (fst st') = PyStr u"
    by (rule post [of 13]) (auto simp: basic_block_simps)
  moreover have "title (fst st') = try_default (py_getitem (ydl_info (fst st')) ''title'') (PyStr ''NA'')"
    by (rule post [of 2]) (auto simp: basic_block_simps)
  moreover have "author (fst st') = try_default (py_getitem (ydl_info (fst st')) ''uploader'') (PyStr ''NA'')"
    by (rule post [of 3]) (auto simp: basic_block_simps)
  moreover have "rating (fst st') = try_default (py_getitem (ydl_info (fst st')) ''average_rating'') (PyStr ''NA'')"
    by (rule post [of 4]) (auto simp: basic_block_simps)
  moreover have "py_get (ydl_info (fst st')) ''duration'' (PyInt 0) = Inr (length_val (fst st'))"
    by (rule post [of 5]) (auto simp: basic_block_simps)
  moreover have "py_getitem (ydl_info (fst st')) ''view_count'' = Inr (viewcount (fst st'))"
    by (rule post [of 6]) (auto simp: basic_block_simps)
  moreover have "py_get (ydl_info (fst st')) ''like_count'' (PyInt 0) = Inr (likes (fst st'))"
    by (rule post [of 7]) (auto simp: basic_block_simps)
  moreover have "py_getitem (ydl_info (fst st')) ''uploader_id'' = Inr (username (fst st'))"
    by (rule post [of 8]) (auto simp: basic_block_simps)
  moreover have "cb_log (snd st') = cb_log (snd st) @ (if callback (fst st) then [''Fetched video info''] else [])"
    by (rule post [of 1]) (auto simp: basic_block_simps stmt_extract_def split: sum.splits)
  ultimately show ?thesis by simp
qed

lemma fetch_basic_fail:
  assumes "\<not> have_basic (fst st)" and "fetch_basic g be st = (Some e, st')"
  shows "\<not> have_basic (fst st')"
proof -
  let ?A = "[stmt_extract be, stmt_callback] @ basic_fields g be"
  have keep: "\<not> have_basic (fst (snd (run_stmts ?A st)))"
    using assms(1) by (rule run_stmts_preserves) (auto simp: basic_block_simps)
  have "run_stmts (?A @ [stmt_have_basic]) st = (Some e, st')"
    using assms by (simp add: fetch_basic_def)
  then have "run_stmts ?A st = (Some e, st')"
    by (rule run_stmts_snoc_total [rotated]) (simp add: stmt_have_basic_def set_attr_def)
  with keep show ?thesis by simp
qed

lemma base_pafy_inv: "pafy_inv (base_pafy vid cb r)"
  by (simp add: pafy_inv_def base_pafy_def)

lemma pafy_inv_no_basic: "pafy_inv p \<Longrightarrow> \<not> have_basic p \<Longrightarrow> catalog p = None"
  by (cases "catalog p") (auto simp: pafy_inv_def)

lemma fetch_basic_inv:
  assumes "pafy_inv (fst st)" and "fetch_basic g be st = (r, st')"
  shows "pafy_inv (fst st')"
proof (cases "have_basic (fst st)")
  case True
  with assms show ?thesis by (simp add: fetch_basic_def)
next
  case False
  then have cat: "catalog (fst st) = None" using assms(1) pafy_inv_no_basic by blast
  have fr: "handle_frame (fst st) (fst st')" using fetch_basic_frame [OF assms(2)] by blast
  show ?thesis
  proof (cases r)
    case None
    with fetch_basic_ok [OF False] assms(2) have "have_basic (fst st') \<and> (\<exists>d. ydl_info (fst st') = PyDict d) \<and>
        expiry (fst st') \<noteq> None \<and> (\<exists>u. bigthumb (fst st') = PyStr u) \<and> (\<exists>u. bigthumbhd (fst st') = PyStr u)"
      by auto
    with fr cat assms(1) show ?thesis by (simp add: pafy_inv_def handle_frame_def)
  next
    case (Some e)
    with fetch_basic_fail [OF False] assms(2) have "\<not> have_basic (fst st')" by simp
    with fr cat assms(1) show ?thesis by (simp add: pafy_inv_def handle_frame_def)
  qed
qed

lemma fetch_gdata_stmts:
  "\<not> have_gdata (fst st) \<Longrightarrow> gdata_snippet be (videoid (fst st)) = Inr sn \<Longrightarrow>
   fetch_gdata be st = run_stmts (gdata_stmts sn @ [set_attr (\<lambda>p. Inr True) (\<lambda>v p. p\<lparr>have_gdata := v\<rparr>)]) st"
  by (simp add: fetch_gdata_def gdata_stmts_def)

lemma fetch_gdata_noop:
  assumes "\<not> (\<not> have_gdata (fst st) \<and> (\<exists>sn. gdata_snippet be (videoid (fst st)) = Inr sn))"
  shows "snd (fetch_gdata be st) = st"
proof (cases "have_gdata (fst st)")
  case True
  then show ?thesis by (simp add: fetch_gdata_def)
next
  case False
  with assms obtain e where "gdata_snippet be (videoid (fst st)) = Inl e"
    by (cases "gdata_snippet be (videoid (fst st))") auto
  with False show ?thesis by (simp add: fetch_gdata_def)
qed

lemma fetch_gdata_frame:
  assumes "fetch_gdata be st = (r, st')"
  shows "gdata_frame (fst st) (fst st') \<and> snd st' = snd st"
proof -
  let ?P = "\<lambda>t. gdata_frame (fst st) (fst t) \<and> snd t = snd st"
  show ?thesis
  proof (cases "\<not> have_gdata (fst st) \<and> (\<exists>sn. gdata_snippet be (videoid (fst st)) = Inr sn)")
    case True
    then obtain sn where "\<not> have_gdata (fst st)" "gdata_snippet be (videoid (fst st)) = Inr sn" by blast
    then have "fetch_gdata be st = run_stmts (gdata_stmts sn @ [set_attr (\<lambda>p. Inr True) (\<lambda>v p. p\<lparr>have_gdata := v\<rparr>)]) st"
      by (rule fetch_gdata_stmts)
    moreover have "?P (snd (run_stmts (gdata_stmts sn @ [set_attr (\<lambda>p. Inr True) (\<lambda>v p. p\<lparr>have_gdata := v\<rparr>)]) st))"
      by (rule run_stmts_preserves) (auto simp: gdata_frame_def gdata_stmts_def set_attr_Inr)
    ultimately show ?thesis using assms by (metis snd_conv)
  next
    case False
    then have "st' = st" using assms fetch_gdata_noop [OF False] by simp
    then show ?thesis by (simp add: gdata_frame_def)
  qed
qed

lemma fetch_gdata_kw:
  assumes "fetch_gdata be st = (r, st')" and "have_gdata (fst st) \<longrightarrow> keyword_tags (fst st) \<noteq> None"
  shows "have_gdata (fst st') \<longrightarrow> keyword_tags (fst st') \<noteq> None"
proof (cases "\<not> have_gdata (fst st) \<and> (\<exists>sn. gdata_snippet be (videoid (fst st)) = Inr sn)")
  case True
  then obtain sn where ng: "\<not> have_gdata (fst st)" and sn: "gdata_snippet be (videoid (fst st)) = Inr sn" by blast
  let ?L = "gdata_stmts sn @ [set_attr (\<lambda>p. Inr True) (\<lambda>v p. p\<lparr>have_gdata := v\<rparr>)]"
  have run: "run_stmts ?L st = (r, st')" using fetch_gdata_stmts [OF ng sn] assms(1) by (simp only:)
  show ?thesis
  proof (cases r)
    case None
    have "keyword_tags (fst st') \<noteq> None"
      by (rule run_stmts_nth_post [OF run [unfolded None], of 2]) (auto simp: gdata_stmts_def set_attr_Inr)
    then show ?thesis by simp
  next
    case (Some e)
    have "run_stmts (gdata_stmts sn) st = (Some e, st')"
      by (rule run_stmts_snoc_total [OF _ run [unfolded Some]]) (simp add: set_attr_def)
    moreover have "\<not> have_gdata (fst (snd (run_stmts (gdata_stmts sn) st)))"
      using ng by (rule run_stmts_preserves) (auto simp: gdata_stmts_def set_attr_Inr)
    ultimately show ?thesis by simp
  qed
next
  case False
  then have "st' = st" using assms(1) fetch_gdata_noop [OF False] by simp
  then show ?thesis using assms(2) by simp
qed

lemma fetch_gdata_inv:
  assumes "pafy_inv (fst st)" and "fetch_gdata be st = (r, st')"
  shows "pafy_inv (fst st')"
proof -
  have "gdata_frame (fst st) (fst st')" using fetch_gdata_frame [OF assms(2)] by blast
  moreover have "have_gdata (fst st') \<longrightarrow> keyword_tags (fst st') \<noteq> None"
    using assms by (intro fetch_gdata_kw [OF assms(2)]) (simp add: pafy_inv_def)
  ultimately show ?thesis using assms(1) by (simp add: pafy_inv_def gdata_frame_def)
qed

lemma process_streams_inv:
  assumes "pafy_inv (fst st)" and "process_streams g be st = (r, st')"
  shows "pafy_inv (fst st')"
proof -
  obtain r1 st1 where f: "(if \<not> have_basic (fst st) then fetch_basic g be st else (None, st)) = (r1, st1)"
    by (metis surj_pair)
  have inv1: "pafy_inv (fst st1)" and hb: "r1 = None \<Longrightarrow> have_basic (fst st1)"
  proof (atomize (full), cases "have_basic (fst st)")
    case True
    with f assms(1) show "pafy_inv (fst st1) \<and> (r1 = None \<longrightarrow> have_basic (fst st1))" by simp
  next
    case False
    with f have fb: "fetch_basic g be st = (r1, st1)" by simp
    have "pafy_inv (fst st1)" using assms(1) fb by (rule fetch_basic_inv)
    moreover have "r1 = None \<longrightarrow> have_basic (fst st1)"
    proof
      assume "r1 = None"
      with fb have "fetch_basic g be st = (None, st1)" by simp
      from fetch_basic_ok [OF False this] show "have_basic (fst st1)" by simp
    qed
    ultimately show "pafy_inv (fst st1) \<and> (r1 = None \<longrightarrow> have_basic (fst st1))" by blast
  qed
  show ?thesis
  proof (cases "r1 = None \<and> (\<exists>c. build_catalog (ydl_info (fst st1)) = Inr c)")
    case True
    then obtain c where r1: "r1 = None" and c: "build_catalog (ydl_info (fst st1)) = Inr c" by blast
    with assms(2) f have "st' = ((fst st1)\<lparr>catalog := Some c\<rparr>, snd st1)"
      by (simp add: process_streams_def)
    with inv1 hb [OF r1] c built_catalog_wf [OF c] show ?thesis by (simp add: pafy_inv_def)
  next
    case False
    have "process_streams g be st =
            (case r1 of Some e \<Rightarrow> (Some e, st1)
             | None \<Rightarrow> (case build_catalog (ydl_info (fst st1)) of Inl e \<Rightarrow> (Some e, st1)
                        | Inr c \<Rightarrow> (None, ((fst st1)\<lparr>catalog := Some c\<rparr>, snd st1))))"
      using f by (simp add: process_streams_def)
    with assms(2) False have "st' = st1"
      by (cases r1; cases "build_catalog (ydl_info (fst st1))") auto
    with inv1 show ?thesis by simp
  qed
qed

lemma pafy_run_inv: "pafy_inv (fst st) \<Longrightarrow> pafy_inv (fst (snd (pafy_run g be op st)))"
proof (cases op)
  case FetchBasic
  assume "pafy_inv (fst st)"
  then show ?thesis using FetchBasic fetch_basic_inv [of st g be "fst (fetch_basic g be st)"] by simp
next
  case FetchGdata
  assume "pafy_inv (fst st)"
  then show ?thesis using FetchGdata fetch_gdata_inv [of st be "fst (fetch_gdata be st)"] by simp
next
  case ProcessStreams
  assume "pafy_inv (fst st)"
  then show ?thesis using ProcessStreams process_streams_inv [of st g be "fst (process_streams g be st)"] by simp
qed

lemma pafy_step_inv: "pafy_step g st st' \<Longrightarrow> pafy_inv (fst st) \<Longrightarrow> pafy_inv (fst st')"
  by (induction rule: pafy_step.induct) (rule pafy_run_inv)

lemma pafy_reach_inv_aux: "pafy_reach g st \<Longrightarrow> pafy_inv (fst st)"
proof (induction rule: pafy_reach.induct)
  case (init w vid cb opts)
  then show ?case by (simp add: ytdl_pafy_init_def base_pafy_inv Let_def)
next
  case (step st st')
  then show ?case by (blast intro: pafy_step_inv)
qed

lemma fetch_basic_lc:
  assumes "fetch_basic g be st = (r, st')"
  shows "lc_op FetchBasic (lifecycle (fst st)) (lifecycle (fst st'))"
proof (cases "have_basic (fst st)")
  case True
  with assms show ?thesis by (simp add: fetch_basic_def lifecycle_def)
next
  case False
  with fetch_basic_frame [OF assms] show ?thesis by (simp add: lifecycle_def handle_frame_def)
qed

lemma fetch_gdata_lc:
  assumes "fetch_gdata be st = (r, st')"
  shows "lc_op FetchGdata (lifecycle (fst st)) (lifecycle (fst st'))"
proof (cases "have_gdata (fst st)")
  case True
  with assms show ?thesis by (simp add: fetch_gdata_def lifecycle_def)
next
  case False
  with fetch_gdata_frame [OF assms] show ?thesis by (simp add: lifecycle_def gdata_frame_def)
qed

lemma process_streams_lc:
  assumes "pafy_inv (fst st)" and "process_streams g be st = (r, st')"
  shows "lc_op ProcessStreams (lifecycle (fst st)) (lifecycle (fst st'))"
proof -
  obtain r1 st1 where f: "(if \<not> have_basic (fst st) then fetch_basic g be st else (None, st)) = (r1, st1)"
    by (metis surj_pair)
  have lc1: "(have_basic (fst st) \<longrightarrow> have_basic (fst st1)) \<and> have_gdata (fst st1) = have_gdata (fst st) \<and>
      catalog (fst st1) = catalog (fst st) \<and> (catalog (fst st) \<noteq> None \<longrightarrow> have_basic (fst st))"
  proof (cases "have_basic (fst st)")
    case True
    with f show ?thesis by simp
  next
    case False
    with f have "fetch_basic g be st = (r1, st1)" by simp
    with False fetch_basic_frame [OF this] pafy_inv_no_basic [OF assms(1)] show ?thesis
      by (simp add: handle_frame_def)
  qed
  have hb: "r1 = None \<Longrightarrow> have_basic (fst st1)"
  proof (cases "have_basic (fst st)")
    case True
    with lc1 show "have_basic (fst st1)" by simp
  next
    case False
    assume "r1 = None"
    with False f have "fetch_basic g be st = (None, st1)" by simp
    from fetch_basic_ok [OF False this] show "have_basic (fst st1)" by simp
  qed
  have "process_streams g be st =
          (case r1 of Some e \<Rightarrow> (Some e, st1)
           | None \<Rightarrow> (case build_catalog (ydl_info (fst st1)) of Inl e \<Rightarrow> (Some e, st1)
                      | Inr c \<Rightarrow> (None, ((fst st1)\<lparr>catalog := Some c\<rparr>, snd st1))))"
    using f by (simp add: process_streams_def)
  then have "st' = st1 \<or> (r1 = None \<and> (\<exists>c. st' = ((fst st1)\<lparr>catalog := Some c\<rparr>, snd st1)))"
  proof (cases r1)
    case None
    assume eq: "process_streams g be st =
          (case r1 of Some e \<Rightarrow> (Some e, st1)
           | None \<Rightarrow> (case build_catalog (ydl_info (fst st1)) of Inl e \<Rightarrow> (Some e, st1)
                      | Inr c \<Rightarrow> (None, ((fst st1)\<lparr>catalog := Some c\<rparr>, snd st1))))"
    show ?thesis
    proof (cases "build_catalog (ydl_info (fst st1))")
      case (Inl e)
      with eq None assms(2) show ?thesis by simp
    next
      case (Inr c)
      with eq None assms(2) have "st' = ((fst st1)\<lparr>catalog := Some c\<rparr>, snd st1)" by simp
      with None show ?thesis by blast
    qed
  next
    case (Some e)
    assume "process_streams g be st =
          (case r1 of Some e \<Rightarrow> (Some e, st1)
           | None \<Rightarrow> (case build_catalog (ydl_info (fst st1)) of Inl e \<Rightarrow> (Some e, st1)
                      | Inr c \<Rightarrow> (None, ((fst st1)\<lparr>catalog := Some c\<rparr>, snd st1))))"
    with Some assms(2) show ?thesis by simp
  qed
  then show ?thesis
  proof (elim disjE exE conjE)
    assume "st' = st1"
    with lc1 show ?thesis by (simp add: lifecycle_def)
  next
    fix c assume "r1 = None" "st' = ((fst st1)\<lparr>catalog := Some c\<rparr>, snd st1)"
    with lc1 hb show ?thesis by (simp add: lifecycle_def)
  qed
qed

lemma try_default_dict: "try_default (py_getitem (PyDict d) k) dflt = dget d k dflt"
  by (simp add: try_default_def dget_def split: option.splits)

lemma py_get_dict_eq: "py_get (PyDict d) k dflt = Inr x \<longleftrightarrow> x = dget d k dflt"
  by auto

lemma process_streams_ok:
  assumes "process_streams g be st = (None, st1)"
  shows "have_basic (fst st1) \<and> (\<exists>c. catalog (fst st1) = Some c \<and> build_catalog (ydl_info (fst st1)) = Inr c)"
proof -
  obtain r1 s1 where f: "(if \<not> have_basic (fst st) then fetch_basic g be st else (None, st)) = (r1, s1)"
    by (metis surj_pair)
  have "process_streams g be st =
          (case r1 of Some e \<Rightarrow> (Some e, s1)
           | None \<Rightarrow> (case build_catalog (ydl_info (fst s1)) of Inl e \<Rightarrow> (Some e, s1)
                      | Inr c \<Rightarrow> (None, ((fst s1)\<lparr>catalog := Some c\<rparr>, snd s1))))"
    using f by (simp add: process_streams_def)
  with assms obtain c where r1: "r1 = None" and c: "build_catalog (ydl_info (fst s1)) = Inr c"
    and st1: "st1 = ((fst s1)\<lparr>catalog := Some c\<rparr>, snd s1)"
    by (cases r1; cases "build_catalog (ydl_info (fst s1))") auto
  have "have_basic (fst s1)"
  proof (cases "have_basic (fst st)")
    case True
    with f show ?thesis by simp
  next
    case False
    with f r1 have "fetch_basic g be st = (None, s1)" by simp
    from fetch_basic_ok [OF False this] show ?thesis by simp
  qed
  with c st1 show ?thesis by simp
qed

subsection \<open>Fetching the basic data\<close>

text \<open>
  C16. When the backend returns an info dict and \<open>_fetch_basic\<close> completes, the
  handle holds that dict and the attributes of the default table: title, author and
  rating from the dict or "NA" when the key is missing, duration and like count from
  the dict or 0 when the key is missing (a key present with \<open>None\<close> gives \<open>None\<close>),
  view count and uploader id from the dict, expiry at now plus the lifespan; the
  callback received "Fetched video info" once.
\<close>

theorem fetch_basic_defaults:
  assumes "\<not> have_basic (fst st)" and "fetch_basic g be st = (None, st')"
    and "extract_info be (heap (snd st) (ydl_opts (fst st))) (videoid (fst st)) = Inr (PyDict d)"
  shows "have_basic (fst st') \<and> ydl_info (fst st') = PyDict d \<and>
         title (fst st') = dget d ''title'' (PyStr ''NA'') \<and> author (fst st') = dget d ''uploader'' (PyStr ''NA'') \<and>
         rating (fst st') = dget d ''average_rating'' (PyStr ''NA'') \<and>
         length_val (fst st') = dget d ''duration'' (PyInt 0) \<and> likes (fst st') = dget d ''like_count'' (PyInt 0) \<and>
         map_of d ''view_count'' = Some (viewcount (fst st')) \<and> map_of d ''uploader_id'' = Some (username (fst st')) \<and>
         expiry (fst st') = Some (now be + lifespan g) \<and>
         cb_log (snd st') = cb_log (snd st) @ (if callback (fst st) then [''Fetched video info''] else [])"
proof -
  note ok = fetch_basic_ok [OF assms(1,2)]
  with assms(3) have i: "ydl_info (fst st') = PyDict d" by simp
  with ok show ?thesis
    by (auto simp: try_default_def dget_def split: option.splits)
qed

lemma demo_fetch_basic:
  "\<exists>st'. fetch_basic demo_g demo_backend demo_handle = (None, st')"
  by (simp add: fetch_basic_def basic_fields_def set_attr_def stmt_extract_def stmt_callback_def
      stmt_have_basic_def first_category_def best_thumb_def py_seq_index_def demo_handle_def
      ytdl_pafy_init_def base_pafy_def demo_backend_def demo_info_def demo_g_def)

theorem fetch_basic_defaults_witness:
  "\<exists>st'. fetch_basic demo_g demo_backend demo_handle = (None, st') \<and>
       title (fst st') = PyStr ''Demo'' \<and> rating (fst st') = PyStr ''NA'' \<and> likes (fst st') = PyInt 0"
proof -
  obtain st' where h: "fetch_basic demo_g demo_backend demo_handle = (None, st')"
    using demo_fetch_basic by blast
  have nb: "\<not> have_basic (fst demo_handle)"
    by (simp add: demo_handle_def ytdl_pafy_init_def base_pafy_def)
  have ex: "extract_info demo_backend (heap (snd demo_handle) (ydl_opts (fst demo_handle))) (videoid (fst demo_handle))
              = Inr (PyDict demo_info)"
    by (simp add: demo_backend_def)
  from fetch_basic_defaults [OF nb h ex] h show ?thesis
    by (simp add: demo_info_def dget_def)
qed

text \<open>
  C17. \<open>_fetch_basic\<close> completes whenever the backend returns an info dict with a view
  count, an uploader id, a category list, a first thumbnail dict with a URL, and the
  two thumbnail templates hold one \<open>%s\<close>: none of its statements raises.
\<close>

theorem fetch_basic_succeeds:
  assumes "\<not> have_basic (fst st)"
    and "extract_info be (heap (snd st) (ydl_opts (fst st))) (videoid (fst st)) = Inr (PyDict d)"
    and "map_of d ''view_count'' \<noteq> None" and "map_of d ''uploader_id'' \<noteq> None"
    and "map_of d ''categories'' = Some (PyList cs)"
    and "map_of d ''thumbnails'' = Some (PyList (PyDict t # ts))" and "map_of t ''url'' \<noteq> None"
    and "\<exists>u. percent_s (bigthumb_url g) (videoid (fst st)) = Inr u"
    and "\<exists>u. percent_s (bigthumbhd_url g) (videoid (fst st)) = Inr u"
  shows "\<exists>st'. fetch_basic g be st = (None, st')"
proof -
  obtain vc un tu u1 u2 where v: "map_of d ''view_count'' = Some vc" "map_of d ''uploader_id'' = Some un"
    "map_of t ''url'' = Some tu" "percent_s (bigthumb_url g) (videoid (fst st)) = Inr u1"
    "percent_s (bigthumbhd_url g) (videoid (fst st)) = Inr u2"
    using assms(3,4,7,8,9) by blast
  show ?thesis
    using assms(1,2,5,6) v
    by (cases cs) (simp_all add: fetch_basic_def basic_fields_def set_attr_def stmt_extract_def
        stmt_callback_def stmt_have_basic_def first_category_def best_thumb_def py_seq_index_def)
qed

theorem fetch_basic_succeeds_witness:
  "\<exists>st'. fetch_basic demo_g demo_backend demo_handle = (None, st')"
proof (rule fetch_basic_succeeds)
  show "\<not> have_basic (fst demo_handle)"
    by (simp add: demo_handle_def ytdl_pafy_init_def base_pafy_def)
  show "extract_info demo_backend (heap (snd demo_handle) (ydl_opts (fst demo_handle))) (videoid (fst demo_handle))
          = Inr (PyDict demo_info)"
    by (simp add: demo_backend_def)
  show "map_of demo_info ''view_count'' \<noteq> None" "map_of demo_info ''uploader_id'' \<noteq> None"
    "map_of demo_info ''categories'' = Some (PyList [PyStr ''Music''])"
    "map_of demo_info ''thumbnails'' = Some (PyList [PyDict [(''url'', PyStr ''https://i.ytimg.com/vi/abc/maxres.jpg'')]])"
    "map_of [(''url'', PyStr ''https://i.ytimg.com/vi/abc/maxres.jpg'')] ''url'' \<noteq> None"
    by (simp_all add: demo_info_def)
  show "\<exists>u. percent_s (bigthumb_url demo_g) (videoid (fst demo_handle)) = Inr u"
    "\<exists>u. percent_s (bigthumbhd_url demo_g) (videoid (fst demo_handle)) = Inr u"
    by (simp_all add: demo_g_def demo_handle_def ytdl_pafy_init_def base_pafy_def)
qed

text \<open>
  C18. When the backend raises \<open>DownloadError\<close>, \<open>_fetch_basic\<close> raises \<open>IOError\<close>
  with the backend's message, "YouTube said" replaced by "Youtube says", and changes
  nothing: no attribute is set and the callback is not called.
\<close>

theorem fetch_basic_ioerror:
  assumes "\<not> have_basic (fst st)"
    and "extract_info be (heap (snd st) (ydl_opts (fst st))) (videoid (fst st)) = Inl msg"
  shows "fetch_basic g be st = (Some (IOError (replace_all ''YouTube said'' ''Youtube says'' msg)), st)"
  using assms by (simp add: fetch_basic_def stmt_extract_def)

theorem fetch_basic_ioerror_witness:
  "fetch_basic demo_g failing_backend demo_handle =
     (Some (IOError ''ERROR: [youtube] abc: Youtube says: Video unavailable''), demo_handle)"
proof -
  have nb: "\<not> have_basic (fst demo_handle)"
    by (simp add: demo_handle_def ytdl_pafy_init_def base_pafy_def)
  have ex: "extract_info failing_backend (heap (snd demo_handle) (ydl_opts (fst demo_handle))) (videoid (fst demo_handle))
              = Inl ''ERROR: [youtube] abc: YouTube said: Video unavailable''"
    by (simp add: failing_backend_def)
  show ?thesis using fetch_basic_ioerror [OF nb ex] by simp
qed

text \<open>
  C19. The callback hears "Fetched video info" before the attributes are read: when
  the info has no view count, \<open>_fetch_basic\<close> raises \<open>KeyError\<close> after the callback
  was called and after title, author, rating and duration were stored, and the
  handle stays without its basic data.
\<close>

theorem fetch_basic_callback_before_keyerror:
  assumes "\<not> have_basic (fst st)" and "callback (fst st)"
    and "extract_info be (heap (snd st) (ydl_opts (fst st))) (videoid (fst st)) = Inr (PyDict d)"
    and "map_of d ''view_count'' = None"
  shows "\<exists>p'. fetch_basic g be st =
           (Some (KeyError (PyStr ''view_count'')), (p', (snd st)\<lparr>cb_log := cb_log (snd st) @ [''Fetched video info'']\<rparr>)) \<and>
         \<not> have_basic p' \<and> ydl_info p' = PyDict d \<and> title p' = dget d ''title'' (PyStr ''NA'')"
  using assms
  by (simp add: fetch_basic_def basic_fields_def set_attr_def stmt_extract_def stmt_callback_def
      try_default_def dget_def split: option.splits)

theorem fetch_basic_callback_before_keyerror_witness:
  "\<exists>p'. fetch_basic demo_g no_views_backend demo_handle =
     (Some (KeyError (PyStr ''view_count'')), (p', (snd demo_handle)\<lparr>cb_log := [''Fetched video info'']\<rparr>)) \<and>
     \<not> have_basic p' \<and> title p' = PyStr ''Demo''"
proof -
  have nb: "\<not> have_basic (fst demo_handle)" and cb: "callback (fst demo_handle)"
    by (simp_all add: demo_handle_def ytdl_pafy_init_def base_pafy_def)
  have ex: "extract_info no_views_backend (heap (snd demo_handle) (ydl_opts (fst demo_handle))) (videoid (fst demo_handle))
              = Inr (PyDict [(''title'', PyStr ''Demo'')])"
    by (simp add: no_views_backend_def)
  have w: "cb_log (snd demo_handle) = []"
    by (simp add: demo_handle_def ytdl_pafy_init_def demo_world_def)
  have "map_of [(''title'', PyStr ''Demo'')] ''view_count'' = None" by simp
  from fetch_basic_callback_before_keyerror [where g = demo_g, OF nb cb ex this] w show ?thesis
    by (auto simp: dget_def)
qed

subsection \<open>The state machine\<close>

text \<open>
  C20. Every state the handle reaches from its construction, by any sequence of
  fetches against any backends, satisfies \<open>pafy_inv\<close>: the basic data comes with a
  dict info, an expiry and string thumbnails; a stored catalog was built from the
  stored info and is well formed; the secondary data comes with its keyword list.
\<close>

theorem pafy_reach_inv:
  assumes "pafy_reach g st"
  shows "pafy_inv (fst st)"
  using assms by (rule pafy_reach_inv_aux)

theorem pafy_reach_inv_witness:
  "pafy_reach demo_g (snd (process_streams demo_g demo_backend demo_handle)) \<and>
   pafy_inv (fst (snd (process_streams demo_g demo_backend demo_handle)))"
proof -
  have r0: "pafy_reach demo_g demo_handle"
    unfolding demo_handle_def by (rule pafy_reach.init)
  have "pafy_step demo_g demo_handle (snd (pafy_run demo_g demo_backend ProcessStreams demo_handle))"
    by (rule pafy_step.step)
  then have "pafy_reach demo_g (snd (process_streams demo_g demo_backend demo_handle))"
    using r0 pafy_reach.step by fastforce
  with pafy_reach_inv show ?thesis by blast
qed

text \<open>
  C21. The catalog is cached: once \<open>_process_streams\<close> has completed, calling it again,
  against any backend, completes without changing the handle or the process state.
\<close>

theorem process_streams_cached:
  assumes "process_streams g be st = (None, st1)"
  shows "process_streams g be' st1 = (None, st1)"
proof -
  obtain c where hb: "have_basic (fst st1)" and cat: "catalog (fst st1) = Some c"
    and c: "build_catalog (ydl_info (fst st1)) = Inr c"
    using process_streams_ok [OF assms] by blast
  have "(fst st1)\<lparr>catalog := Some c\<rparr> = fst st1" using cat by simp
  with hb c show ?thesis by (simp add: process_streams_def)
qed

theorem process_streams_cached_witness:
  "\<exists>st1. process_streams demo_g demo_backend demo_handle = (None, st1) \<and>
        process_streams demo_g failing_backend st1 = (None, st1)"
proof -
  obtain st1 where h: "process_streams demo_g demo_backend demo_handle = (None, st1)"
    by (simp add: process_streams_def fetch_basic_def basic_fields_def set_attr_def stmt_extract_def
      stmt_callback_def stmt_have_basic_def first_category_def best_thumb_def py_seq_index_def demo_handle_def
      ytdl_pafy_init_def base_pafy_def demo_backend_def demo_info_def demo_g_def build_catalog_def
      ytdl_stream_dict resolve_url_str dget_def desc_opus_def desc_vp9_def plain_url_def manifest_prefix_def)
  with process_streams_cached [OF h] show ?thesis by blast
qed

text \<open>
  C13. One raw format whose \<open>abr\<close> is present with the value \<open>None\<close> (yt-dlp reports that
  for video-only formats) loses the whole catalog: once the formats before it build,
  \<open>_process_streams\<close> on a handle with its basic data raises \<open>TypeError\<close> (line 120 inside
  the comprehension of line 98), stores no catalog and leaves the handle and the world
  as they were.
\<close>

theorem process_streams_abr_none:
  assumes "have_basic (fst st)"
    and "py_getitem (ydl_info (fst st)) ''formats'' = Inr (PyList zs)"
    and "i < length zs" and "\<forall>j < i. \<exists>s. ytdl_stream (zs ! j) = Inr s"
    and "zs ! i = PyDict d" and "map_of d ''format_id'' \<noteq> None" and "map_of d ''abr'' = Some PyNone"
  shows "process_streams g be st = (Some TypeError, st)"
proof -
  have "ytdl_stream (zs ! i) = Inl TypeError"
    using assms(5-7) by (auto simp: ytdl_stream_dict dget_def)
  then have "build_all zs = Inl TypeError"
    using assms(3,4) build_all_Inl_iff by blast
  then show ?thesis
    using assms(1,2) by (simp add: process_streams_def build_catalog_def)
qed

theorem process_streams_abr_none_witness:
  "process_streams demo_g demo_backend
     ((fst demo_handle)\<lparr>have_basic := True,
        ydl_info := PyDict [(''formats'', PyList [PyDict desc_vp9, PyDict desc_null_abr])]\<rparr>, snd demo_handle) =
   (Some TypeError, ((fst demo_handle)\<lparr>have_basic := True,
        ydl_info := PyDict [(''formats'', PyList [PyDict desc_vp9, PyDict desc_null_abr])]\<rparr>, snd demo_handle))"
proof (rule process_streams_abr_none [where zs = "[PyDict desc_vp9, PyDict desc_null_abr]" and i = 1 and d = desc_null_abr])
  show "\<forall>j < 1. \<exists>s. ytdl_stream ([PyDict desc_vp9, PyDict desc_null_abr] ! j) = Inr s"
    using examples_ok(1) by simp
qed (simp_all add: desc_null_abr_def)

subsection \<open>Options shared through \<open>g.def_ydl_opts\<close>\<close>

text \<open>
  C22. The options of one handle leak into every later handle: after a handle is made
  with non-empty \<open>ydl_opts\<close>, a second handle made without options refers to the
  same dict object, which is \<open>g.def_ydl_opts\<close> updated with the first handle's
  options, and the extractor is called with that dict for both.
\<close>

theorem ydl_opts_shared:
  assumes "ytdl_pafy_init w v1 cb1 opts = (p1, w1)" and "ytdl_pafy_init w1 v2 cb2 [] = (p2, w2)"
    and "opts \<noteq> []"
  shows "ydl_opts p2 = ydl_opts p1 \<and> ydl_opts p1 = g_def_ydl_opts w \<and>
         heap w2 (ydl_opts p2) = dict_update (heap w (g_def_ydl_opts w)) opts"
  using assms by (auto simp: ytdl_pafy_init_def base_pafy_def Let_def)

theorem ydl_opts_shared_witness:
  "ydl_opts (fst (ytdl_pafy_init (snd (ytdl_pafy_init demo_world ''abc'' False [(''format'', PyStr ''bestaudio'')])) ''xyz'' False [])) =
     g_def_ydl_opts demo_world \<and>
   heap (snd (ytdl_pafy_init (snd (ytdl_pafy_init demo_world ''abc'' False [(''format'', PyStr ''bestaudio'')])) ''xyz'' False []))
     (g_def_ydl_opts demo_world) = [(''format'', PyStr ''bestaudio'')]"
proof -
  let ?o = "[(''format'', PyStr ''bestaudio'')]"
  obtain p1 w1 where h1: "ytdl_pafy_init demo_world ''abc'' False ?o = (p1, w1)" by (metis surj_pair)
  obtain p2 w2 where h2: "ytdl_pafy_init w1 ''xyz'' False [] = (p2, w2)" by (metis surj_pair)
  have "ydl_opts p2 = ydl_opts p1 \<and> ydl_opts p1 = g_def_ydl_opts demo_world \<and>
        heap w2 (ydl_opts p2) = dict_update (heap demo_world (g_def_ydl_opts demo_world)) ?o"
  proof (rule ydl_opts_shared [OF h1 h2])
    show "?o \<noteq> []" by simp
  qed
  then have e: "ydl_opts p2 = g_def_ydl_opts demo_world"
    "heap w2 (g_def_ydl_opts demo_world) = dict_update (heap demo_world (g_def_ydl_opts demo_world)) ?o"
    by metis+
  have "dict_update (heap demo_world (g_def_ydl_opts demo_world)) ?o = ?o"
    by (simp add: demo_world_def dict_update_def dict_set_def)
  with h1 h2 e show ?thesis by simp
qed

subsection \<open>Fetching the secondary data\<close>

text \<open>
  C23. \<open>_fetch_gdata\<close> does not depend on the basic data: when it completes, the
  secondary data and its keyword list are in and the basic data, the info and the
  catalog are as they were, so a handle can hold the secondary data without the basic
  data.
\<close>

theorem fetch_gdata_keeps_basic:
  assumes "fetch_gdata be st = (None, st')"
  shows "have_gdata (fst st') \<and> have_basic (fst st') = have_basic (fst st) \<and>
         ydl_info (fst st') = ydl_info (fst st) \<and> catalog (fst st') = catalog (fst st)"
proof -
  have fr: "gdata_frame (fst st) (fst st')" using fetch_gdata_frame [OF assms] by blast
  have "have_gdata (fst st')"
  proof (cases "\<not> have_gdata (fst st) \<and> (\<exists>sn. gdata_snippet be (videoid (fst st)) = Inr sn)")
    case True
    then obtain sn where ng: "\<not> have_gdata (fst st)" and sn: "gdata_snippet be (videoid (fst st)) = Inr sn" by blast
    have run: "run_stmts (gdata_stmts sn @ [set_attr (\<lambda>p. Inr True) (\<lambda>v p. p\<lparr>have_gdata := v\<rparr>)]) st = (None, st')"
      using fetch_gdata_stmts [OF ng sn] assms by (simp only:)
    show ?thesis
      by (rule run_stmts_nth_post [OF run, of 3]) (auto simp: gdata_stmts_def set_attr_Inr)
  next
    case False
    then have "st' = st" using assms fetch_gdata_noop [OF False] by simp
    moreover from False assms have "have_gdata (fst st)"
      by (auto simp: fetch_gdata_def split: sum.splits if_splits)
    ultimately show ?thesis by simp
  qed
  with fr show ?thesis by (simp add: gdata_frame_def)
qed

theorem fetch_gdata_keeps_basic_witness:
  "\<exists>st'. fetch_gdata demo_backend demo_handle = (None, st') \<and> have_gdata (fst st') \<and> \<not> have_basic (fst st')"
proof -
  obtain st' where h: "fetch_gdata demo_backend demo_handle = (None, st')"
    by (simp add: fetch_gdata_def gdata_snippet_def demo_backend_def demo_snippet_def set_attr_def
      snippet_tags_def py_seq_index_def demo_handle_def ytdl_pafy_init_def base_pafy_def dget_def)
  have "\<not> have_basic (fst demo_handle)"
    by (simp add: demo_handle_def ytdl_pafy_init_def base_pafy_def)
  with fetch_gdata_keeps_basic [OF h] h show ?thesis by auto
qed

text \<open>
  C24. The secondary data requires its item list and not its tags: an empty item list
  makes \<open>_fetch_gdata\<close> raise \<open>IndexError\<close> and change nothing.
\<close>

theorem fetch_gdata_no_items:
  assumes "\<not> have_gdata (fst st)"
    and "video_gdata be (videoid (fst st)) = Inr (PyDict r)" and "map_of r ''items'' = Some (PyList [])"
  shows "fetch_gdata be st = (Some IndexError, st)"
  using assms by (simp add: fetch_gdata_def gdata_snippet_def py_seq_index_def)

theorem fetch_gdata_no_items_witness:
  "fetch_gdata failing_backend demo_handle = (Some IndexError, demo_handle)"
proof (rule fetch_gdata_no_items)
  show "\<not> have_gdata (fst demo_handle)"
    by (simp add: demo_handle_def ytdl_pafy_init_def base_pafy_def)
  show "video_gdata failing_backend (videoid (fst demo_handle)) = Inr (PyDict [(''items'', PyList [])])"
    by (simp add: failing_backend_def)
  show "map_of [(''items'', PyList [])] ''items'' = Some (PyList [])" by simp
qed

text \<open>
  Tags are optional: a snippet with a publish date and a description but no
  \<open>tags\<close> key gives the handle the empty keyword list.
\<close>

lemma fetch_gdata_tags_optional:
  assumes "\<not> have_gdata (fst st)" and "gdata_snippet be (videoid (fst st)) = Inr (PyDict sn)"
    and "map_of sn ''publishedAt'' \<noteq> None" and "map_of sn ''description'' \<noteq> None"
    and "map_of sn ''tags'' = None"
  shows "\<exists>st'. fetch_gdata be st = (None, st') \<and> keyword_tags (fst st') = Some []"
proof -
  obtain a b where "map_of sn ''publishedAt'' = Some a" "map_of sn ''description'' = Some b"
    using assms(3,4) by blast
  with assms(1,2,5) show ?thesis
    by (simp add: fetch_gdata_def set_attr_def snippet_tags_def dget_def)
qed

lemma fetch_gdata_tags_optional_witness:
  "\<exists>st'. fetch_gdata demo_backend demo_handle = (None, st') \<and> keyword_tags (fst st') = Some []"
proof (rule fetch_gdata_tags_optional)
  show "\<not> have_gdata (fst demo_handle)"
    by (simp add: demo_handle_def ytdl_pafy_init_def base_pafy_def)
  show "gdata_snippet demo_backend (videoid (fst demo_handle)) = Inr (PyDict demo_snippet)"
    by (simp add: gdata_snippet_def demo_backend_def py_seq_index_def)
  show "map_of demo_snippet ''publishedAt'' \<noteq> None" "map_of demo_snippet ''description'' \<noteq> None"
    "map_of demo_snippet ''tags'' = None"
    by (simp_all add: demo_snippet_def)
qed

text \<open>C36: Refinement of the lifecycle: in every state satisfying the invariant, each method of the
  handle moves the three flags (basic data, secondary data, catalog) as the abstract lifecycle allows:
  \<open>_fetch_basic\<close> may only add the basic data, \<open>_fetch_gdata\<close> only the secondary data, and
  \<open>_process_streams\<close> the basic data and the catalog, never a catalog without the basic data;
  nothing is ever lost.\<close>

theorem pafy_run_refines_lifecycle:
  assumes "pafy_inv (fst st)"
  shows "lc_op op (lifecycle (fst st)) (lifecycle (fst (snd (pafy_run g be op st))))"
proof (cases op)
  case FetchBasic
  then show ?thesis using fetch_basic_lc [of g be st "fst (fetch_basic g be st)"] by simp
next
  case FetchGdata
  then show ?thesis using fetch_gdata_lc [of be st "fst (fetch_gdata be st)"] by simp
next
  case ProcessStreams
  then show ?thesis using process_streams_lc [OF assms, of g be "fst (process_streams g be st)"] by simp
qed

theorem pafy_run_refines_lifecycle_witness:
  "lc_op ProcessStreams (lifecycle (fst demo_handle)) (lifecycle (fst (snd (pafy_run demo_g demo_backend ProcessStreams demo_handle))))"
proof -
  have "pafy_inv (fst demo_handle)"
    by (simp add: demo_handle_def ytdl_pafy_init_def base_pafy_inv Let_def)
  then show ?thesis by (rule pafy_run_refines_lifecycle)
qed

end
