(* ===== verification/Download.thy ===== *)
theory Download
  imports Pafy
begin

text \<open>The downloader of \<open>YtdlStream.download\<close> (src/pafy/backend_youtube_dl.py, lines 149-208):
  target path resolution, the progress hook installed on the HTTP downloader, the transfer
  itself as a trace of transport events, the final \<open>print("")\<close> and the optional audio remux.
  The world of theory Pafy is extended with a file system, the standard output, the
  logs of callback and remux invocations, and the URLs opened through \<open>ydl.urlopen\<close>.  The HTTP transport, \<open>generate_filename\<close>,
  \<open>get_size_done\<close> and \<open>remux\<close> are not under src/ and are modelled from the specification.\<close>

section \<open>World and collaborators\<close>

datatype fnode = Dir | File nat

text \<open>One write to standard output: raw text, or the progress line
  \<open>"\r" + status_string.format(*progress_stats) + "    " + "\r"\<close> for a unit and its statistics
  (size done, fraction done, rate, eta).\<close>

type_synonym progress_stats = "rat \<times> rat \<times> rat \<times> pyval"

datatype out = Raw string | StatusWrite string progress_stats

record dworld = world +
  fs :: "string \<Rightarrow> fnode option"
  stdout :: "out list"
  cb_calls :: "(pyval \<times> progress_stats) list"
  remux_calls :: "(string \<times> string \<times> bool \<times> pyval) list"
  opened :: "pyval list"

text \<open>Transport events: a chunk of bytes appended to the target, a status dict handed to the
  progress hooks, or a call of a reporting method of \<open>ydl\<close>.  A transfer ends normally, raises, or reports an error through
  \<open>ydl.report_error\<close> and returns \<open>False\<close>.\<close>

text \<open>The methods of the \<open>ydl\<close> stand-in that the HTTP downloader calls on its way: \<open>urlopen\<close>
  for each request it makes, and the reporting methods.\<close>

datatype ydl_call = UrlOpen pyval | ToScreen string | ConsoleTitle string | Trouble string | ReportWarning string

datatype tevent = Chunk nat | Report pyval | Msg ydl_call
datatype tend = Done | Raise string | ReportError string

record dl_env =
  http :: "pyval \<Rightarrow> nat \<Rightarrow> tevent list \<times> tend"
  remux_result :: "string + nat"

definition file_size :: "fnode option \<Rightarrow> nat" where
  "file_size n = (case n of Some (File k) \<Rightarrow> k | _ \<Rightarrow> 0)"

section \<open>ProgressReporter (backend_shared, modelled from the specification)\<close>

definition unit_divisor :: "string \<Rightarrow> error + nat" where
  "unit_divisor u =
     (if u = ''Bytes'' then Inr 1 else if u = ''KB'' then Inr 1024
      else if u = ''MB'' then Inr 1048576 else if u = ''GB'' then Inr 1073741824
      else Inl (KeyError (PyStr u)))"

definition get_size_done :: "pyval \<Rightarrow> string \<Rightarrow> error + rat" where
  "get_size_done b u =
     ebind (unit_divisor u) (\<lambda>dv. case py_num b of None \<Rightarrow> Inl TypeError | Some x \<Rightarrow> Inr (x / of_nat dv))"

section \<open>The progress hook (lines 166-185)\<close>

definition progress_available :: "string list" where
  "progress_available = [''KB'', ''MB'', ''GB'']"

definition norm_progress :: "string \<Rightarrow> string" where
  "norm_progress p = (if p \<in> set progress_available then p else ''Bytes'')"

definition hook_rate :: "pyval \<Rightarrow> error + rat" where
  "hook_rate s =
     ebind (py_get s ''speed'' PyNone) (\<lambda>sp.
       if sp \<noteq> PyNone
       then ebind (py_getitem s ''speed'')
              (\<lambda>v. case py_num v of None \<Rightarrow> Inl TypeError | Some x \<Rightarrow> Inr (x / 1024))
       else Inr 0)"

definition hook_eta :: "pyval \<Rightarrow> error + pyval" where
  "hook_eta s =
     ebind (py_get s ''eta'' PyNone) (\<lambda>e. if e = PyNone then Inr (PyInt 0) else py_getitem s ''eta'')"

definition progress_hook :: "string \<Rightarrow> bool \<Rightarrow> bool \<Rightarrow> pyval \<Rightarrow> 'w dworld_scheme \<Rightarrow> error + 'w dworld_scheme" where
  "progress_hook prog quiet cb s w =
     ebind (py_getitem s ''status'') (\<lambda>st.
     if st \<noteq> PyStr ''downloading'' then Inr w else
     ebind (py_getitem s ''downloaded_bytes'') (\<lambda>bytesdone.
     ebind (py_getitem s ''total_bytes'') (\<lambda>total.
     ebind (hook_rate s) (\<lambda>rate.
     ebind (hook_eta s) (\<lambda>eta.
     ebind (get_size_done bytesdone prog) (\<lambda>size.
     ebind (py_true_div bytesdone total) (\<lambda>frac.
       let stats = (size, frac, rate, eta);
           w1 = (if \<not> quiet then w\<lparr>stdout := stdout w @ [StatusWrite prog stats]\<rparr> else w)
       in Inr (if cb then w1\<lparr>cb_calls := cb_calls w1 @ [(total, stats)]\<rparr> else w1))))))))"

section \<open>Transfer (HttpFD, modelled from the specification)\<close>

text \<open>Lines 212-213: \<open>ydl.urlopen\<close> hands the request to \<open>g.opener\<close>; the world records the
  URLs opened.\<close>

definition ydl_urlopen :: "pyval \<Rightarrow> 'w dworld_scheme \<Rightarrow> 'w dworld_scheme" where
  "ydl_urlopen u w = w\<lparr>opened := opened w @ [u]\<rparr>"

text \<open>Lines 212-225: \<open>urlopen\<close> opens the request; \<open>to_screen\<close>, \<open>to_console_title\<close>, \<open>trouble\<close>
  and \<open>report_warning\<close> of the \<open>ydl\<close> stand-in are \<open>pass\<close>.\<close>

definition ydl_method :: "ydl_call \<Rightarrow> 'w dworld_scheme \<Rightarrow> 'w dworld_scheme" where
  "ydl_method c w = (case c of UrlOpen u \<Rightarrow> ydl_urlopen u w
     | ToScreen _ \<Rightarrow> w | ConsoleTitle _ \<Rightarrow> w | Trouble _ \<Rightarrow> w | ReportWarning _ \<Rightarrow> w)"

fun run_transfer :: "string \<Rightarrow> (pyval \<Rightarrow> 'w dworld_scheme \<Rightarrow> error + 'w dworld_scheme) \<Rightarrow>
    tevent list \<Rightarrow> 'w dworld_scheme \<Rightarrow> error option \<times> 'w dworld_scheme" where
  "run_transfer path hook [] w = (None, w)"
| "run_transfer path hook (Chunk n # es) w =
     run_transfer path hook es (w\<lparr>fs := (fs w)(path \<mapsto> File (file_size (fs w path) + n))\<rparr>)"
| "run_transfer path hook (Report s # es) w =
     (case hook s w of Inl e \<Rightarrow> (Some e, w) | Inr w' \<Rightarrow> run_transfer path hook es w')"
| "run_transfer path hook (Msg c # es) w = run_transfer path hook es (ydl_method c w)"

text \<open>The chunked transport of the specification: \<open>c\<close>-byte chunks of a resource of \<open>tot\<close>
  bytes at URL \<open>u\<close>, each fetched by its own (range) request through \<open>ydl.urlopen\<close> and followed
  by a \<open>downloading\<close> status, and a final \<open>finished\<close> status.\<close>

definition status_dict :: "string \<Rightarrow> nat \<Rightarrow> nat \<Rightarrow> pyval" where
  "status_dict st d tot =
     PyDict [(''status'', PyStr st), (''downloaded_bytes'', PyInt (int d)),
             (''total_bytes'', PyInt (int tot)), (''speed'', PyNone), (''eta'', PyNone)]"

function chunk_events :: "pyval \<Rightarrow> nat \<Rightarrow> nat \<Rightarrow> nat \<Rightarrow> tevent list" where
  "chunk_events u c tot d =
     (if c = 0 \<or> tot \<le> d then []
      else Msg (UrlOpen u) # Chunk (min c (tot - d)) # Report (status_dict ''downloading'' (d + min c (tot - d)) tot)
           # chunk_events u c tot (d + min c (tot - d)))"
  by pat_completeness auto
termination by (relation "measure (\<lambda>(u, c, tot, d). tot - d)") auto

definition chunked_transfer :: "nat \<Rightarrow> pyval \<Rightarrow> nat \<Rightarrow> tevent list \<times> tend" where
  "chunked_transfer tot u c = (chunk_events u c tot 0 @ [Report (status_dict ''finished'' tot tot)], Done)"

text \<open>The \<open>ydl\<close> stand-in passed to \<open>HttpFD\<close> (lines 211-228): \<open>report_error\<close>, like
  \<open>to_screen\<close>, \<open>trouble\<close> and \<open>report_warning\<close>, is \<open>pass\<close>.\<close>

definition ydl_report_error :: "string \<Rightarrow> 'w dworld_scheme \<Rightarrow> 'w dworld_scheme" where
  "ydl_report_error msg w = w"

definition http_download :: "dl_env \<Rightarrow> nat \<Rightarrow> string \<Rightarrow> pyval \<Rightarrow>
    (pyval \<Rightarrow> 'w dworld_scheme \<Rightarrow> error + 'w dworld_scheme) \<Rightarrow> 'w dworld_scheme \<Rightarrow> error option \<times> 'w dworld_scheme" where
  "http_download env chunk path u hook w =
     (case http env u chunk of (evs, fin) \<Rightarrow>
       (case run_transfer path hook evs (w\<lparr>fs := (fs w)(path \<mapsto> File 0)\<rparr>) of
          (Some e, w') \<Rightarrow> (Some e, w')
        | (None, w') \<Rightarrow> (case fin of
             Done \<Rightarrow> (None, w')
           | Raise msg \<Rightarrow> (Some (TransferError msg), w')
           | ReportError msg \<Rightarrow> (None, ydl_report_error msg w'))))"

text \<open>Proof vocabulary: the byte counts the chunked transport reports, the bytes of a trace, and
  the statistics tuple the hook computes for a report with no speed and no eta.\<close>

function chunk_points :: "nat \<Rightarrow> nat \<Rightarrow> nat \<Rightarrow> nat list" where
  "chunk_points c tot d =
     (if c = 0 \<or> tot \<le> d then []
      else (d + min c (tot - d)) # chunk_points c tot (d + min c (tot - d)))"
  by pat_completeness auto
termination by (relation "measure (\<lambda>(c, tot, d). tot - d)") auto

fun chunk_bytes :: "tevent list \<Rightarrow> nat" where
  "chunk_bytes [] = 0"
| "chunk_bytes (Chunk n # es) = n + chunk_bytes es"
| "chunk_bytes (Report _ # es) = chunk_bytes es"
| "chunk_bytes (Msg _ # es) = chunk_bytes es"

definition dl_stats :: "nat \<Rightarrow> nat \<Rightarrow> nat \<Rightarrow> progress_stats" where
  "dl_stats dv d tot = (of_nat d / of_nat dv, of_nat d / of_nat tot, 0, PyInt 0)"

section \<open>Target path (lines 189-197)\<close>

definition generate_filename :: "string \<Rightarrow> string \<Rightarrow> string \<Rightarrow> string \<Rightarrow> bool \<Rightarrow> nat \<Rightarrow> string" where
  "generate_filename ttl ext vid tag meta max_length =
     (let base = map (\<lambda>c. if c = CHR ''/'' then CHR ''_'' else c) ttl
                 @ (if meta then '' - '' @ vid @ '' - '' @ tag else []);
          room = max_length - 1 - length ext;
          name = (if room < length base then take (room - 3) base @ ''...'' else base)
      in name @ ''.'' @ ext)"

definition path_join :: "string \<Rightarrow> string \<Rightarrow> string" where
  "path_join a b =
     (if b \<noteq> [] \<and> hd b = CHR ''/'' then b
      else if a = [] \<or> last a = CHR ''/'' then a @ b else a @ ''/'' @ b)"

definition temp_suffix :: string where
  "temp_suffix = ''.temp''"

definition resolve_target :: "(bool \<Rightarrow> nat \<Rightarrow> string) \<Rightarrow> bool \<Rightarrow> string \<Rightarrow> 'w dworld_scheme \<Rightarrow> string" where
  "resolve_target gen meta filepath w =
     (if filepath \<noteq> [] \<and> fs w filepath = Some Dir
      then path_join filepath (gen False (256 - length temp_suffix))
      else if filepath \<noteq> [] then filepath
      else gen meta (256 - length temp_suffix))"

section \<open>Rename and remux\<close>

definition os_rename :: "string \<Rightarrow> string \<Rightarrow> 'w dworld_scheme \<Rightarrow> error + 'w dworld_scheme" where
  "os_rename src dst w =
     (if fs w src = None then Inl (OSError src)
      else Inr (w\<lparr>fs := ((fs w)(dst := fs w src))(src := None)\<rparr>))"

definition remux :: "dl_env \<Rightarrow> string \<Rightarrow> string \<Rightarrow> bool \<Rightarrow> pyval \<Rightarrow> 'w dworld_scheme \<Rightarrow> error option \<times> 'w dworld_scheme" where
  "remux env src dst quiet muxer w =
     (let w1 = w\<lparr>remux_calls := remux_calls w @ [(src, dst, quiet, muxer)]\<rparr>
      in case remux_result env of
           Inl msg \<Rightarrow> (Some (RemuxError msg), w1)
         | Inr n \<Rightarrow> (None, w1\<lparr>fs := ((fs w1)(dst \<mapsto> File n))(src := None)\<rparr>))"

section \<open>\<open>YtdlStream.download\<close> (lines 149-208)\<close>

definition http_chunk_size :: nat where
  "http_chunk_size = 10485760"

definition download :: "dl_env \<Rightarrow> stream \<Rightarrow> (bool \<Rightarrow> nat \<Rightarrow> string) \<Rightarrow> string \<Rightarrow> bool \<Rightarrow> string \<Rightarrow>
    bool \<Rightarrow> bool \<Rightarrow> pyval \<Rightarrow> 'w dworld_scheme \<Rightarrow> (error + string) \<times> 'w dworld_scheme" where
  "download env s gen filepath quiet progress cbk meta remux_audio w =
     (let prog = norm_progress progress;
          hook = progress_hook prog quiet cbk;
          path = resolve_target gen meta filepath w
      in case http_download env http_chunk_size path (url s) hook w of
           (Some e, w1) \<Rightarrow> (Inl e, w1)
         | (None, w1) \<Rightarrow>
             (let w2 = w1\<lparr>stdout := stdout w1 @ [Raw [CHR 0x0A]]\<rparr>
              in if py_truthy remux_audio \<and> mediatype s = Audio
                 then (case os_rename path (path @ temp_suffix) w2 of
                         Inl e \<Rightarrow> (Inl e, w2)
                       | Inr w3 \<Rightarrow> (case remux env (path @ temp_suffix) path quiet remux_audio w3 of
                                     (Some e, w4) \<Rightarrow> (Inl e, w4)
                                   | (None, w4) \<Rightarrow> (Inr path, w4)))
                 else (Inr path, w2)))"


section \<open>Concrete inputs\<close>

definition demo_dworld :: dworld where
  "demo_dworld = \<lparr>heap = (\<lambda>_. []), g_def_ydl_opts = 0, cb_log = [],
     fs = Map.empty(''/tmp'' \<mapsto> Dir), stdout = [], cb_calls = [], remux_calls = [], opened = []\<rparr>"

definition opus_stream :: stream where
  "opus_stream = stream_of_dict desc_opus (PyStr ''251'') (PyInt 163840) (PyStr ''ogg'') (PyStr plain_url)"

definition vp9_stream :: stream where
  "vp9_stream = stream_of_dict desc_vp9 (PyStr ''248'') (PyInt 0) (PyStr ''webm'') (PyStr plain_url)"

definition dash_stream :: stream where
  "dash_stream = stream_of_dict desc_dash (PyStr ''137'') (PyInt 0) (PyStr ''mp4'') (PyStr plain_url)"

definition demo_gen :: "bool \<Rightarrow> nat \<Rightarrow> string" where
  "demo_gen = generate_filename ''Demo'' ''webm'' ''abc'' ''248''"

definition env_25mib :: dl_env where
  "env_25mib = \<lparr>http = (\<lambda>u c. chunked_transfer 26214400 u c), remux_result = Inr 26000000\<rparr>"

definition env_reset :: dl_env where
  "env_reset = \<lparr>http = (\<lambda>u c. ([Msg (UrlOpen u), Chunk 1000, Report (status_dict ''downloading'' 1000 5000)], Raise ''connection reset'')),
     remux_result = Inr 0\<rparr>"

definition env_reported :: dl_env where
  "env_reported = \<lparr>http = (\<lambda>u c. ([], ReportError ''unable to download video data'')), remux_result = Inr 0\<rparr>"

definition env_remux_fail :: dl_env where
  "env_remux_fail = \<lparr>http = (\<lambda>u c. chunked_transfer 1000 u c), remux_result = Inl ''ffmpeg exited with status 1''\<rparr>"

definition env_chatty :: dl_env where
  "env_chatty = \<lparr>http = (\<lambda>u c. ([Msg (UrlOpen u), Msg (ToScreen ''[download] Destination: /tmp/Demo.webm''), Chunk 1000,
       Report (status_dict ''downloading'' 1000 1000), Msg (ConsoleTitle ''[download] 100%'')], Done)),
     remux_result = Inr 0\<rparr>"

section \<open>Lemmas\<close>

lemma demo_stream_kinds [simp]: "mediatype vp9_stream = Video" "mediatype opus_stream = Audio"
  by (simp_all add: vp9_stream_def opus_stream_def desc_vp9_def desc_opus_def stream_of_dict_def
      media_of_def dget_def Let_def)

declare chunk_events.simps [simp del] chunk_points.simps [simp del]

lemma unit_divisor_norm: "\<exists>dv. unit_divisor (norm_progress p) = Inr dv \<and> 0 < dv"
  by (simp add: unit_divisor_def norm_progress_def progress_available_def)

lemma progress_hook_status_dict:
  assumes "unit_divisor prog = Inr dv" "0 < tot"
  shows "progress_hook prog quiet cb (status_dict ''downloading'' d tot) w =
    Inr (w\<lparr>stdout := stdout w @ (if quiet then [] else [StatusWrite prog (dl_stats dv d tot)]),
          cb_calls := cb_calls w @ (if cb then [(PyInt (int tot), dl_stats dv d tot)] else [])\<rparr>)"
  using assms
  by (simp add: progress_hook_def status_dict_def hook_rate_def hook_eta_def dget_def
      get_size_done_def py_true_div_def dl_stats_def Let_def)

lemma progress_hook_finished:
  "progress_hook prog quiet cb (status_dict ''finished'' d tot) w = Inr w"
  by (simp add: progress_hook_def status_dict_def)

lemma ydl_method_frame [simp]:
  "fs (ydl_method c w) = fs w" "stdout (ydl_method c w) = stdout w"
  "cb_calls (ydl_method c w) = cb_calls w" "remux_calls (ydl_method c w) = remux_calls w"
  by (cases c; simp add: ydl_method_def ydl_urlopen_def)+

lemma run_transfer_chunks:
  assumes "0 < c" "unit_divisor prog = Inr dv" "fs w path = Some (File d)" "d \<le> tot"
  shows "run_transfer path (progress_hook prog quiet cb) (chunk_events u c tot d) w =
    (None, w\<lparr>fs := (fs w)(path \<mapsto> File tot),
             stdout := stdout w @ (if quiet then [] else map (\<lambda>x. StatusWrite prog (dl_stats dv x tot)) (chunk_points c tot d)),
             cb_calls := cb_calls w @ (if cb then map (\<lambda>x. (PyInt (int tot), dl_stats dv x tot)) (chunk_points c tot d) else []),
             opened := opened w @ replicate (length (chunk_points c tot d)) u\<rparr>)"
  using assms
proof (induction u c tot d arbitrary: w rule: chunk_events.induct)
  case (1 u c tot d)
  show ?case
  proof (cases "tot \<le> d")
    case True
    then show ?thesis using "1.prems"
      by (simp add: chunk_events.simps chunk_points.simps fun_upd_idem)
  next
    case False
    define m where "m = min c (tot - d)"
    define w1 where "w1 = w\<lparr>opened := opened w @ [u], fs := (fs w)(path \<mapsto> File (d + m))\<rparr>"
    define w2 where "w2 = w1\<lparr>stdout := stdout w1 @ (if quiet then [] else [StatusWrite prog (dl_stats dv (d + m) tot)]),
          cb_calls := cb_calls w1 @ (if cb then [(PyInt (int tot), dl_stats dv (d + m) tot)] else [])\<rparr>"
    have ev: "chunk_events u c tot d = Msg (UrlOpen u) # Chunk m #
        Report (status_dict ''downloading'' (d + m) tot) # chunk_events u c tot (d + m)"
      using False "1.prems"(1) by (simp add: chunk_events.simps m_def)
    have pt: "chunk_points c tot d = (d + m) # chunk_points c tot (d + m)"
      using False "1.prems"(1) by (simp add: chunk_points.simps m_def)
    have h: "progress_hook prog quiet cb (status_dict ''downloading'' (d + m) tot) w1 = Inr w2"
      unfolding w2_def using False "1.prems"(2) by (simp add: progress_hook_status_dict)
    have f2: "fs w2 path = Some (File (d + m))" by (simp add: w2_def w1_def)
    have ih: "run_transfer path (progress_hook prog quiet cb) (chunk_events u c tot (d + m)) w2 =
      (None, w2\<lparr>fs := (fs w2)(path \<mapsto> File tot),
             stdout := stdout w2 @ (if quiet then [] else map (\<lambda>x. StatusWrite prog (dl_stats dv x tot)) (chunk_points c tot (d + m))),
             cb_calls := cb_calls w2 @ (if cb then map (\<lambda>x. (PyInt (int tot), dl_stats dv x tot)) (chunk_points c tot (d + m)) else []),
             opened := opened w2 @ replicate (length (chunk_points c tot (d + m))) u\<rparr>)"
    proof -
      have le: "d + m \<le> tot" using False by (simp add: m_def)
      have nc: "\<not> (c = 0 \<or> tot \<le> d)" using False "1.prems"(1) by simp
      show ?thesis using "1.IH" [OF nc, of w2] f2 le "1.prems"(2) "1.prems"(1) unfolding m_def by blast
    qed
    have "run_transfer path (progress_hook prog quiet cb) (chunk_events u c tot d) w =
          run_transfer path (progress_hook prog quiet cb) (chunk_events u c tot (d + m)) w2"
      using "1.prems"(3) h unfolding ev by (simp add: file_size_def w1_def ydl_method_def ydl_urlopen_def)
    then show ?thesis
      unfolding pt by (simp only: ih) (cases quiet; cases cb; simp add: w2_def w1_def fun_eq_iff)
  qed
qed

lemma run_transfer_append:
  "run_transfer path hook (xs @ ys) w =
     (case run_transfer path hook xs w of (None, w') \<Rightarrow> run_transfer path hook ys w' | r \<Rightarrow> r)"
  by (induction path hook xs w rule: run_transfer.induct) (auto split: sum.splits prod.splits option.splits)

lemma chunk_points_facts:
  assumes "0 < c" "d < tot"
  shows "chunk_points c tot d \<noteq> [] \<and> last (chunk_points c tot d) = tot \<and>
         sorted_wrt (<) (chunk_points c tot d) \<and> (\<forall>x\<in>set (chunk_points c tot d). d < x \<and> x \<le> tot)"
  using assms
proof (induction c tot d rule: chunk_points.induct)
  case (1 c tot d)
  define m where "m = min c (tot - d)"
  have pt: "chunk_points c tot d = (d + m) # chunk_points c tot (d + m)"
    using "1.prems" by (simp add: chunk_points.simps m_def)
  show ?case
  proof (cases "d + m < tot")
    case True
    have "chunk_points c tot (d + m) \<noteq> [] \<and> last (chunk_points c tot (d + m)) = tot \<and>
          sorted_wrt (<) (chunk_points c tot (d + m)) \<and> (\<forall>x\<in>set (chunk_points c tot (d + m)). d + m < x \<and> x \<le> tot)"
      using "1.IH" [of ] "1.prems" True unfolding m_def by simp
    then show ?thesis using True "1.prems" unfolding pt by (auto simp: m_def)
  next
    case False
    then have "d + m = tot" using "1.prems" by (simp add: m_def)
    then show ?thesis using "1.prems" unfolding pt by (simp add: chunk_points.simps m_def)
  qed
qed

lemma http_download_chunked:
  assumes "0 < tot" "http env = (\<lambda>u c. chunked_transfer tot u c)" "unit_divisor prog = Inr dv"
  shows "http_download env http_chunk_size path u (progress_hook prog quiet cb) w =
    (None, w\<lparr>fs := (fs w)(path \<mapsto> File tot),
         stdout := stdout w @ (if quiet then [] else map (\<lambda>x. StatusWrite prog (dl_stats dv x tot))
                                     (chunk_points http_chunk_size tot 0)),
         cb_calls := cb_calls w @ (if cb then map (\<lambda>x. (PyInt (int tot), dl_stats dv x tot))
                                     (chunk_points http_chunk_size tot 0) else []),
         opened := opened w @ replicate (length (chunk_points http_chunk_size tot 0)) u\<rparr>)"
proof -
  define w0 where "w0 = w\<lparr>fs := (fs w)(path \<mapsto> File 0)\<rparr>"
  have c: "0 < http_chunk_size" by (simp add: http_chunk_size_def)
  have run: "run_transfer path (progress_hook prog quiet cb) (chunk_events u http_chunk_size tot 0) w0 =
    (None, w0\<lparr>fs := (fs w0)(path \<mapsto> File tot),
         stdout := stdout w0 @ (if quiet then [] else map (\<lambda>x. StatusWrite prog (dl_stats dv x tot))
                                     (chunk_points http_chunk_size tot 0)),
         cb_calls := cb_calls w0 @ (if cb then map (\<lambda>x. (PyInt (int tot), dl_stats dv x tot))
                                     (chunk_points http_chunk_size tot 0) else []),
         opened := opened w0 @ replicate (length (chunk_points http_chunk_size tot 0)) u\<rparr>)"
    by (rule run_transfer_chunks [OF c assms(3)]) (simp_all add: w0_def)
  show ?thesis
    using assms(2) run
    by (simp add: http_download_def chunked_transfer_def run_transfer_append progress_hook_finished
        w0_def [symmetric]) (simp add: w0_def)
qed

lemma download_chunked_run:
  assumes "0 < tot" "http env = (\<lambda>u c. chunked_transfer tot u c)"
    and "\<not> (py_truthy rx \<and> mediatype s = Audio)"
  shows "\<exists>dv. 0 < dv \<and> download env s gen fp quiet progress cb meta rx w =
     (Inr (resolve_target gen meta fp w),
      w\<lparr>fs := (fs w)(resolve_target gen meta fp w \<mapsto> File tot),
         stdout := stdout w @ (if quiet then [] else map (\<lambda>x. StatusWrite (norm_progress progress) (dl_stats dv x tot))
                                     (chunk_points http_chunk_size tot 0)) @ [Raw [CHR 0x0A]],
         cb_calls := cb_calls w @ (if cb then map (\<lambda>x. (PyInt (int tot), dl_stats dv x tot))
                                     (chunk_points http_chunk_size tot 0) else []),
         opened := opened w @ replicate (length (chunk_points http_chunk_size tot 0)) (url s)\<rparr>)"
proof -
  obtain dv where dv: "unit_divisor (norm_progress progress) = Inr dv" "0 < dv"
    using unit_divisor_norm by blast
  have nr: "(py_truthy rx \<and> mediatype s = Audio) = False" using assms(3) by simp
  show ?thesis
    using http_download_chunked [OF assms(1,2) dv(1), of "resolve_target gen meta fp w" "url s" quiet cb w] dv(2)
    by (intro exI [of _ dv]) (simp add: download_def Let_def nr)
qed

lemma progress_hook_frame:
  "progress_hook prog quiet cb s w = Inr w' \<Longrightarrow>
     fs w' = fs w \<and> remux_calls w' = remux_calls w"
  by (auto simp: progress_hook_def ebind_eq_Inr Let_def split: if_splits)

lemma run_transfer_frame:
  assumes "run_transfer path (progress_hook prog quiet cb) evs w = (r, w')" "fs w path = Some (File n)"
  shows "remux_calls w' = remux_calls w \<and>
    (\<exists>k \<le> length evs. fs w' = (fs w)(path \<mapsto> File (n + chunk_bytes (take k evs))) \<and> (r = None \<longleftrightarrow> k = length evs))"
  using assms
proof (induction evs arbitrary: w n)
  case Nil
  then show ?case by (auto simp: fun_upd_idem)
next
  case (Cons ev es)
  show ?case
  proof (cases ev)
    case (Chunk m)
    define w1 where "w1 = w\<lparr>fs := (fs w)(path \<mapsto> File (n + m))\<rparr>"
    have f1: "fs w1 = (fs w)(path \<mapsto> File (n + m))" "remux_calls w1 = remux_calls w"
      by (simp_all add: w1_def)
    have run1: "run_transfer path (progress_hook prog quiet cb) es w1 = (r, w')"
      using Cons.prems Chunk by (simp add: file_size_def w1_def)
    have "remux_calls w' = remux_calls w1 \<and>
      (\<exists>k \<le> length es. fs w' = (fs w1)(path \<mapsto> File (n + m + chunk_bytes (take k es))) \<and> (r = None \<longleftrightarrow> k = length es))"
      by (rule Cons.IH [OF run1]) (simp add: w1_def)
    then have "remux_calls w' = remux_calls w \<and>
      (\<exists>k \<le> length es. fs w' = (fs w)(path \<mapsto> File (n + m + chunk_bytes (take k es))) \<and> (r = None \<longleftrightarrow> k = length es))"
      by (simp only: f1 fun_upd_upd)
    then obtain k where "remux_calls w' = remux_calls w" "k \<le> length es"
      "fs w' = (fs w)(path \<mapsto> File (n + chunk_bytes (take (Suc k) (ev # es))))" "r = None \<longleftrightarrow> k = length es"
      using Chunk by (auto simp: add.assoc)
    then show ?thesis by (intro conjI exI [of _ "Suc k"]) auto
  next
    case (Msg m)
    have run1: "run_transfer path (progress_hook prog quiet cb) es (ydl_method m w) = (r, w')"
      using Cons.prems Msg by simp
    have "remux_calls w' = remux_calls (ydl_method m w) \<and>
      (\<exists>k \<le> length es. fs w' = (fs (ydl_method m w))(path \<mapsto> File (n + chunk_bytes (take k es))) \<and> (r = None \<longleftrightarrow> k = length es))"
      by (rule Cons.IH [OF run1]) (simp add: Cons.prems(2))
    then have "remux_calls w' = remux_calls w \<and>
      (\<exists>k \<le> length es. fs w' = (fs w)(path \<mapsto> File (n + chunk_bytes (take k es))) \<and> (r = None \<longleftrightarrow> k = length es))"
      by (simp only: ydl_method_frame)
    then obtain k where "remux_calls w' = remux_calls w" "k \<le> length es"
      "fs w' = (fs w)(path \<mapsto> File (n + chunk_bytes (take (Suc k) (ev # es))))" "r = None \<longleftrightarrow> k = length es"
      using Msg by auto
    then show ?thesis by (intro conjI exI [of _ "Suc k"]) auto
  next
    case (Report st)
    show ?thesis
    proof (cases "progress_hook prog quiet cb st w")
      case (Inl e)
      then have "w' = w" "r = Some e" using Cons.prems Report by simp_all
      then show ?thesis using Cons.prems(2) by (intro conjI exI [of _ 0]) (simp_all add: fun_upd_idem)
    next
      case (Inr v)
      then have fv: "fs v = fs w" "remux_calls v = remux_calls w" using progress_hook_frame by blast+
      have "remux_calls w' = remux_calls v \<and>
        (\<exists>k \<le> length es. fs w' = (fs v)(path \<mapsto> File (n + chunk_bytes (take k es))) \<and> (r = None \<longleftrightarrow> k = length es))"
        using Cons.prems Inr Report fv by (intro Cons.IH) simp_all
      then have "remux_calls w' = remux_calls w \<and>
        (\<exists>k \<le> length es. fs w' = (fs w)(path \<mapsto> File (n + chunk_bytes (take k es))) \<and> (r = None \<longleftrightarrow> k = length es))"
        by (simp only: fv)
      then obtain k where "remux_calls w' = remux_calls w" "k \<le> length es"
        "fs w' = (fs w)(path \<mapsto> File (n + chunk_bytes (take (Suc k) (ev # es))))" "r = None \<longleftrightarrow> k = length es"
        using Report by auto
      then show ?thesis by (intro conjI exI [of _ "Suc k"]) auto
    qed
  qed
qed

lemma generate_filename_length:
  assumes "length ext + 4 \<le> m"
  shows "length (generate_filename ttl ext vid tag meta m) \<le> m"
  using assms by (auto simp: generate_filename_def Let_def min_def)

lemma generate_filename_long:
  assumes "length ext + 4 \<le> m" "m < length ttl + 1 + length ext"
  shows "length (generate_filename ttl ext vid tag meta m) = m"
  using assms by (auto simp: generate_filename_def Let_def min_def)

lemma generate_filename_hd:
  "generate_filename ttl ext vid tag meta m \<noteq> [] \<and> hd (generate_filename ttl ext vid tag meta m) \<noteq> CHR ''/''"
  by (auto simp: generate_filename_def Let_def hd_append hd_map split: if_splits)

lemma map_div_sorted:
  assumes "sorted_wrt (<) xs" "0 < q"
  shows "sorted_wrt (<) (map (\<lambda>x. of_nat x / of_nat q :: rat) xs)"
proof -
  have "sorted_wrt (\<lambda>x y. of_nat x / of_nat q < (of_nat y / of_nat q :: rat)) xs"
    using assms(1) by (rule sorted_wrt_mono_rel [rotated]) (use assms(2) in \<open>simp add: divide_strict_right_mono\<close>)
  then show ?thesis by (simp add: sorted_wrt_map)
qed

lemma http_download_frame:
  assumes "http env u c = (evs, fin)" "http_download env c path u (progress_hook prog quiet cb) w = (r, w')"
  shows "remux_calls w' = remux_calls w \<and>
    (\<exists>k \<le> length evs. fs w' = (fs w)(path \<mapsto> File (chunk_bytes (take k evs))) \<and>
       (k < length evs \<longrightarrow> r \<noteq> None) \<and>
       (k = length evs \<longrightarrow> r = (case fin of Raise msg \<Rightarrow> Some (TransferError msg) | _ \<Rightarrow> None)))"
proof -
  define w0 where "w0 = w\<lparr>fs := (fs w)(path \<mapsto> File 0)\<rparr>"
  obtain r0 w1 where run: "run_transfer path (progress_hook prog quiet cb) evs w0 = (r0, w1)"
    by (cases "run_transfer path (progress_hook prog quiet cb) evs w0") auto
  have f0: "fs w0 = (fs w)(path \<mapsto> File 0)" "remux_calls w0 = remux_calls w" by (simp_all add: w0_def)
  have "remux_calls w1 = remux_calls w0 \<and>
    (\<exists>k \<le> length evs. fs w1 = (fs w0)(path \<mapsto> File (0 + chunk_bytes (take k evs))) \<and> (r0 = None \<longleftrightarrow> k = length evs))"
    by (rule run_transfer_frame [OF run]) (simp add: f0)
  then obtain k where k: "remux_calls w1 = remux_calls w" "k \<le> length evs"
      "fs w1 = (fs w)(path \<mapsto> File (chunk_bytes (take k evs)))" "r0 = None \<longleftrightarrow> k = length evs"
    by (auto simp only: f0 fun_upd_upd add_0)
  have res: "(r, w') = (case r0 of Some e \<Rightarrow> (Some e, w1)
       | None \<Rightarrow> (case fin of Raise msg \<Rightarrow> (Some (TransferError msg), w1) | _ \<Rightarrow> (None, w1)))"
    using assms run unfolding w0_def http_download_def ydl_report_error_def
    by (simp split: option.splits tend.splits)
  show ?thesis
    using k res by (intro conjI exI [of _ k]) (auto split: option.splits tend.splits)
qed

lemma http_download_file:
  assumes "http_download env c path u (progress_hook prog quiet cb) w = (None, w')"
  shows "\<exists>k. fs w' path = Some (File k)"
proof -
  obtain evs fin where "http env u c = (evs, fin)" by (cases "http env u c") auto
  from http_download_frame [OF this assms] show ?thesis by auto
qed

lemma hook_rate_cases:
  "hook_rate (PyDict kv) =
     (case map_of kv ''speed'' of
        None \<Rightarrow> Inr 0
      | Some PyNone \<Rightarrow> Inr 0
      | Some v \<Rightarrow> (case py_num v of None \<Rightarrow> Inl TypeError | Some x \<Rightarrow> Inr (x / 1024)))"
  by (auto simp: hook_rate_def dget_def split: option.splits pyval.splits)

lemma hook_eta_cases:
  "hook_eta (PyDict kv) = Inr (case map_of kv ''eta'' of None \<Rightarrow> PyInt 0 | Some PyNone \<Rightarrow> PyInt 0 | Some v \<Rightarrow> v)"
  by (auto simp: hook_eta_def dget_def split: option.splits pyval.splits)

lemma chunk_points_length:
  assumes "0 < c"
  shows "length (chunk_points c tot d) = (tot - d + c - 1) div c"
  using assms
proof (induction c tot d rule: chunk_points.induct)
  case (1 c tot d)
  show ?case
  proof (cases "tot \<le> d")
    case True
    then show ?thesis using "1.prems" by (simp add: chunk_points.simps)
  next
    case False
    define m where "m = min c (tot - d)"
    have pt: "chunk_points c tot d = (d + m) # chunk_points c tot (d + m)"
      using False "1.prems" by (simp add: chunk_points.simps m_def)
    have ih: "length (chunk_points c tot (d + m)) = (tot - (d + m) + c - 1) div c"
      using "1.IH" False "1.prems" unfolding m_def by simp
    show ?thesis
    proof (cases "c \<le> tot - d")
      case True
      then have e: "tot - d + c - 1 = (tot - (d + m) + c - 1) + c" by (simp add: m_def)
      define x where "x = tot - (d + m) + c - 1"
      have "(x + c) div c = Suc (x div c)" using "1.prems" by simp
      then have q: "(tot - d + c - 1) div c = Suc ((tot - (d + m) + c - 1) div c)"
        unfolding e x_def .
      show ?thesis unfolding pt using ih q by (simp only: list.size)
    next
      case False
      then have dm: "d + m = tot" using \<open>\<not> tot \<le> d\<close> by (simp add: m_def)
      have "(tot - d + c - 1) div c = 1"
        by (rule div_nat_eqI) (use False \<open>\<not> tot \<le> d\<close> in simp_all)
      moreover have "(tot - (d + m) + c - 1) div c = 0" using dm "1.prems" by simp
      ultimately show ?thesis unfolding pt using ih by simp
    qed
  qed
qed

lemma progress_hook_stdout:
  assumes "progress_hook prog quiet cb s w = Inr w'"
  shows "\<exists>xs. stdout w' = stdout w @ map (StatusWrite prog) xs \<and> (quiet \<longrightarrow> xs = [])"
proof -
  have "stdout w' = stdout w \<or> (\<not> quiet \<and> (\<exists>st. stdout w' = stdout w @ [StatusWrite prog st]))"
    using assms by (cases quiet; cases cb) (auto simp: progress_hook_def ebind_eq_Inr Let_def split: if_splits)
  then show ?thesis
  proof
    assume "stdout w' = stdout w" then show ?thesis by (intro exI [of _ "[]"]) simp
  next
    assume "\<not> quiet \<and> (\<exists>st. stdout w' = stdout w @ [StatusWrite prog st])"
    then obtain st where "\<not> quiet" "stdout w' = stdout w @ [StatusWrite prog st]" by blast
    then show ?thesis by (intro exI [of _ "[st]"]) simp
  qed
qed

lemma run_transfer_stdout:
  assumes "run_transfer path (progress_hook prog quiet cb) evs w = (r, w')"
  shows "\<exists>xs. stdout w' = stdout w @ map (StatusWrite prog) xs \<and> (quiet \<longrightarrow> xs = [])"
  using assms
proof (induction evs arbitrary: w)
  case Nil
  then show ?case by (intro exI [of _ "[]"]) simp
next
  case (Cons ev es)
  show ?case
  proof (cases ev)
    case (Chunk m)
    then show ?thesis using Cons.IH [of "w\<lparr>fs := (fs w)(path \<mapsto> File (file_size (fs w path) + m))\<rparr>"] Cons.prems
      by simp
  next
    case (Msg m)
    then show ?thesis using Cons.IH [of "ydl_method m w"] Cons.prems by simp
  next
    case (Report st)
    show ?thesis
    proof (cases "progress_hook prog quiet cb st w")
      case (Inl e)
      then have "w' = w" using Cons.prems Report by simp
      then show ?thesis by (intro exI [of _ "[]"]) simp
    next
      case (Inr v)
      obtain xs where xs: "stdout v = stdout w @ map (StatusWrite prog) xs" "quiet \<longrightarrow> xs = []"
        using progress_hook_stdout [OF Inr] by blast
      obtain ys where ys: "stdout w' = stdout v @ map (StatusWrite prog) ys" "quiet \<longrightarrow> ys = []"
        using Cons.IH [of v] Cons.prems Report Inr by auto
      show ?thesis using xs ys by (intro exI [of _ "xs @ ys"]) simp
    qed
  qed
qed

lemma http_download_stdout:
  assumes "http_download env c path u (progress_hook prog quiet cb) w = (r, w')"
  shows "\<exists>xs. stdout w' = stdout w @ map (StatusWrite prog) xs \<and> (quiet \<longrightarrow> xs = [])"
proof -
  obtain evs fin where h: "http env u c = (evs, fin)" by fastforce
  obtain r0 w1 where run: "run_transfer path (progress_hook prog quiet cb) evs
      (w\<lparr>fs := (fs w)(path \<mapsto> File 0)\<rparr>) = (r0, w1)"
    by fastforce
  have "w' = w1" using assms h run
    by (cases r0; cases fin) (simp_all add: http_download_def ydl_report_error_def)
  with run_transfer_stdout [OF run] show ?thesis by simp
qed

lemma download_after_transfer:
  assumes "download env s gen fp quiet progress cb meta rx w = (r, w')"
    and "http_download env http_chunk_size (resolve_target gen meta fp w) (url s)
      (progress_hook (norm_progress progress) quiet cb) w = (r1, w1)"
  shows "opened w' = opened w1"
  using assms unfolding download_def Let_def
  by (auto simp: os_rename_def remux_def Let_def split: if_splits sum.splits prod.splits option.splits)

lemma download_non_audio:
  assumes "mediatype s \<noteq> Audio" "download env s gen fp quiet progress cb meta rx w = (r, w')"
  shows "fs w' = fs (snd (http_download env http_chunk_size (resolve_target gen meta fp w) (url s)
                     (progress_hook (norm_progress progress) quiet cb) w)) \<and>
    remux_calls w' = remux_calls w \<and>
    r = (case fst (http_download env http_chunk_size (resolve_target gen meta fp w) (url s)
                     (progress_hook (norm_progress progress) quiet cb) w) of
           None \<Rightarrow> Inr (resolve_target gen meta fp w) | Some e \<Rightarrow> Inl e)"
proof -
  obtain t w1 where hd: "http_download env http_chunk_size (resolve_target gen meta fp w) (url s)
      (progress_hook (norm_progress progress) quiet cb) w = (t, w1)" by fastforce
  obtain evs fin where "http env (url s) http_chunk_size = (evs, fin)" by fastforce
  from http_download_frame [OF this hd] have "remux_calls w1 = remux_calls w" by simp
  then show ?thesis using assms hd by (auto simp: download_def Let_def split: option.splits)
qed

lemma download_audio_remux_call:
  assumes "mediatype s = Audio" "py_truthy rx"
    and "http_download env http_chunk_size (resolve_target gen meta fp w) (url s)
      (progress_hook (norm_progress progress) quiet cb) w = (None, w1)"
    and "download env s gen fp quiet progress cb meta rx w = (r, w')"
  shows "remux_calls w' = remux_calls w @
    [(resolve_target gen meta fp w @ temp_suffix, resolve_target gen meta fp w, quiet, rx)]"
proof -
  obtain evs fin where "http env (url s) http_chunk_size = (evs, fin)" by fastforce
  from http_download_frame [OF this assms(3)] have rc: "remux_calls w1 = remux_calls w" by simp
  obtain k where "fs w1 (resolve_target gen meta fp w) = Some (File k)"
    using http_download_file [OF assms(3)] by blast
  then show ?thesis using assms rc
    by (auto simp: download_def Let_def os_rename_def remux_def split: sum.splits)
qed

section \<open>Properties of the downloader\<close>

text \<open>C25: For a stream that is not audio, \<open>download\<close> never renames the file or calls the remux
  collaborator, whatever \<open>remux_audio\<close> says (lines 204-206): the file system it leaves is the
  one the transfer left, and it returns the transferred path, or the error the transfer raised.\<close>

lemma download_no_remux:
  assumes "mediatype s \<noteq> Audio" "download env s gen fp quiet progress cb meta rx w = (r, w')"
  shows "fs w' = fs (snd (http_download env http_chunk_size (resolve_target gen meta fp w) (url s)
                     (progress_hook (norm_progress progress) quiet cb) w)) \<and>
    remux_calls w' = remux_calls w \<and>
    r = (case fst (http_download env http_chunk_size (resolve_target gen meta fp w) (url s)
                     (progress_hook (norm_progress progress) quiet cb) w) of
           None \<Rightarrow> Inr (resolve_target gen meta fp w) | Some e \<Rightarrow> Inl e)"
  using assms by (rule download_non_audio)

lemma download_no_remux_witness:
  "remux_calls (snd (download env_25mib vp9_stream demo_gen ''/tmp'' True ''MB'' False False (PyStr ''m4a'') demo_dworld)) = []"
proof -
  have "mediatype vp9_stream \<noteq> Audio" by simp
  from download_no_remux [OF this surjective_pairing [of "download env_25mib vp9_stream demo_gen ''/tmp'' True ''MB'' False False (PyStr ''m4a'') demo_dworld"]] show ?thesis by (simp add: demo_dworld_def)
qed

text \<open>C26: A chunked transfer of a resource of \<open>tot > 0\<close> bytes (10 MiB chunks, line 158) writes the whole
  resource to the resolved path, returns that path, and calls the callback once per chunk with the
  total, byte counts and fractions that strictly increase, the last fraction being exactly 1.\<close>

lemma download_chunked_progress:
  assumes "0 < tot" "http env = (\<lambda>u c. chunked_transfer tot u c)" "\<not> (py_truthy rx \<and> mediatype s = Audio)"
    and "download env s gen fp quiet progress True meta rx w = (r, w')"
  shows "r = Inr (resolve_target gen meta fp w) \<and> fs w' (resolve_target gen meta fp w) = Some (File tot) \<and>
    (let calls = drop (length (cb_calls w)) (cb_calls w')
     in calls \<noteq> [] \<and> (\<forall>c\<in>set calls. fst c = PyInt (int tot)) \<and>
        sorted_wrt (<) (map (\<lambda>(t, sz, f, rt, e). sz) calls) \<and>
        sorted_wrt (<) (map (\<lambda>(t, sz, f, rt, e). f) calls) \<and>
        last (map (\<lambda>(t, sz, f, rt, e). f) calls) = 1)"
proof -
  obtain dv where dv: "0 < dv" and run: "download env s gen fp quiet progress True meta rx w =
     (Inr (resolve_target gen meta fp w),
      w\<lparr>fs := (fs w)(resolve_target gen meta fp w \<mapsto> File tot),
         stdout := stdout w @ (if quiet then [] else map (\<lambda>x. StatusWrite (norm_progress progress) (dl_stats dv x tot))
                                     (chunk_points http_chunk_size tot 0)) @ [Raw [CHR 0x0A]],
         cb_calls := cb_calls w @ (if True then map (\<lambda>x. (PyInt (int tot), dl_stats dv x tot)) (chunk_points http_chunk_size tot 0) else []),
         opened := opened w @ replicate (length (chunk_points http_chunk_size tot 0)) (url s)\<rparr>)"
    using download_chunked_run [OF assms(1-3), of gen fp quiet progress True meta w] by blast
  define pts where "pts = chunk_points http_chunk_size tot 0"
  have pf: "pts \<noteq> [] \<and> last pts = tot \<and> sorted_wrt (<) pts \<and> (\<forall>x\<in>set pts. 0 < x \<and> x \<le> tot)"
    unfolding pts_def by (rule chunk_points_facts) (simp_all add: http_chunk_size_def assms(1))
  have w': "w' = w\<lparr>fs := (fs w)(resolve_target gen meta fp w \<mapsto> File tot),
         stdout := stdout w @ (if quiet then [] else map (\<lambda>x. StatusWrite (norm_progress progress) (dl_stats dv x tot)) pts)
                   @ [Raw [CHR 0x0A]],
         cb_calls := cb_calls w @ map (\<lambda>x. (PyInt (int tot), dl_stats dv x tot)) pts,
         opened := opened w @ replicate (length (chunk_points http_chunk_size tot 0)) (url s)\<rparr>"
    and r: "r = Inr (resolve_target gen meta fp w)"
    using assms(4) run unfolding pts_def by simp_all
  have calls: "drop (length (cb_calls w)) (cb_calls w') = map (\<lambda>x. (PyInt (int tot), dl_stats dv x tot)) pts"
    unfolding w' by simp
  have sz: "map (\<lambda>(t, sz, f, rt, e). sz) (map (\<lambda>x. (PyInt (int tot), dl_stats dv x tot)) pts) =
              map (\<lambda>x. of_nat x / of_nat dv) pts"
    and fr: "map (\<lambda>(t, sz, f, rt, e). f) (map (\<lambda>x. (PyInt (int tot), dl_stats dv x tot)) pts) =
              map (\<lambda>x. of_nat x / of_nat tot) pts"
    by (simp_all add: dl_stats_def)
  have last1: "last (map (\<lambda>x. of_nat x / of_nat tot :: rat) pts) = 1"
    using pf assms(1) by (simp add: last_map)
  have "fs w' (resolve_target gen meta fp w) = Some (File tot)" unfolding w' by simp
  then show ?thesis
    unfolding Let_def calls sz fr last1
    using r pf map_div_sorted [of pts dv] map_div_sorted [of pts tot] dv assms(1) by auto
qed

lemma download_chunked_progress_witness:
  "fst (download env_25mib vp9_stream demo_gen ''/tmp'' True ''MB'' True False (PyBool False) demo_dworld) = Inr ''/tmp/Demo.webm''"
proof -
  have h: "0 < (26214400::nat)" "http env_25mib = (\<lambda>u c. chunked_transfer 26214400 u c)"
    "\<not> (py_truthy (PyBool False) \<and> mediatype vp9_stream = Audio)"
    by (simp_all add: env_25mib_def)
  have p: "resolve_target demo_gen False ''/tmp'' demo_dworld = ''/tmp/Demo.webm''"
    by (simp add: resolve_target_def demo_dworld_def demo_gen_def generate_filename_def path_join_def temp_suffix_def)
  from download_chunked_progress [OF h surjective_pairing, where gen = demo_gen and fp = "''/tmp''" and quiet = True
      and progress = "''MB''" and meta = False and w = demo_dworld]
  show ?thesis by (simp only: p)
qed

text \<open>C27: A transfer that raises leaves the partial file on disk and makes \<open>download\<close> fail: the file at
  the resolved path holds exactly the bytes of the chunks received before the failure, remux is not
  called, and when every progress report succeeded the error is the transfer's own.\<close>

lemma download_transfer_error:
  assumes "http env (url s) http_chunk_size = (evs, Raise msg)"
    and "download env s gen fp quiet progress cb meta rx w = (r, w')"
  shows "\<exists>e k. r = Inl e \<and> k \<le> length evs \<and>
    fs w' (resolve_target gen meta fp w) = Some (File (chunk_bytes (take k evs))) \<and>
    remux_calls w' = remux_calls w \<and> (k = length evs \<longrightarrow> e = TransferError msg)"
proof -
  obtain t w1 where hd: "http_download env http_chunk_size (resolve_target gen meta fp w) (url s)
      (progress_hook (norm_progress progress) quiet cb) w = (t, w1)" by fastforce
  from http_download_frame [OF assms(1) hd] obtain k where k: "remux_calls w1 = remux_calls w" "k \<le> length evs"
    "fs w1 = (fs w)(resolve_target gen meta fp w \<mapsto> File (chunk_bytes (take k evs)))"
    "k < length evs \<longrightarrow> t \<noteq> None" "k = length evs \<longrightarrow> t = Some (TransferError msg)"
    by auto
  then obtain e where "t = Some e" by (cases "k < length evs") auto
  then show ?thesis using k assms(2) hd by (auto simp: download_def Let_def)
qed

lemma download_transfer_error_witness:
  "\<exists>e k. fst (download env_reset vp9_stream demo_gen ''/tmp'' True ''Bytes'' False False (PyBool False) demo_dworld) = Inl e \<and>
     k \<le> 3 \<and> fs (snd (download env_reset vp9_stream demo_gen ''/tmp'' True ''Bytes'' False False (PyBool False) demo_dworld))
       (resolve_target demo_gen False ''/tmp'' demo_dworld)
       = Some (File (chunk_bytes (take k [Msg (UrlOpen (url vp9_stream)), Chunk 1000, Report (status_dict ''downloading'' 1000 5000)])))"
proof -
  have h: "http env_reset (url vp9_stream) http_chunk_size =
      ([Msg (UrlOpen (url vp9_stream)), Chunk 1000, Report (status_dict ''downloading'' 1000 5000)], Raise ''connection reset'')"
    by (simp add: env_reset_def)
  from download_transfer_error [OF h surjective_pairing [of "download env_reset vp9_stream demo_gen ''/tmp'' True ''Bytes'' False False (PyBool False) demo_dworld"]]
  obtain e k where "fst (download env_reset vp9_stream demo_gen ''/tmp'' True ''Bytes'' False False (PyBool False) demo_dworld) = Inl e"
    "k \<le> length [Msg (UrlOpen (url vp9_stream)), Chunk 1000, Report (status_dict ''downloading'' 1000 5000)]"
    "fs (snd (download env_reset vp9_stream demo_gen ''/tmp'' True ''Bytes'' False False (PyBool False) demo_dworld))
       (resolve_target demo_gen False ''/tmp'' demo_dworld)
       = Some (File (chunk_bytes (take k [Msg (UrlOpen (url vp9_stream)), Chunk 1000, Report (status_dict ''downloading'' 1000 5000)])))"
    by blast
  then show ?thesis by (intro exI [of _ e] exI [of _ k]) (simp only: list.size, simp)
qed

text \<open>C28: An error the HTTP downloader reports through \<open>ydl.report_error\<close> (lines 227-228) is swallowed:
  \<open>download\<close> behaves exactly as if the transfer had completed, returning the path.\<close>

lemma download_report_error_as_done:
  assumes "http env (url s) http_chunk_size = (evs, ReportError msg)"
    and "http env' (url s) http_chunk_size = (evs, Done)" "remux_result env' = remux_result env"
  shows "download env s gen fp quiet progress cb meta rx w = download env' s gen fp quiet progress cb meta rx w"
  using assms by (simp add: download_def http_download_def ydl_report_error_def remux_def Let_def split: option.splits prod.splits sum.splits)

lemma download_report_error_as_done_witness:
  "fst (download env_reported vp9_stream demo_gen ''/tmp'' True ''Bytes'' False False (PyBool False) demo_dworld) = Inr ''/tmp/Demo.webm''"
proof -
  have "download env_reported vp9_stream demo_gen ''/tmp'' True ''Bytes'' False False (PyBool False) demo_dworld =
        download (env_reported\<lparr>http := (\<lambda>u c. ([], Done))\<rparr>) vp9_stream demo_gen ''/tmp'' True ''Bytes'' False False (PyBool False) demo_dworld"
    by (rule download_report_error_as_done) (simp_all add: env_reported_def)
  then show ?thesis
    by (simp add: download_def http_download_def ydl_report_error_def resolve_target_def demo_dworld_def demo_gen_def
        generate_filename_def path_join_def temp_suffix_def Let_def)
qed

text \<open>C29: On a \<open>downloading\<close> status with an integer byte count and a non-zero total, the progress hook
  (lines 166-185) computes the fraction done as bytes done divided by the total and the size in the
  normalised unit, writes the status line unless quiet and calls the callback with the total and
  the statistics; an unrecognised unit falls back to Bytes.\<close>

lemma progress_hook_downloading:
  assumes st: "map_of kv ''status'' = Some (PyStr ''downloading'')"
    and bd: "map_of kv ''downloaded_bytes'' = Some (PyInt d)"
    and tot: "map_of kv ''total_bytes'' = Some t" "py_num t = Some y" "y \<noteq> 0"
    and rate: "hook_rate (PyDict kv) = Inr r"
    and dv: "unit_divisor (norm_progress p) = Inr dv"
  shows "progress_hook (norm_progress p) quiet cb (PyDict kv) w =
      Inr (let stats = (of_int d / of_nat dv, of_int d / y, r,
                        case map_of kv ''eta'' of None \<Rightarrow> PyInt 0 | Some PyNone \<Rightarrow> PyInt 0 | Some v \<Rightarrow> v)
           in w\<lparr>stdout := stdout w @ (if quiet then [] else [StatusWrite (norm_progress p) stats]),
                cb_calls := cb_calls w @ (if cb then [(t, stats)] else [])\<rparr>)"
  using dv st bd tot rate
  by (simp add: progress_hook_def hook_eta_cases get_size_done_def py_true_div_def Let_def)

lemma progress_hook_downloading_witness:
  "progress_hook (norm_progress ''MB'') True True (status_dict ''downloading'' 524288 2097152) demo_dworld =
     Inr (demo_dworld\<lparr>cb_calls := [(PyInt 2097152, (1 / 2, 1 / 4, 0, PyInt 0))]\<rparr>)"
proof -
  have h: "map_of [(''status'', PyStr ''downloading''), (''downloaded_bytes'', PyInt 524288),
             (''total_bytes'', PyInt 2097152), (''speed'', PyNone), (''eta'', PyNone)] ''status'' = Some (PyStr ''downloading'')"
    "map_of [(''status'', PyStr ''downloading''), (''downloaded_bytes'', PyInt 524288),
             (''total_bytes'', PyInt 2097152), (''speed'', PyNone), (''eta'', PyNone)] ''downloaded_bytes'' = Some (PyInt 524288)"
    "map_of [(''status'', PyStr ''downloading''), (''downloaded_bytes'', PyInt 524288),
             (''total_bytes'', PyInt 2097152), (''speed'', PyNone), (''eta'', PyNone)] ''total_bytes'' = Some (PyInt 2097152)"
    "py_num (PyInt 2097152) = Some 2097152" "(2097152::rat) \<noteq> 0"
    "hook_rate (PyDict [(''status'', PyStr ''downloading''), (''downloaded_bytes'', PyInt 524288),
             (''total_bytes'', PyInt 2097152), (''speed'', PyNone), (''eta'', PyNone)]) = Inr 0"
    "unit_divisor (norm_progress ''MB'') = Inr 1048576"
    by (simp_all add: hook_rate_cases unit_divisor_def norm_progress_def progress_available_def)
  from progress_hook_downloading [OF h, of True True demo_dworld] show ?thesis
    by (simp add: status_dict_def demo_dworld_def Let_def)
qed

text \<open>C30: When the total is unknown (\<open>None\<close>) or zero, the progress hook does not skip the update as the
  specification asks: the division of line 175 raises \<open>TypeError\<close> or \<open>ZeroDivisionError\<close>, and
  neither the status line nor the callback happens.\<close>

lemma progress_hook_bad_total:
  assumes st: "map_of kv ''status'' = Some (PyStr ''downloading'')"
    and bd: "map_of kv ''downloaded_bytes'' = Some (PyInt d)"
    and tot: "map_of kv ''total_bytes'' = Some t" "t = PyNone \<or> t = PyInt 0"
    and rate: "hook_rate (PyDict kv) = Inr r"
  shows "progress_hook (norm_progress p) quiet cb (PyDict kv) w =
           Inl (if t = PyNone then TypeError else ZeroDivisionError)"
proof -
  obtain dv where dv: "unit_divisor (norm_progress p) = Inr dv" "0 < dv"
    using unit_divisor_norm by blast
  show ?thesis
    using dv st bd tot rate
    by (auto simp add: progress_hook_def hook_eta_cases get_size_done_def py_true_div_def)
qed

lemma progress_hook_bad_total_witness:
  "progress_hook (norm_progress ''KB'') False True (status_dict ''downloading'' 4096 0) demo_dworld = Inl ZeroDivisionError"
proof -
  have h: "map_of [(''status'', PyStr ''downloading''), (''downloaded_bytes'', PyInt 4096),
             (''total_bytes'', PyInt 0), (''speed'', PyNone), (''eta'', PyNone)] ''status'' = Some (PyStr ''downloading'')"
    "map_of [(''status'', PyStr ''downloading''), (''downloaded_bytes'', PyInt 4096),
             (''total_bytes'', PyInt 0), (''speed'', PyNone), (''eta'', PyNone)] ''downloaded_bytes'' = Some (PyInt 4096)"
    "map_of [(''status'', PyStr ''downloading''), (''downloaded_bytes'', PyInt 4096),
             (''total_bytes'', PyInt 0), (''speed'', PyNone), (''eta'', PyNone)] ''total_bytes'' = Some (PyInt 0)"
    "PyInt 0 = PyNone \<or> PyInt 0 = PyInt 0"
    "hook_rate (PyDict [(''status'', PyStr ''downloading''), (''downloaded_bytes'', PyInt 4096),
             (''total_bytes'', PyInt 0), (''speed'', PyNone), (''eta'', PyNone)]) = Inr 0"
    by (simp_all add: hook_rate_cases)
  from progress_hook_bad_total [OF h] show ?thesis by (simp add: status_dict_def)
qed

text \<open>C31: Downloading a stream built from a descriptor over the chunked transport opens the
  stream's resolved URL once for each 10 MiB chunk, \<open>\<lceil>tot / 10 MiB\<rceil>\<close> times, and no other URL, through
  \<open>ydl.urlopen\<close> (lines 212-213), whatever the hook, the rename or the remux do afterwards.  The URL
  is the descriptor's \<open>fragment_base_url\<close> when its \<open>url\<close> is on the manifest host (lines 134-135),
  and the \<open>url\<close> itself otherwise.\<close>

theorem download_opens_stream_url:
  assumes "ytdl_stream (PyDict d) = Inr s"
    and "dget d ''url'' PyNone = PyStr u"
    and "0 < tot" "http env = (\<lambda>u c. chunked_transfer tot u c)"
    and "download env s gen fp quiet progress cb meta rx w = (r, w')"
  shows "opened w' = opened w @ replicate ((tot + http_chunk_size - 1) div http_chunk_size)
           (if prefix manifest_prefix u then dget d ''fragment_base_url'' (PyStr u) else PyStr u)"
proof -
  have "resolve_url (PyDict d) (PyStr u) = Inr (url s)"
    using ytdl_stream_resolved_url [OF assms(1)] assms(2) by simp
  then have us: "url s = (if prefix manifest_prefix u then dget d ''fragment_base_url'' (PyStr u) else PyStr u)"
    by (simp add: resolve_url_str)
  obtain dv where "unit_divisor (norm_progress progress) = Inr dv" using unit_divisor_norm by blast
  from http_download_chunked [OF assms(3,4) this, of "resolve_target gen meta fp w" "url s" quiet cb w]
  have "opened w' = opened w @ replicate (length (chunk_points http_chunk_size tot 0)) (url s)"
    using download_after_transfer [OF assms(5)] by simp
  moreover have "length (chunk_points http_chunk_size tot 0) = (tot + http_chunk_size - 1) div http_chunk_size"
    using chunk_points_length [of http_chunk_size tot 0] by (simp add: http_chunk_size_def)
  ultimately show ?thesis by (simp add: us)
qed

theorem download_opens_stream_url_witness:
  "opened (snd (download env_25mib dash_stream demo_gen ''/tmp/a.m4a'' True ''Bytes'' False False PyNone demo_dworld))
     = replicate 3 (PyStr plain_url)"
  using download_opens_stream_url [where d = desc_dash and s = dash_stream and u = "manifest_prefix @ ''/api/manifest/dash''"
    and tot = 26214400, OF _ _ _ _ surjective_pairing [of "download env_25mib dash_stream demo_gen ''/tmp/a.m4a'' True ''Bytes'' False False PyNone demo_dworld"]]
  by (simp add: py_eval dash_stream_def desc_dash_def demo_dworld_def dget_def manifest_prefix_def plain_url_def
      env_25mib_def http_chunk_size_def)

text \<open>A status other than \<open>downloading\<close> (such as the final \<open>finished\<close>) leaves the world unchanged,
  and a status dict without a \<open>status\<close> key raises \<open>KeyError\<close> (line 167).\<close>

lemma progress_hook_other_status:
  assumes "map_of kv ''status'' \<noteq> Some (PyStr ''downloading'')"
  shows "progress_hook prog quiet cb (PyDict kv) w =
           (case map_of kv ''status'' of None \<Rightarrow> Inl (KeyError (PyStr ''status'')) | Some _ \<Rightarrow> Inr w)"
  using assms by (auto simp: progress_hook_def split: option.splits)

lemma progress_hook_other_status_witness:
  "progress_hook ''Bytes'' False True (PyDict [(''status'', PyStr ''finished'')]) demo_dworld = Inr demo_dworld"
  using progress_hook_other_status [of "[(''status'', PyStr ''finished'')]"] by simp

text \<open>C32: For an audio stream with a truthy \<open>remux_audio\<close>, after a successful transfer the file is renamed
  to the temp name and handed to the remux collaborator with (temp path, final path, quiet, container);
  when the remux succeeds the final path holds its output, the temp file is gone and the path is
  returned (lines 204-208).\<close>

lemma download_remux_ok:
  assumes "py_truthy rx" "mediatype s = Audio"
    and "http_download env http_chunk_size (resolve_target gen meta fp w) (url s)
           (progress_hook (norm_progress progress) quiet cb) w = (None, w1)"
    and "remux_result env = Inr n"
    and "download env s gen fp quiet progress cb meta rx w = (r, w')"
  shows "r = Inr (resolve_target gen meta fp w) \<and>
    fs w' (resolve_target gen meta fp w) = Some (File n) \<and>
    fs w' (resolve_target gen meta fp w @ temp_suffix) = None \<and>
    remux_calls w' = remux_calls w1 @ [(resolve_target gen meta fp w @ temp_suffix, resolve_target gen meta fp w, quiet, rx)]"
proof -
  obtain k where "fs w1 (resolve_target gen meta fp w) = Some (File k)"
    using http_download_file [OF assms(3)] by blast
  then show ?thesis
    using assms by (auto simp: download_def os_rename_def remux_def temp_suffix_def Let_def)
qed

lemma download_remux_ok_witness:
  "remux_calls (snd (download env_25mib opus_stream demo_gen ''/tmp'' True ''Bytes'' False False (PyStr ''m4a'') demo_dworld))
     = [(''/tmp/Demo.webm.temp'', ''/tmp/Demo.webm'', True, PyStr ''m4a'')]"
proof -
  have p: "resolve_target demo_gen False ''/tmp'' demo_dworld = ''/tmp/Demo.webm''"
    by (simp add: resolve_target_def demo_dworld_def demo_gen_def generate_filename_def path_join_def temp_suffix_def)
  have dv: "unit_divisor (norm_progress ''Bytes'') = Inr 1" by (simp add: unit_divisor_def norm_progress_def)
  have e: "http env_25mib = (\<lambda>u c. chunked_transfer 26214400 u c)" by (simp add: env_25mib_def)
  have hd: "http_download env_25mib http_chunk_size (resolve_target demo_gen False ''/tmp'' demo_dworld) (url opus_stream)
       (progress_hook (norm_progress ''Bytes'') True False) demo_dworld =
     (None, snd (http_download env_25mib http_chunk_size (resolve_target demo_gen False ''/tmp'' demo_dworld) (url opus_stream)
       (progress_hook (norm_progress ''Bytes'') True False) demo_dworld))"
    using http_download_chunked [OF _ e dv, where path = "resolve_target demo_gen False ''/tmp'' demo_dworld"
      and u = "url opus_stream" and quiet = True and cb = False and w = demo_dworld] by simp
  have r1: "remux_calls (snd (http_download env_25mib http_chunk_size ''/tmp/Demo.webm'' (url opus_stream)
       (progress_hook (norm_progress ''Bytes'') True False) demo_dworld)) = []"
    using http_download_chunked [OF _ e dv, where path = "''/tmp/Demo.webm''"
      and u = "url opus_stream" and quiet = True and cb = False and w = demo_dworld] by (simp add: demo_dworld_def)
  have h: "py_truthy (PyStr ''m4a'')" "mediatype opus_stream = Audio"
    "http_download env_25mib http_chunk_size (resolve_target demo_gen False ''/tmp'' demo_dworld) (url opus_stream)
       (progress_hook (norm_progress ''Bytes'') True False) demo_dworld =
     (None, snd (http_download env_25mib http_chunk_size (resolve_target demo_gen False ''/tmp'' demo_dworld) (url opus_stream)
       (progress_hook (norm_progress ''Bytes'') True False) demo_dworld))"
    "remux_result env_25mib = Inr 26000000"
    by (fact hd | simp add: env_25mib_def)+
  from download_remux_ok [OF h surjective_pairing [of "download env_25mib opus_stream demo_gen ''/tmp'' True ''Bytes'' False False (PyStr ''m4a'') demo_dworld"]] show ?thesis
    by (simp add: p r1 temp_suffix_def)
qed

text \<open>C33: When the remux collaborator fails, \<open>download\<close> raises \<open>RemuxError\<close>; the downloaded bytes are left
  under the temp name and nothing is left at the final path.\<close>

lemma download_remux_fail:
  assumes "py_truthy rx" "mediatype s = Audio"
    and "http_download env http_chunk_size (resolve_target gen meta fp w) (url s)
           (progress_hook (norm_progress progress) quiet cb) w = (None, w1)"
    and "remux_result env = Inl msg"
    and "download env s gen fp quiet progress cb meta rx w = (r, w')"
  shows "r = Inl (RemuxError msg) \<and>
    fs w' (resolve_target gen meta fp w @ temp_suffix) = fs w1 (resolve_target gen meta fp w) \<and>
    fs w' (resolve_target gen meta fp w) = None"
proof -
  obtain k where "fs w1 (resolve_target gen meta fp w) = Some (File k)"
    using http_download_file [OF assms(3)] by blast
  then show ?thesis
    using assms by (auto simp: download_def os_rename_def remux_def temp_suffix_def Let_def)
qed

lemma download_remux_fail_witness:
  "fst (download env_remux_fail opus_stream demo_gen ''/tmp'' True ''Bytes'' False False (PyStr ''m4a'') demo_dworld)
     = Inl (RemuxError ''ffmpeg exited with status 1'') \<and>
   fs (snd (download env_remux_fail opus_stream demo_gen ''/tmp'' True ''Bytes'' False False (PyStr ''m4a'') demo_dworld))
     ''/tmp/Demo.webm.temp'' = Some (File 1000)"
proof -
  have p: "resolve_target demo_gen False ''/tmp'' demo_dworld = ''/tmp/Demo.webm''"
    by (simp add: resolve_target_def demo_dworld_def demo_gen_def generate_filename_def path_join_def temp_suffix_def)
  have dv: "unit_divisor (norm_progress ''Bytes'') = Inr 1" by (simp add: unit_divisor_def norm_progress_def)
  have e: "http env_remux_fail = (\<lambda>u c. chunked_transfer 1000 u c)" by (simp add: env_remux_fail_def)
  have hd: "http_download env_remux_fail http_chunk_size (resolve_target demo_gen False ''/tmp'' demo_dworld) (url opus_stream)
       (progress_hook (norm_progress ''Bytes'') True False) demo_dworld =
     (None, snd (http_download env_remux_fail http_chunk_size (resolve_target demo_gen False ''/tmp'' demo_dworld) (url opus_stream)
       (progress_hook (norm_progress ''Bytes'') True False) demo_dworld))"
    using http_download_chunked [OF _ e dv, where path = "resolve_target demo_gen False ''/tmp'' demo_dworld"
      and u = "url opus_stream" and quiet = True and cb = False and w = demo_dworld] by simp
  have r1: "fs (snd (http_download env_remux_fail http_chunk_size ''/tmp/Demo.webm'' (url opus_stream)
       (progress_hook (norm_progress ''Bytes'') True False) demo_dworld)) ''/tmp/Demo.webm'' = Some (File 1000)"
    using http_download_chunked [OF _ e dv, where path = "''/tmp/Demo.webm''"
      and u = "url opus_stream" and quiet = True and cb = False and w = demo_dworld] by (simp add: demo_dworld_def)
  have h: "py_truthy (PyStr ''m4a'')" "mediatype opus_stream = Audio"
    "http_download env_remux_fail http_chunk_size (resolve_target demo_gen False ''/tmp'' demo_dworld) (url opus_stream)
       (progress_hook (norm_progress ''Bytes'') True False) demo_dworld =
     (None, snd (http_download env_remux_fail http_chunk_size (resolve_target demo_gen False ''/tmp'' demo_dworld) (url opus_stream)
       (progress_hook (norm_progress ''Bytes'') True False) demo_dworld))"
    "remux_result env_remux_fail = Inl ''ffmpeg exited with status 1''"
    by (fact hd | simp add: env_remux_fail_def)+
  from download_remux_fail [OF h surjective_pairing [of "download env_remux_fail opus_stream demo_gen ''/tmp'' True ''Bytes'' False False (PyStr ''m4a'') demo_dworld"]] show ?thesis
    by (simp add: p r1 temp_suffix_def)
qed

text \<open>C34: A generated filename (empty \<open>filepath\<close>, line 197) is at most \<open>256 - len(".temp")\<close> = 251
  characters long, for any title, provided the extension leaves room for the truncation marker.\<close>

lemma resolve_target_generated_bound:
  assumes "length ext + 4 \<le> 256 - length temp_suffix"
  shows "length (resolve_target (generate_filename ttl ext vid tag) meta [] w) \<le> 256 - length temp_suffix"
  using assms generate_filename_length [OF assms] by (simp add: resolve_target_def)

lemma resolve_target_generated_bound_witness:
  "length (resolve_target (generate_filename (replicate 300 (CHR ''a'')) ''webm'' ''abc'' ''248'') True [] demo_dworld) \<le> 251"
  using resolve_target_generated_bound [where ext = "''webm''" and ttl = "replicate 300 (CHR ''a'')"
      and vid = "''abc''" and tag = "''248''" and meta = True and w = demo_dworld]
  by (simp add: temp_suffix_def)

text \<open>C35: When \<open>filepath\<close> is an existing directory (lines 189-191) the \<open>meta\<close> flag is ignored and the
  generated name, itself cut to 251 characters, is joined below the directory: for a long title the
  resulting path is \<open>len(dir) + 1 + 251\<close> characters, beyond the limit the specification sets.\<close>

lemma resolve_target_dir:
  assumes "fs w dir = Some Dir" "dir \<noteq> []" "last dir \<noteq> CHR ''/''"
    and "length ext + 4 \<le> 256 - length temp_suffix" "256 - length temp_suffix < length ttl + 1 + length ext"
  shows "resolve_target (generate_filename ttl ext vid tag) meta dir w =
           dir @ ''/'' @ generate_filename ttl ext vid tag False (256 - length temp_suffix) \<and>
         length (resolve_target (generate_filename ttl ext vid tag) meta dir w) = length dir + 1 + (256 - length temp_suffix)"
  using assms generate_filename_hd [of ttl ext vid tag False "256 - length temp_suffix"]
    generate_filename_long [OF assms(4,5)]
  by (simp add: resolve_target_def path_join_def)

lemma resolve_target_dir_witness:
  "length (resolve_target (generate_filename (replicate 300 (CHR ''a'')) ''webm'' ''abc'' ''248'') True ''/tmp'' demo_dworld) = 256"
proof -
  have h: "fs demo_dworld ''/tmp'' = Some Dir" "''/tmp'' \<noteq> []" "last ''/tmp'' \<noteq> CHR ''/''"
    "length ''webm'' + 4 \<le> 256 - length temp_suffix" "256 - length temp_suffix < length (replicate 300 (CHR ''a'')) + 1 + length ''webm''"
    by (simp_all add: demo_dworld_def temp_suffix_def)
  have "length (resolve_target (generate_filename (replicate 300 (CHR ''a'')) ''webm'' ''abc'' ''248'') True ''/tmp'' demo_dworld)
      = length ''/tmp'' + 1 + (256 - length temp_suffix)"
    using resolve_target_dir [OF h, where vid = "''abc''" and tag = "''248''" and meta = True] by (rule conjunct2)
  then show ?thesis by (simp add: temp_suffix_def)
qed

text \<open>C37: The transfer loop of a chunked download ends after exactly \<open>\<lceil>tot / 10 MiB\<rceil>\<close> progress
  updates: the callback is called that many times (when given), the status line is written that many
  times (when not quiet), followed by the single newline of \<open>print("")\<close> (line 202).\<close>

theorem download_chunked_updates:
  assumes "0 < tot" "http env = (\<lambda>u c. chunked_transfer tot u c)" "\<not> (py_truthy rx \<and> mediatype s = Audio)"
    and "download env s gen fp quiet progress cb meta rx w = (r, w')"
  shows "length (cb_calls w') = length (cb_calls w) + (if cb then (tot + http_chunk_size - 1) div http_chunk_size else 0) \<and>
         length (stdout w') = length (stdout w) + (if quiet then 0 else (tot + http_chunk_size - 1) div http_chunk_size) + 1"
proof -
  obtain dv where "0 < dv \<and> download env s gen fp quiet progress cb meta rx w =
     (Inr (resolve_target gen meta fp w),
      w\<lparr>fs := (fs w)(resolve_target gen meta fp w \<mapsto> File tot),
         stdout := stdout w @ (if quiet then [] else map (\<lambda>x. StatusWrite (norm_progress progress) (dl_stats dv x tot))
                                     (chunk_points http_chunk_size tot 0)) @ [Raw [CHR 0x0A]],
         cb_calls := cb_calls w @ (if cb then map (\<lambda>x. (PyInt (int tot), dl_stats dv x tot))
                                     (chunk_points http_chunk_size tot 0) else []),
         opened := opened w @ replicate (length (chunk_points http_chunk_size tot 0)) (url s)\<rparr>)"
    using download_chunked_run [OF assms(1-3), of gen fp quiet progress cb meta w] by blast
  then have "w' = w\<lparr>fs := (fs w)(resolve_target gen meta fp w \<mapsto> File tot),
         stdout := stdout w @ (if quiet then [] else map (\<lambda>x. StatusWrite (norm_progress progress) (dl_stats dv x tot))
                                     (chunk_points http_chunk_size tot 0)) @ [Raw [CHR 0x0A]],
         cb_calls := cb_calls w @ (if cb then map (\<lambda>x. (PyInt (int tot), dl_stats dv x tot))
                                     (chunk_points http_chunk_size tot 0) else []),
         opened := opened w @ replicate (length (chunk_points http_chunk_size tot 0)) (url s)\<rparr>"
    using assms(4) by simp
  moreover have "length (chunk_points http_chunk_size tot 0) = (tot + http_chunk_size - 1) div http_chunk_size"
    using chunk_points_length [of http_chunk_size tot 0] by (simp add: http_chunk_size_def)
  ultimately show ?thesis by simp
qed

theorem download_chunked_updates_witness:
  "length (cb_calls (snd (download env_25mib vp9_stream demo_gen ''/tmp'' False ''KB'' True False (PyBool False) demo_dworld))) = 3"
proof -
  have h: "0 < (26214400::nat)" "http env_25mib = (\<lambda>u c. chunked_transfer 26214400 u c)"
    "\<not> (py_truthy (PyBool False) \<and> mediatype vp9_stream = Audio)"
    by (simp_all add: env_25mib_def)
  from download_chunked_updates [OF h surjective_pairing [of "download env_25mib vp9_stream demo_gen ''/tmp'' False ''KB'' True False (PyBool False) demo_dworld"]]
  show ?thesis by (simp add: http_chunk_size_def demo_dworld_def)
qed

text \<open>C15: Whatever the HTTP downloader reports through the \<open>ydl\<close> stand-in (lines 211-228: every
  reporting method is \<open>pass\<close>), \<open>download\<close> writes to standard output only the progress lines of
  its hook (none when quiet) and, once the transfer has completed, the newline of \<open>print("")\<close>,
  which every successful download ends with.\<close>

theorem download_stdout:
  assumes "download env s gen fp quiet progress cb meta rx w = (r, w')"
  shows "\<exists>xs tl. stdout w' = stdout w @ map (StatusWrite (norm_progress progress)) xs @ tl \<and>
           (quiet \<longrightarrow> xs = []) \<and> tl \<in> {[], [Raw [CHR 0x0A]]} \<and> (\<forall>p. r = Inr p \<longrightarrow> tl = [Raw [CHR 0x0A]])"
proof -
  obtain t w1 where hd: "http_download env http_chunk_size (resolve_target gen meta fp w) (url s)
      (progress_hook (norm_progress progress) quiet cb) w = (t, w1)" by fastforce
  obtain xs where xs: "stdout w1 = stdout w @ map (StatusWrite (norm_progress progress)) xs" "quiet \<longrightarrow> xs = []"
    using http_download_stdout [OF hd] by blast
  show ?thesis
  proof (cases t)
    case None
    have "stdout w' = stdout w1 @ [Raw [CHR 0x0A]]"
      using assms hd None
      by (auto simp: download_def Let_def os_rename_def remux_def split: if_splits sum.splits option.splits prod.splits)
    then show ?thesis using xs by (intro exI [of _ xs] exI [of _ "[Raw [CHR 0x0A]]"]) simp
  next
    case (Some e)
    then have "r = Inl e" "w' = w1" using assms hd by (simp_all add: download_def Let_def)
    then show ?thesis using xs by (intro exI [of _ xs] exI [of _ "[]"]) simp
  qed
qed

lemma download_stdout_witness:
  "stdout (snd (download env_chatty vp9_stream demo_gen ''/tmp'' True ''Bytes'' True False (PyBool False) demo_dworld))
     \<in> {[], [Raw [CHR 0x0A]]}"
proof -
  obtain xs tl where "stdout (snd (download env_chatty vp9_stream demo_gen ''/tmp'' True ''Bytes'' True False (PyBool False) demo_dworld))
      = stdout demo_dworld @ map (StatusWrite (norm_progress ''Bytes'')) xs @ tl"
    "True \<longrightarrow> xs = []" "tl \<in> {[], [Raw [CHR 0x0A]]}"
    using download_stdout [OF surjective_pairing [of "download env_chatty vp9_stream demo_gen ''/tmp'' True ''Bytes'' True False (PyBool False) demo_dworld"]]
    by blast
  then show ?thesis by (simp add: demo_dworld_def)
qed

end
