(* ===== verification/Module.thy ===== *)
theory Module
  imports Download
begin

text \<open>
  The module's import-time choice of the extraction library (src/pafy/backend_youtube_dl.py,
  lines 7-13): \<open>yt_dlp\<close> when it is installed, otherwise \<open>youtube_dl\<close> under the name
  \<open>yt_dlp\<close>, otherwise nothing: the second \<open>except\<close> passes and the name \<open>yt_dlp\<close>
  stays unbound.  \<open>module_download\<close> is \<open>YtdlStream.download\<close> as the module runs it:
  its first statement (line 158) looks the name up, which raises \<open>NameError\<close> when the
  import found neither library.  The theory holds these definitions only: what they say
  is read off their case distinctions.
\<close>

datatype ytlib = YtDlp | YoutubeDl

definition import_ytdl :: "bool \<Rightarrow> bool \<Rightarrow> ytlib option" where
  "import_ytdl has_yt_dlp has_youtube_dl =
     (if has_yt_dlp then Some YtDlp else if has_youtube_dl then Some YoutubeDl else None)"

definition module_download :: "ytlib option \<Rightarrow> dl_env \<Rightarrow> stream \<Rightarrow> (bool \<Rightarrow> nat \<Rightarrow> string) \<Rightarrow> string \<Rightarrow>
    bool \<Rightarrow> string \<Rightarrow> bool \<Rightarrow> bool \<Rightarrow> pyval \<Rightarrow> 'w dworld_scheme \<Rightarrow> (error + string) \<times> 'w dworld_scheme" where
  "module_download lib env s gen filepath quiet progress cbk meta remux_audio w =
     (case lib of
        None \<Rightarrow> (Inl (NameError ''yt_dlp''), w)
      | Some _ \<Rightarrow> download env s gen filepath quiet progress cbk meta remux_audio w)"

end
