(* ===== verification/Spec2Isabelle.thy ===== *)
theory Spec2Isabelle
  imports Module
begin

text \<open>
  \<^bold>\<open>A verification development of pafy's yt-dlp backend.\<close>

  The program is src/pafy/backend_youtube_dl.py (228 lines): the classes \<open>YtdlPafy\<close>
  (a lazily resolved video handle), \<open>YtdlStream\<close> (one downloadable stream, with its
  \<open>download\<close> method) and the \<open>ydl\<close> stand-in handed to yt-dlp's HTTP downloader.  A
  caller builds a handle; its first access runs \<open>_fetch_basic\<close>, which calls the
  extraction backend; \<open>_process_streams\<close> turns the raw formats of the backend's
  answer into streams and sorts them into views; the caller picks a stream and
  \<open>download\<close> fetches it in 10 MiB chunks, reports progress through a hook, and
  optionally remuxes audio.

  \<^bold>\<open>Theories.\<close>
  \<^item> Prelude: Python statement blocks as \<open>run_stmts\<close> (an exception stops the block
    and keeps the effects of the earlier statements), the \<open>ebind\<close> of fallible code,
    decimal printing and parsing of numbers, shared list lemmas.
  \<^item> Python: the JSON values yt-dlp returns (\<open>pyval\<close>), the \<open>error\<close> datatype of the
    exceptions the code can raise, and the builtins the code uses (\<open>v[k]\<close>,
    \<open>.get\<close>, \<open>in\<close>, \<open>or\<close>, \<open>str\<close>, \<open>%\<close>, \<open>*\<close>, true division) each returning
    \<open>error + 'a\<close>.
  \<^item> Stream: \<open>YtdlStream.__init__\<close> (lines 107-137) as \<open>ytdl_stream\<close>, statement
    by statement with its exceptions; \<open>media_of\<close> the classification (lines 112-117),
    \<open>resolve_url\<close> the manifest fallback (133-135), \<open>get_filesize\<close> (139-147).
  \<^item> Catalog: \<open>_process_streams\<close> lines 98-104: \<open>build_all\<close> the comprehension,
    \<open>partition_streams\<close> the five views, \<open>build_catalog\<close> both.
  \<^item> Pafy: \<open>YtdlPafy\<close> (lines 30-104).  The handle is a record \<open>pafy\<close>, the process a
    record \<open>world\<close> holding a heap of dict objects (so that \<open>g.def_ydl_opts\<close>, which
    \<open>__init__\<close> aliases and mutates, is one shared object), the callback log and the
    address of the global dict.  \<open>ytdl_pafy_init\<close>, \<open>fetch_basic\<close>, \<open>fetch_gdata\<close> and
    \<open>process_streams\<close> are the methods; the extraction backend and \<open>time.time\<close> are
    the parameter record \<open>backend\<close>, the \<open>g\<close> module's constants the record \<open>gconf\<close>.
    The lazy handle is the step relation \<open>pafy_step\<close> with reachability
    \<open>pafy_reach\<close>; \<open>lifecycle\<close> and \<open>lc_op\<close> are its abstract specification.
  \<^item> Download: \<open>YtdlStream.download\<close> (lines 149-208) and the \<open>ydl\<close> stand-in
    (211-228).  The world is extended (\<open>dworld\<close>) with the file system, standard
    output, the logs of callback and remux calls, and the URLs opened.  \<open>norm_progress\<close> is lines
    160-162, \<open>progress_hook\<close> lines 166-185, \<open>resolve_target\<close> lines 189-197,
    \<open>download\<close> the whole method.  The HTTP transport is a trace of chunk and status
    events (\<open>run_transfer\<close>, \<open>http_download\<close>), ending normally, by an exception, or
    by an error reported through \<open>ydl.report_error\<close>; the stand-in's other methods
    (\<open>ydl_method\<close>, lines 212-225) are events of the trace too: \<open>ydl.urlopen\<close>
    (\<open>ydl_urlopen\<close>) for each request the transport makes, one per chunk on the
    chunked transport, and the reporting methods, which are \<open>pass\<close>.
  \<^item> Module: the import fallback of lines 7-13 (\<open>import_ytdl\<close>) and the download as
    the module runs it (\<open>module_download\<close>), which raises \<open>NameError\<close> at line 158
    when no library was found.

  \<^bold>\<open>What the lemmas show.\<close>
  Stream: the classification, the quality rule, the URL fallback, the resolution
  string and its unique decoding, when the constructor succeeds and the exceptions it
  raises, the two-tier file size, and the 1024-fold repetition a string \<open>abr\<close> gets as raw
  bitrate (C1-C11).  Catalog: each built stream comes from the format at its position
  (C12); the normal, audio and video views partition the catalog as multisets (C14).
  Pafy: one format with \<open>abr\<close> present as \<open>None\<close> loses the whole catalog (C13); the
  default table of \<open>_fetch_basic\<close>, when it succeeds, the error message, the callback
  fired before a \<open>KeyError\<close>, the invariant of every reachable handle (rule induction
  over \<open>pafy_reach\<close>), caching of the catalog, the shared options dict, the secondary
  data (C16-C24), and the refinement of the abstract lifecycle (C36).  Download: no
  rename or remux for non-audio streams, a chunked transfer's progress (strictly
  increasing, ending at fraction 1) and its exact number of updates, partial files kept
  on a transport exception, reported errors swallowed, the hook's branches, remux
  success and failure, the bounds of the target path, the URLs opened (the stream's
  resolved URL, once per chunk) (C25-C35, C37), and that nothing but the hook's lines
  and the final newline reaches standard output (C15).  Module holds definitions only:
  the import fallback and the \<open>NameError\<close> it defers to the first download.  This theory
  composes the handle, its catalog and the downloader: the catalog's audio view is
  exactly the set of streams a download with \<open>remux_audio\<close> remuxes (C38), and the spec's
  end-to-end scenario runs on one world.

  \<^bold>\<open>Bounds and fuel.\<close>
  No fuel is needed: every loop of the code is over a finite list (formats, statements,
  transport events) and is structural recursion.  The chunked transport of the
  specification recurses on the bytes still to fetch, with a \<open>measure\<close> termination
  proof; C37 counts its iterations exactly.  Python integers are unbounded (\<open>int\<close>),
  and progress fractions are rationals.

  \<^bold>\<open>Modelled from the specification\<close> (not under src/): the \<open>g\<close> module's constants,
  \<open>BasePafy.__init__\<close>, the extraction backend, yt-dlp's \<open>HttpFD\<close>,
  \<open>backend_shared.get_size_done\<close> (as the exact quotient; its rounding to two
  decimals is not modelled), \<open>BaseStream.generate_filename\<close>, \<open>os.path.join\<close>,
  \<open>os.rename\<close> and \<open>backend_shared.remux\<close> (a recorded call with a given result).

  \<^bold>\<open>Not modelled.\<close>  Lines 5 and 27 (\<open>uni\<close>, \<open>early_py_version\<close>), names the module
  defines and never uses; which library the import chose, beyond its presence (the
  extraction backend is a parameter); \<open>get_status_string\<close> and the
  text of the status line (kept abstract as \<open>StatusWrite\<close> with the unit and the
  statistics); what \<open>g.opener\<close> does with a URL \<open>ydl.urlopen\<close> hands it (the transport's
  trace stands for the response); \<open>sys.stdout.flush\<close>; the parent reference of streams.
  Floating-point values: yt-dlp reports \<open>abr\<close>, \<open>speed\<close> and \<open>eta\<close> as floats,
  which \<open>pyval\<close> does not have; the model reads them as ints (or bools, strings,
  lists, whose behaviour under \<open>*\<close> and \<open>/\<close> it does model).
\<close>

section \<open>The handle, its catalog and the downloader on one world\<close>

lemma session_streams:
  "\<exists>st1 c. process_streams demo_g demo_backend (ytdl_pafy_init demo_dworld ''abc'' True []) = (None, st1) \<and>
     catalog (fst st1) = Some c \<and> audiostreams c = [opus_stream] \<and>
     allstreams c = [opus_stream, vp9_stream] \<and>
     snd st1 = demo_dworld\<lparr>cb_log := [''Fetched video info'']\<rparr>"
  by (simp add: process_streams_def fetch_basic_def basic_fields_def set_attr_def stmt_extract_def
      stmt_callback_def stmt_have_basic_def first_category_def best_thumb_def py_seq_index_def
      ytdl_pafy_init_def base_pafy_def demo_backend_def demo_info_def demo_g_def build_catalog_def
      ytdl_stream_dict resolve_url_str dget_def desc_opus_def desc_vp9_def plain_url_def manifest_prefix_def
      demo_dworld_def partition_streams_def opus_stream_def vp9_stream_def stream_of_dict_def media_of_def Let_def)

lemma session_transfer:
  "http_download env_25mib http_chunk_size ''/tmp/Demo.webm'' (url opus_stream)
      (progress_hook (norm_progress ''Bytes'') True False) W =
      (None, W\<lparr>fs := (fs W)(''/tmp/Demo.webm'' \<mapsto> File 26214400), opened := opened W @ replicate 3 (url opus_stream)\<rparr>)"
proof -
  have e: "http env_25mib = (\<lambda>u c. chunked_transfer 26214400 u c)" by (simp add: env_25mib_def)
  have dv: "unit_divisor (norm_progress ''Bytes'') = Inr 1" by (simp add: unit_divisor_def norm_progress_def)
  show ?thesis
    using http_download_chunked [OF _ e dv, where path = "''/tmp/Demo.webm''" and u = "url opus_stream"
      and quiet = True and cb = False and w = W] chunk_points_length [of http_chunk_size 26214400 0]
    by (simp add: http_chunk_size_def)
qed

lemma session_target:
  "resolve_target demo_gen False ''/tmp'' (demo_dworld\<lparr>cb_log := l\<rparr>) = ''/tmp/Demo.webm''"
  by (simp add: resolve_target_def demo_dworld_def demo_gen_def generate_filename_def path_join_def temp_suffix_def)

lemma session_download:
  "(case download env_25mib opus_stream demo_gen ''/tmp'' True ''Bytes'' False False (PyStr ''m4a'')
          (demo_dworld\<lparr>cb_log := [''Fetched video info'']\<rparr>) of (r, w) \<Rightarrow>
     r = Inr ''/tmp/Demo.webm'' \<and> fs w ''/tmp/Demo.webm'' = Some (File 26000000) \<and>
     fs w ''/tmp/Demo.webm.temp'' = None \<and>
     remux_calls w = [(''/tmp/Demo.webm.temp'', ''/tmp/Demo.webm'', True, PyStr ''m4a'')] \<and>
     cb_log w = [''Fetched video info''] \<and> cb_calls w = [])"
proof -
  define W where "W = demo_dworld\<lparr>cb_log := [''Fetched video info'']\<rparr>"
  have rr: "remux_result env_25mib = Inr 26000000" by (simp add: env_25mib_def)
  have p: "resolve_target demo_gen False ''/tmp'' W = ''/tmp/Demo.webm''"
    unfolding W_def by (rule session_target)
  note hd = session_transfer [of W]
  have "case download env_25mib opus_stream demo_gen ''/tmp'' True ''Bytes'' False False (PyStr ''m4a'') W of (r, w) \<Rightarrow>
     r = Inr ''/tmp/Demo.webm'' \<and> fs w ''/tmp/Demo.webm'' = Some (File 26000000) \<and>
     fs w ''/tmp/Demo.webm.temp'' = None \<and>
     remux_calls w = remux_calls W @ [(''/tmp/Demo.webm.temp'', ''/tmp/Demo.webm'', True, PyStr ''m4a'')] \<and>
     cb_log w = cb_log W \<and> cb_calls w = cb_calls W"
    by (simp add: download_def p hd os_rename_def remux_def rr temp_suffix_def Let_def)
  then show ?thesis by (simp add: W_def demo_dworld_def)
qed

text \<open>The spec's end-to-end scenario on one world: a handle made for video \<open>abc\<close> processes its streams
  (fetching the basic data on the way, so the callback hears \<open>Fetched video info\<close>), its
  catalog's audio view holds the opus stream, and downloading that stream into \<open>/tmp\<close>
  with remux returns \<open>/tmp/Demo.webm\<close>, which holds the remuxed file while the temp file
  is gone; the callback log of the handle survives the download.\<close>

lemma scenario_handle_to_download:
  "\<exists>st1 c. process_streams demo_g demo_backend (ytdl_pafy_init demo_dworld ''abc'' True []) = (None, st1) \<and>
     catalog (fst st1) = Some c \<and> audiostreams c = [opus_stream] \<and>
     (case download env_25mib (hd (audiostreams c)) demo_gen ''/tmp'' True ''Bytes'' False False (PyStr ''m4a'') (snd st1)
      of (r, w) \<Rightarrow>
        r = Inr ''/tmp/Demo.webm'' \<and> fs w ''/tmp/Demo.webm'' = Some (File 26000000) \<and>
        fs w ''/tmp/Demo.webm.temp'' = None \<and>
        remux_calls w = [(''/tmp/Demo.webm.temp'', ''/tmp/Demo.webm'', True, PyStr ''m4a'')] \<and>
        cb_log w = [''Fetched video info''])"
proof -
  obtain st1 c where s: "process_streams demo_g demo_backend (ytdl_pafy_init demo_dworld ''abc'' True []) = (None, st1)"
    "catalog (fst st1) = Some c" "audiostreams c = [opus_stream]"
    "snd st1 = demo_dworld\<lparr>cb_log := [''Fetched video info'']\<rparr>"
    using session_streams by blast
  have "case download env_25mib (hd (audiostreams c)) demo_gen ''/tmp'' True ''Bytes'' False False (PyStr ''m4a'') (snd st1)
      of (r, w) \<Rightarrow>
        r = Inr ''/tmp/Demo.webm'' \<and> fs w ''/tmp/Demo.webm'' = Some (File 26000000) \<and>
        fs w ''/tmp/Demo.webm.temp'' = None \<and>
        remux_calls w = [(''/tmp/Demo.webm.temp'', ''/tmp/Demo.webm'', True, PyStr ''m4a'')] \<and>
        cb_log w = [''Fetched video info'']"
    using session_download unfolding s(3,4) by (simp split: prod.splits)
  with s(1-3) show ?thesis by (intro exI [of _ st1] exI [of _ c] conjI)
qed


section \<open>Which streams are remuxed\<close>

text \<open>C38: For a stream of the catalog a handle's \<open>_process_streams\<close> stored, downloaded with a truthy
  \<open>remux_audio\<close> over a transfer that completes, the remux collaborator is called exactly when the
  stream is in the catalog's audio view (lines 99-104 against line 203): streams of the normal and
  video views are never remuxed, whatever the caller asks.\<close>

theorem catalog_view_decides_remux:
  assumes "process_streams g be st = (None, st1)" and "catalog (fst st1) = Some c"
    and "s \<in> set (allstreams c)" and "py_truthy rx"
    and "http_download env http_chunk_size (resolve_target gen meta fp w) (url s)
      (progress_hook (norm_progress progress) quiet cb) w = (None, w1)"
    and "download env s gen fp quiet progress cb meta rx w = (r, w')"
  shows "remux_calls w' \<noteq> remux_calls w \<longleftrightarrow> s \<in> set (audiostreams c)"
proof -
  have "build_catalog (ydl_info (fst st1)) = Inr c"
    using process_streams_ok [OF assms(1)] assms(2) by auto
  then have p: "c = partition_streams (allstreams c)"
    using build_catalog_Inr by blast
  define A where "A = allstreams c"
  have "audiostreams c = filter (\<lambda>i. mediatype i = Audio) A"
    using p unfolding A_def [symmetric] by (simp add: partition_streams_def)
  then have au: "s \<in> set (audiostreams c) \<longleftrightarrow> mediatype s = Audio"
    using assms(3) by (simp add: A_def)
  show ?thesis
  proof (cases "mediatype s = Audio")
    case True
    then show ?thesis using download_audio_remux_call [OF True assms(4-6)] au by simp
  next
    case False
    then show ?thesis using download_non_audio [OF False assms(6)] au by simp
  qed
qed

theorem catalog_view_decides_remux_witness:
  "\<exists>st1 c. process_streams demo_g demo_backend (ytdl_pafy_init demo_dworld ''abc'' True []) = (None, st1) \<and>
     catalog (fst st1) = Some c \<and>
     remux_calls (snd (download env_25mib opus_stream demo_gen ''/tmp'' True ''Bytes'' False False (PyStr ''m4a'') (snd st1)))
       \<noteq> remux_calls (snd st1)"
proof -
  obtain st1 c where s: "process_streams demo_g demo_backend (ytdl_pafy_init demo_dworld ''abc'' True []) = (None, st1)"
    "catalog (fst st1) = Some c" "audiostreams c = [opus_stream]" "allstreams c = [opus_stream, vp9_stream]"
    "snd st1 = demo_dworld\<lparr>cb_log := [''Fetched video info'']\<rparr>"
    using session_streams by blast
  have hd: "http_download env_25mib http_chunk_size (resolve_target demo_gen False ''/tmp'' (snd st1)) (url opus_stream)
      (progress_hook (norm_progress ''Bytes'') True False) (snd st1) =
      (None, (snd st1)\<lparr>fs := (fs (snd st1))(''/tmp/Demo.webm'' \<mapsto> File 26214400),
                       opened := opened (snd st1) @ replicate 3 (url opus_stream)\<rparr>)"
    unfolding s(5) session_target by (rule session_transfer)
  have "remux_calls (snd (download env_25mib opus_stream demo_gen ''/tmp'' True ''Bytes'' False False (PyStr ''m4a'') (snd st1)))
       \<noteq> remux_calls (snd st1) \<longleftrightarrow> opus_stream \<in> set (audiostreams c)"
    by (rule catalog_view_decides_remux [OF s(1,2) _ _ hd surjective_pairing]) (simp_all add: s(4))
  with s(1-3) show ?thesis by auto
qed

end
